theory Spec2Isabelle
  imports Complex_Main "HOL-Library.Sublist"
begin

section \<open>DOCX paragraph patching\<close>

text \<open>
  The functions of the DOCX helper module (\<^verbatim>\<open>extractParagraphsFromDocxBase64\<close>,
  \<^verbatim>\<open>distributeAcrossNodes\<close>, \<^verbatim>\<open>patchDocxWithParagraphs\<close>) work on the DOM of
  \<^verbatim>\<open>word/document.xml\<close>. JavaScript strings are sequences of code units;
  \<^verbatim>\<open>length\<close> and \<^verbatim>\<open>slice\<close> count code units. The text type is therefore a list over an
  arbitrary type \<open>'c\<close> of code units.
\<close>

subsection \<open>String.prototype.slice\<close>

definition slice :: "'c list \<Rightarrow> int \<Rightarrow> int \<Rightarrow> 'c list" where
  "slice s start fin =
     (let len = int (length s);
          from = (if start < 0 then max (len + start) 0 else min start len);
          to = (if fin < 0 then max (len + fin) 0 else min fin len)
      in take (nat (max (to - from) 0)) (drop (nat from) s))"

subsection \<open>distributeAcrossNodes\<close>

text \<open>
  The main loop of \<^verbatim>\<open>distributeAcrossNodes\<close>, from node \<open>i\<close> on: the second argument
  holds the original lengths of the nodes \<open>i, i+1, ...\<close>, the third is \<^verbatim>\<open>offset\<close>. The
  result lists the text written to each of these nodes, in order. When
  \<^verbatim>\<open>offset >= text.length\<close> the remaining nodes are cleared and the loop is left.
\<close>

fun distributeLoop :: "'c list \<Rightarrow> nat list \<Rightarrow> int \<Rightarrow> 'c list list" where
  "distributeLoop text [] offset = []"
| "distributeLoop text (l # ls) offset =
     (let take = (if ls = [] then int (length text) - offset
                  else min (int l) (int (length text) - offset));
          part = (if take > 0 then slice text offset (offset + take) else []);
          offset' = offset + max 0 take
      in if offset' \<ge> int (length text) then part # map (\<lambda>_. []) ls
         else part # distributeLoop text ls offset')"

text \<open>
  \<^verbatim>\<open>distributeAcrossNodes(text, nodes)\<close> on the text contents of the nodes (all
  contents are read before the first write); the result is the new content of each
  node. An empty node list is returned as it is.
\<close>

definition distributeAcrossNodes :: "'c list \<Rightarrow> 'c list list \<Rightarrow> 'c list list" where
  "distributeAcrossNodes text nodes =
     (if nodes = [] then []
      else let originalLens = map length nodes;
               totalOriginal = sum_list originalLens
           in if totalOriginal = 0 then text # map (\<lambda>_. []) (tl nodes)
              else distributeLoop text originalLens 0)"


subsection \<open>The DOM of word/document.xml\<close>

text \<open>
  An XML node is a text node or an element with a qualified tag name, attributes and
  children. A node of the document is addressed by its path from the root (the child
  index at each level); the arrays that \<^verbatim>\<open>Array.from(getElementsByTagName(..))\<close> returns
  are lists of such paths, in document order.
\<close>

datatype 'c xml = Text "'c list" | Elem string "(string \<times> 'c list) list" "'c xml list"

type_synonym path = "nat list"



text \<open>The node at a path, if the path leads to one.\<close>

fun subtree :: "'c xml \<Rightarrow> path \<Rightarrow> 'c xml option" where
  "subtree t [] = Some t"
| "subtree (Text s) (i # p) = None"
| "subtree (Elem n a cs) (i # p) = (if i < length cs then subtree (cs ! i) p else None)"

text \<open>\<^verbatim>\<open>node.textContent\<close>: the text of all text nodes below the node, in order.\<close>

fun textContent :: "'c xml \<Rightarrow> 'c list" where
  "textContent (Text s) = s"
| "textContent (Elem n a cs) = concat (map textContent cs)"

text \<open>
  \<^verbatim>\<open>doc.getElementsByTagName(tg)\<close>: the paths of all elements with the tag, the root
  element included, in document order.
\<close>

function docElementsByTagName :: "string \<Rightarrow> 'c xml \<Rightarrow> path list" where
  "docElementsByTagName tg (Text s) = []"
| "docElementsByTagName tg (Elem n a cs) =
     (if n = tg then [[]] else []) @
     concat (map (\<lambda>i. map ((#) i) (docElementsByTagName tg (cs ! i))) [0..<length cs])"
  by pat_completeness auto
termination
proof (relation "measure (\<lambda>(tg, t). size t)")
  show "wf (measure (\<lambda>(tg, t :: 'c xml). size t))" by simp
next
  fix tg n :: string and a :: "(string \<times> 'c list) list" and cs :: "'c xml list" and i :: nat
  assume "i \<in> set [0..<length cs]"
  then have "cs ! i \<in> set cs" by simp
  then have "size (cs ! i) \<le> size_list size cs"
    by (metis order_refl size_list_estimation')
  then show "((tg, cs ! i), (tg, Elem n a cs)) \<in> measure (\<lambda>(tg, t). size t)" by simp
qed

text \<open>
  \<^verbatim>\<open>element.getElementsByTagName(tg)\<close>: the descendants with the tag (the element
  itself is not among them), as paths from the element.
\<close>

definition getElementsByTagName :: "string \<Rightarrow> 'c xml \<Rightarrow> path list" where
  "getElementsByTagName tg t =
     (case t of Text s \<Rightarrow> []
      | Elem n a cs \<Rightarrow>
          concat (map (\<lambda>i. map ((#) i) (docElementsByTagName tg (cs ! i))) [0..<length cs]))"

text \<open>
  Assigning \<^verbatim>\<open>element.textContent = s\<close> replaces the children of the element by one
  text node, or by nothing when \<open>s\<close> is empty.
\<close>

fun setTextContent :: "'c list \<Rightarrow> 'c xml \<Rightarrow> 'c xml" where
  "setTextContent s (Text t) = Text t"
| "setTextContent s (Elem n a cs) = Elem n a (if s = [] then [] else [Text s])"


text \<open>The text of the node at a path (\<^verbatim>\<open>n.textContent || ''\<close>).\<close>

definition textAt :: "'c xml \<Rightarrow> path \<Rightarrow> 'c list" where
  "textAt t p = (case subtree t p of None \<Rightarrow> [] | Some n \<Rightarrow> textContent n)"


subsection \<open>extractParagraphsFromDocxBase64 and patchDocxWithParagraphs\<close>

text \<open>
  A DOCX file is a ZIP archive; the functions read its entry \<^verbatim>\<open>word/document.xml\<close>,
  which may be missing or may fail to parse. The base64 and ZIP codecs are library
  code, taken as lossless: a DOCX value is the decoded archive. Its document entry is
  given by what the XML parser makes of it: the parser rejects it, or returns a tree.
\<close>

datatype 'c documentEntry = MissingEntry | Unparsable | Parsed "'c xml"

record ('c, 'o) docx =
  documentXml :: "'c documentEntry"
  otherEntries :: 'o

datatype docxError = MissingDocumentXml | XmlParseFailed

text \<open>
  \<^verbatim>\<open>getDocXml\<close> followed by \<^verbatim>\<open>parseXml\<close>, which throws when the document that the
  parser returns has an element \<^verbatim>\<open>parsererror\<close>: the parser returns such a document
  for a text that it rejects.
\<close>

definition parseDocument :: "('c, 'o) docx \<Rightarrow> docxError + 'c xml" where
  "parseDocument d =
     (case documentXml d of
        MissingEntry \<Rightarrow> Inl MissingDocumentXml
      | Unparsable \<Rightarrow> Inl XmlParseFailed
      | Parsed doc \<Rightarrow>
          if docElementsByTagName ''parsererror'' doc = [] then Inr doc else Inl XmlParseFailed)"

text \<open>The text of one paragraph: the contents of its \<^verbatim>\<open>w:t\<close> nodes, joined.\<close>

definition paragraphText :: "'c xml \<Rightarrow> 'c list" where
  "paragraphText p = concat (map (textAt p) (getElementsByTagName ''w:t'' p))"

definition extractParagraphs :: "'c xml \<Rightarrow> 'c list list" where
  "extractParagraphs doc =
     map (\<lambda>p. case subtree doc p of None \<Rightarrow> [] | Some e \<Rightarrow> paragraphText e)
       (docElementsByTagName ''w:p'' doc)"

definition extractParagraphsFromDocxBase64 :: "('c, 'o) docx \<Rightarrow> docxError + 'c list list" where
  "extractParagraphsFromDocxBase64 d =
     (case parseDocument d of Inl e \<Rightarrow> Inl e | Inr doc \<Rightarrow> Inr (extractParagraphs doc))"




subsection \<open>Writing the document and reading it back\<close>











subsection \<open>Notions for the properties of patching\<close>












subsection \<open>Example documents\<close>



text \<open>The same two runs, without the structural paragraph.\<close>

definition textDocument :: "char xml" where
  "textDocument =
     Elem ''w:document'' []
       [Elem ''w:body'' []
          [Elem ''w:p'' []
             [Elem ''w:r'' [] [Elem ''w:t'' [] [Text ''Jane '']],
              Elem ''w:r'' [] [Elem ''w:t'' [] [Text ''Doe'']]],
           Elem ''w:p'' [] [Elem ''w:r'' [] [Elem ''w:t'' [] [Text ''Engineer'']]]]]"

definition textDocx :: "(char, unit) docx" where
  "textDocx = \<lparr>documentXml = Parsed textDocument, otherEntries = ()\<rparr>"





section \<open>Scoring the fit of a resume to a job\<close>

text \<open>
  The helpers of the job analysis view. Texts are \<open>string\<close>s whose characters stand
  for the code points up to 255; \<^verbatim>\<open>toLowerCase\<close> maps the capital letters \<open>A\<close> to \<open>Z\<close>
  to small letters, and a character beyond ASCII is never one of \<open>a-z0-9\<close>, before or
  after \<^verbatim>\<open>toLowerCase\<close>, so \<^verbatim>\<open>tokenize\<close> turns it into a separator. JavaScript
  numbers are modelled by exact reals; the scores computed here are ratios of small
  integers, sums and products with 15 and 85, and roundings.
\<close>

subsection \<open>Numbers\<close>

text \<open>\<^verbatim>\<open>const clamp = (n, min, max) => Math.max(min, Math.min(max, n))\<close>\<close>

definition clamp :: "real \<Rightarrow> real \<Rightarrow> real \<Rightarrow> real" where
  "clamp n lo hi = max lo (min hi n)"

text \<open>\<^verbatim>\<open>Math.round\<close>: the nearest integer, a tie going up.\<close>

definition mathRound :: "real \<Rightarrow> int" where
  "mathRound x = \<lfloor>x + 1 / 2\<rfloor>"

subsection \<open>tokenize\<close>

definition toLowerCase :: "string \<Rightarrow> string" where
  "toLowerCase s =
     map (\<lambda>c. let n = (of_char c :: nat) in if 65 \<le> n \<and> n \<le> 90 then char_of (n + 32) else c) s"

text \<open>The class \<^verbatim>\<open>\s\<close>: tab, line feed, vertical tab, form feed, carriage return,
  space and no-break space.\<close>

definition isWhitespace :: "char \<Rightarrow> bool" where
  "isWhitespace c = ((of_char c :: nat) \<in> {9, 10, 11, 12, 13, 32, 160})"

text \<open>The class \<^verbatim>\<open>[a-z0-9]\<close>.\<close>

definition isLowerAlnum :: "char \<Rightarrow> bool" where
  "isLowerAlnum c =
     (let n = (of_char c :: nat) in (97 \<le> n \<and> n \<le> 122) \<or> (48 \<le> n \<and> n \<le> 57))"

text \<open>\<^verbatim>\<open>.replace(/[^a-z0-9\s]/g, ' ')\<close>\<close>

definition replaceNonWordChars :: "string \<Rightarrow> string" where
  "replaceNonWordChars s = map (\<lambda>c. if isLowerAlnum c \<or> isWhitespace c then c else CHR '' '') s"

text \<open>
  \<^verbatim>\<open>.split(/\s+/)\<close>: the pieces between maximal runs of whitespace; a separator at
  the start or at the end of the text gives an empty piece there.
\<close>

function splitWhitespace :: "string \<Rightarrow> string list" where
  "splitWhitespace s =
     (let w = takeWhile (\<lambda>c. \<not> isWhitespace c) s;
          r = dropWhile (\<lambda>c. \<not> isWhitespace c) s
      in if r = [] then [w] else w # splitWhitespace (dropWhile isWhitespace (tl r)))"
  by pat_completeness auto
termination
proof (relation "measure length")
  show "wf (measure (length :: string \<Rightarrow> nat))" by simp
next
  fix s :: string and w r :: string
  assume r: "r = dropWhile (\<lambda>c. \<not> isWhitespace c) s" and ne: "r \<noteq> []"
  have "length (dropWhile isWhitespace (tl r)) \<le> length (tl r)"
    by (rule length_dropWhile_le)
  also have "\<dots> < length r" using ne by simp
  also have "\<dots> \<le> length s" unfolding r by (rule length_dropWhile_le)
  finally show "(dropWhile isWhitespace (tl r), s) \<in> measure length" by simp
qed

definition stopwords :: "string list" where
  "stopwords =
     [''a'', ''an'', ''and'', ''are'', ''as'', ''at'', ''be'', ''but'', ''by'', ''for'', ''from'',
      ''has'', ''have'', ''if'', ''in'', ''into'', ''is'', ''it'', ''its'', ''of'', ''on'', ''or'',
      ''our'', ''s'', ''such'', ''t'', ''that'', ''the'', ''their'', ''then'', ''there'', ''these'',
      ''they'', ''this'', ''to'', ''was'', ''we'', ''were'', ''will'', ''with'', ''you'', ''your'']"

definition tokenize :: "string \<Rightarrow> string list" where
  "tokenize text =
     filter (\<lambda>w. w \<notin> set stopwords)
       (filter (\<lambda>w. length w \<ge> 3)
          (filter (\<lambda>w. w \<noteq> [])
             (splitWhitespace (replaceNonWordChars (toLowerCase text)))))"

subsection \<open>computeHeuristicScore\<close>

text \<open>
  \<^verbatim>\<open>freq.set(w, (freq.get(w) || 0) + 1)\<close> on a \<^verbatim>\<open>Map\<close>, which keeps its keys in the
  order of their first insertion.
\<close>

fun countWord :: "string \<Rightarrow> (string \<times> nat) list \<Rightarrow> (string \<times> nat) list" where
  "countWord w [] = [(w, 1)]"
| "countWord w ((v, n) # freq) = (if v = w then (v, n + 1) # freq else (v, n) # countWord w freq)"

text \<open>
  The forty most frequent words of the job text:
  \<^verbatim>\<open>Array.from(freq.entries()).sort((a, b) => b[1] - a[1]).slice(0, 40).map(([w]) => w)\<close>;
  the sort is stable.
\<close>

definition topJobTerms :: "string list \<Rightarrow> string list" where
  "topJobTerms jobWords =
     map fst (take 40 (sort_key (\<lambda>(w, n). - int n) (fold countWord jobWords [])))"

definition computeHeuristicScore :: "string \<Rightarrow> string \<Rightarrow> int" where
  "computeHeuristicScore resumeText jobText =
     (let jobWords = tokenize jobText;
          resumeWords = tokenize resumeText
      in if length jobWords = 0 \<or> length resumeWords = 0 then 0
         else let top = topJobTerms jobWords;
                  hit = length (filter (\<lambda>w. w \<in> set resumeWords) top);
                  ratio = real hit / real (max 1 (length top));
                  score = mathRound (clamp (15 + ratio * 85) 0 100)
              in score)"

subsection \<open>The score of analyzeMatch\<close>

text \<open>
  A JavaScript number: \<^verbatim>\<open>NaN\<close>, an infinity or a finite value.
\<close>

datatype jsnumber = NaN | PosInfinity | NegInfinity | Finite real

fun isFinite :: "jsnumber \<Rightarrow> bool" where
  "isFinite (Finite x) = True"
| "isFinite _ = False"

text \<open>
  The part of \<^verbatim>\<open>analyzeMatch\<close> that follows \<^verbatim>\<open>JSON.parse\<close>, for the reported score
  \<^verbatim>\<open>aiScore = Number(data?.score)\<close>: the score stored in the result and the flag
  \<^verbatim>\<open>usedHeuristic\<close>.
\<close>

record matchScore =
  score :: int
  usedHeuristic :: bool

definition analyzeMatchScore :: "jsnumber \<Rightarrow> string \<Rightarrow> string \<Rightarrow> matchScore" where
  "analyzeMatchScore aiScore resumeText jobText =
     (let safeScore = (case aiScore of Finite x \<Rightarrow> Finite (clamp x 0 100) | _ \<Rightarrow> NaN);
          heuristic = computeHeuristicScore resumeText jobText;
          shouldFallback = (\<not> isFinite safeScore \<or> (safeScore = Finite 0 \<and> heuristic \<ge> 20));
          finalScore = (if shouldFallback then real_of_int heuristic
                        else (case safeScore of Finite x \<Rightarrow> x | _ \<Rightarrow> 0))
      in \<lparr>score = mathRound finalScore, usedHeuristic = shouldFallback\<rparr>)"

subsection \<open>JSON values and the JavaScript runtime\<close>

text \<open>
  The value that \<^verbatim>\<open>JSON.parse\<close> returns. The members of an object are listed in the
  order in which \<^verbatim>\<open>Object.entries\<close> enumerates them.
\<close>

datatype json =
    JNull
  | JBool bool
  | JNum jsnumber
  | JStr string
  | JArr "json list"
  | JObj "(string \<times> json) list"

text \<open>
  The built-in operations whose results the code only passes on are parameters of the
  model: \<^verbatim>\<open>JSON.parse\<close> (\<open>None\<close> when it throws a \<^verbatim>\<open>SyntaxError\<close>), \<^verbatim>\<open>Number\<close> of a
  string, \<^verbatim>\<open>Number\<close> and \<^verbatim>\<open>String\<close> of an array or object (\<open>None\<close> when the
  conversion throws a \<^verbatim>\<open>TypeError\<close>) and \<^verbatim>\<open>String\<close> of a number.
\<close>

record jsRuntime =
  jsonParse :: "string \<Rightarrow> json option"
  stringToNumber :: "string \<Rightarrow> jsnumber"
  objectToNumber :: "json \<Rightarrow> jsnumber option"
  numberToString :: "jsnumber \<Rightarrow> string"
  objectToString :: "json \<Rightarrow> string option"

text \<open>\<^verbatim>\<open>v?.key\<close>: the member of an object, \<^verbatim>\<open>undefined\<close> (\<open>None\<close>) otherwise.\<close>

fun getProp :: "json \<Rightarrow> string \<Rightarrow> json option" where
  "getProp (JObj members) key = map_of members key"
| "getProp _ key = None"

text \<open>\<^verbatim>\<open>Number(v)\<close>, where \<open>None\<close> as argument is \<^verbatim>\<open>undefined\<close>.\<close>

fun toNumber :: "jsRuntime \<Rightarrow> json option \<Rightarrow> jsnumber option" where
  "toNumber rt None = Some NaN"
| "toNumber rt (Some JNull) = Some (Finite 0)"
| "toNumber rt (Some (JBool b)) = Some (Finite (if b then 1 else 0))"
| "toNumber rt (Some (JNum n)) = Some n"
| "toNumber rt (Some (JStr s)) = Some (stringToNumber rt s)"
| "toNumber rt (Some (JArr vs)) = objectToNumber rt (JArr vs)"
| "toNumber rt (Some (JObj members)) = objectToNumber rt (JObj members)"

text \<open>\<^verbatim>\<open>String(v ?? '')\<close>, where \<open>None\<close> as argument is \<^verbatim>\<open>undefined\<close>.\<close>

fun toStringOrEmpty :: "jsRuntime \<Rightarrow> json option \<Rightarrow> string option" where
  "toStringOrEmpty rt None = Some []"
| "toStringOrEmpty rt (Some JNull) = Some []"
| "toStringOrEmpty rt (Some (JBool b)) = Some (if b then ''true'' else ''false'')"
| "toStringOrEmpty rt (Some (JNum n)) = Some (numberToString rt n)"
| "toStringOrEmpty rt (Some (JStr s)) = Some s"
| "toStringOrEmpty rt (Some (JArr vs)) = objectToString rt (JArr vs)"
| "toStringOrEmpty rt (Some (JObj members)) = objectToString rt (JObj members)"

subsection \<open>extractJsonObject\<close>

text \<open>
  \<^verbatim>\<open>text.replace(/pat/g, '')\<close> for a literal pattern: the matches are found from left
  to right and do not overlap. The function \<open>cf\<close> folds the case of a character
  when the pattern has the flag \<^verbatim>\<open>i\<close>.
\<close>

function removeLiteral :: "(char \<Rightarrow> char) \<Rightarrow> string \<Rightarrow> string \<Rightarrow> string" where
  "removeLiteral cf pat [] = []"
| "removeLiteral cf pat (c # s) =
     (if pat \<noteq> [] \<and> map cf (take (length pat) (c # s)) = pat
      then removeLiteral cf pat (drop (length pat) (c # s))
      else c # removeLiteral cf pat s)"
  by pat_completeness auto
termination
  by (relation "measure (\<lambda>(cf, pat, s). length s)") auto

definition lowerChar :: "char \<Rightarrow> char" where
  "lowerChar c = (let n = (of_char c :: nat) in if 65 \<le> n \<and> n \<le> 90 then char_of (n + 32) else c)"

text \<open>\<^verbatim>\<open>String.prototype.trim\<close>\<close>

definition trim :: "string \<Rightarrow> string" where
  "trim s = rev (dropWhile isWhitespace (rev (dropWhile isWhitespace s)))"

text \<open>\<^verbatim>\<open>indexOf\<close> and \<^verbatim>\<open>lastIndexOf\<close> of one character; \<open>-1\<close> when it does not occur.\<close>

definition indexOfChar :: "string \<Rightarrow> char \<Rightarrow> int" where
  "indexOfChar s c = (if c \<in> set s then int (length (takeWhile (\<lambda>x. x \<noteq> c) s)) else - 1)"

definition lastIndexOfChar :: "string \<Rightarrow> char \<Rightarrow> int" where
  "lastIndexOfChar s c =
     (if c \<in> set s then int (length s) - 1 - int (length (takeWhile (\<lambda>x. x \<noteq> c) (rev s))) else - 1)"

definition extractJsonObject :: "string \<Rightarrow> string" where
  "extractJsonObject text =
     (let cleaned = trim (removeLiteral id ''```'' (removeLiteral lowerChar ''```json'' text));
          start = indexOfChar cleaned CHR ''{'';
          fin = lastIndexOfChar cleaned CHR ''}''
      in if start = - 1 \<or> fin = - 1 \<or> fin \<le> start then cleaned
         else slice cleaned start (fin + 1))"

subsection \<open>analyzeMatch\<close>

datatype aiProvider = OpenAI | Gemini

record settingsState =
  openaiApiKey :: string
  geminiApiKey :: string
  aiProvider :: aiProvider

datatype analysisError =
    GeminiKeyMissing
  | OpenAIKeyMissing
  | RequestFailed string
  | JsonSyntaxError
  | ConversionTypeError

text \<open>
  \<^verbatim>\<open>analyzeMatch\<close> up to the score of its result: the request to the provider
  (\<open>callApi\<close> returns the response text or the message of the error it throws), the
  extraction and parsing of the JSON object, and the score. An error ends in the
  \<^verbatim>\<open>catch\<close> block, which sets no result.
\<close>

definition analyzeMatch ::
  "jsRuntime \<Rightarrow> settingsState \<Rightarrow> (aiProvider \<Rightarrow> string \<Rightarrow> string + string) \<Rightarrow> string \<Rightarrow>
   string \<Rightarrow> string \<Rightarrow> analysisError + matchScore" where
  "analyzeMatch rt settings callApi prompt resumeParsedText jobDescription =
     (if aiProvider settings = Gemini \<and> geminiApiKey settings = [] then Inl GeminiKeyMissing
      else if aiProvider settings \<noteq> Gemini \<and> openaiApiKey settings = [] then Inl OpenAIKeyMissing
      else case callApi (aiProvider settings) prompt of
        Inl message \<Rightarrow> Inl (RequestFailed message)
      | Inr responseText \<Rightarrow>
          (case jsonParse rt (extractJsonObject responseText) of
             None \<Rightarrow> Inl JsonSyntaxError
           | Some data \<Rightarrow>
               (case toNumber rt (getProp data ''score'') of
                  None \<Rightarrow> Inl ConversionTypeError
                | Some aiScore \<Rightarrow>
                    Inr (analyzeMatchScore aiScore resumeParsedText jobDescription))))"

text \<open>A runtime for examples: it parses two fixed response texts.\<close>

definition exampleRuntime :: jsRuntime where
  "exampleRuntime =
     \<lparr>jsonParse = (\<lambda>s.
          if s = ''{\"score\": 0}'' then Some (JObj [(''score'', JNum (Finite 0))])
          else if s = ''{\"score\": 87.4}'' then Some (JObj [(''score'', JNum (Finite (874 / 10)))])
          else if s = ''{\"match\": \"good\"}'' then Some (JObj [(''match'', JStr ''good'')])
          else None),
      stringToNumber = (\<lambda>s. NaN),
      objectToNumber = (\<lambda>v. Some NaN),
      numberToString = (\<lambda>n. ''0''),
      objectToString = (\<lambda>v. Some ''[object Object]'')\<rparr>"

definition exampleSettings :: settingsState where
  "exampleSettings = \<lparr>openaiApiKey = [], geminiApiKey = ''key'', aiProvider = Gemini\<rparr>"

text \<open>Two providers for examples: a reply with the score 0 and a reply without a score.\<close>

definition zeroReply :: "aiProvider \<Rightarrow> string \<Rightarrow> string + string" where
  "zeroReply provider prompt = Inr ''```json {\"score\": 0}```''"

definition noScoreReply :: "aiProvider \<Rightarrow> string \<Rightarrow> string + string" where
  "noScoreReply provider prompt = Inr ''{\"match\": \"good\"}''"

section \<open>Stored records, local storage and the cloud store\<close>

subsection \<open>The stored records\<close>

text \<open>
  The interfaces of the type module. Every record has its own field names here
  (\<open>r_\<close> for \<^verbatim>\<open>Resume\<close>, \<open>o_\<close> for the fields that \<^verbatim>\<open>OptimizedResume\<close> adds,
  \<open>j_\<close> for \<^verbatim>\<open>JobPosting\<close>, \<open>a_\<close> for \<^verbatim>\<open>Application\<close>, \<open>c_\<close> for
  \<^verbatim>\<open>CoverLetter\<close>). An optional field is an \<open>option\<close>; a time is the number of
  milliseconds that \<^verbatim>\<open>Date.now()\<close> returns.
\<close>

record resume =
  r_id :: string
  r_name :: string
  r_content :: string
  r_parsedText :: string
  r_uploadDate :: int
  r_isDefault :: bool
  r_originalFileUrl :: "string option"
  r_originalFileProvider :: "unit option"
  r_originalFilePublicId :: "string option"
  r_originalFileMimeType :: "string option"
  r_originalFileName :: "string option"

record optimizedResume = resume +
  o_originalResumeId :: string
  o_jobId :: string
  o_modifications :: "string list"

record jobPosting =
  j_id :: string
  j_title :: string
  j_company :: string
  j_description :: string
  j_url :: string
  j_extractedDate :: int
  j_location :: "string option"
  j_salary :: "string option"
  j_postedDate :: "string option"
  j_platform :: "string option"

datatype applicationStatus = Draft | Applied | Interviewing | Rejected | Accepted

record application =
  a_id :: string
  a_jobId :: string
  a_resumeId :: string
  a_coverLetterId :: "string option"
  a_appliedDate :: int
  a_status :: applicationStatus

record coverLetter =
  c_id :: string
  c_jobId :: string
  c_content :: string
  c_createdDate :: int

subsection \<open>Local browser storage\<close>

text \<open>
  The state that \<^verbatim>\<open>updateCloudSyncState\<close> keeps under the key \<^verbatim>\<open>cloudSync\<close>.
\<close>

record cloudSyncState =
  cs_uid :: "string option"
  cs_enabled :: "bool option"
  cs_lastPushAt :: "int option"
  cs_lastPullAt :: "int option"
  cs_lastError :: "string option"
  cs_lastErrorAt :: "int option"

text \<open>
  The keys of \<^verbatim>\<open>chrome.storage.local\<close> that hold records. Every reader takes a
  missing list as empty (\<^verbatim>\<open>result.jobs || []\<close>), so a list that was never written is
  the empty list here.
\<close>

record storage =
  resumes :: "resume list"
  jobs :: "jobPosting list"
  applications :: "application list"
  coverLetters :: "coverLetter list"
  optimizedResumes :: "optimizedResume list"
  cloudSync :: cloudSyncState

text \<open>\<^verbatim>\<open>Array.prototype.findIndex\<close>: the first index whose element passes, or \<open>-1\<close>.\<close>

fun findIndex :: "('a \<Rightarrow> bool) \<Rightarrow> 'a list \<Rightarrow> int" where
  "findIndex P [] = - 1"
| "findIndex P (x # xs) =
     (if P x then 0 else let i = findIndex P xs in if i < 0 then - 1 else i + 1)"

subsection \<open>StorageManager and the background worker\<close>

text \<open>\<^verbatim>\<open>StorageManager.saveResume\<close>\<close>

definition saveResume :: "resume \<Rightarrow> storage \<Rightarrow> storage" where
  "saveResume resume st =
     (let stored = resumes st;
          stored' = (if r_isDefault resume then map (\<lambda>r. r\<lparr>r_isDefault := False\<rparr>) stored
                     else stored)
      in st\<lparr>resumes := stored' @ [resume]\<rparr>)"

text \<open>\<^verbatim>\<open>StorageManager.deleteResume\<close>\<close>

definition deleteResume :: "string \<Rightarrow> storage \<Rightarrow> storage" where
  "deleteResume ident st = st\<lparr>resumes := filter (\<lambda>r. r_id r \<noteq> ident) (resumes st)\<rparr>"

text \<open>
  The storage step of the upload view: every stored resume loses the default flag,
  then the uploaded resume is appended; the view builds it with
  \<^verbatim>\<open>isDefault: true\<close>.
\<close>

definition storeUploadedResume :: "resume \<Rightarrow> storage \<Rightarrow> storage" where
  "storeUploadedResume resume st =
     st\<lparr>resumes := map (\<lambda>r. r\<lparr>r_isDefault := False\<rparr>) (resumes st) @ [resume\<lparr>r_isDefault := True\<rparr>]\<rparr>"

text \<open>
  \<^verbatim>\<open>StorageManager.importData\<close> writes the keys that the given data has; here, for the
  resumes.
\<close>

definition importResumes :: "resume list option \<Rightarrow> storage \<Rightarrow> storage" where
  "importResumes dat st = (case dat of None \<Rightarrow> st | Some rs \<Rightarrow> st\<lparr>resumes := rs\<rparr>)"

text \<open>\<^verbatim>\<open>StorageManager.saveJob\<close>\<close>

definition saveJob :: "jobPosting \<Rightarrow> storage \<Rightarrow> storage" where
  "saveJob job st =
     (let stored = jobs st;
          existingIndex = findIndex (\<lambda>j. j_url j = j_url job) stored
      in if existingIndex \<ge> 0 then st\<lparr>jobs := stored[nat existingIndex := job]\<rparr>
         else st\<lparr>jobs := stored @ [job]\<rparr>)"

text \<open>
  \<^verbatim>\<open>handleJobExtraction\<close> of the background worker, for the job of the payload: the
  new storage and the response that is sent.
\<close>

datatype extractionResponse = ExtractionSucceeded jobPosting | ExtractionFailed string

definition handleJobExtraction :: "jobPosting \<Rightarrow> storage \<Rightarrow> storage \<times> extractionResponse" where
  "handleJobExtraction job st =
     (let stored = jobs st;
          existingJobIndex = findIndex (\<lambda>j. j_url j = j_url job) stored;
          stored' = (if existingJobIndex \<ge> 0 then stored[nat existingJobIndex := job]
                     else stored @ [job])
      in (st\<lparr>jobs := stored'\<rparr>, ExtractionSucceeded job))"

text \<open>At most one stored resume is the default.\<close>

definition atMostOneDefault :: "resume list \<Rightarrow> bool" where
  "atMostOneDefault rs = (length (filter r_isDefault rs) \<le> 1)"

subsection \<open>Firebase configuration\<close>

text \<open>The build-time variables that \<^verbatim>\<open>isFirebaseEnabled\<close> reads.\<close>

record firebaseEnv =
  FIREBASE_SYNC_ENABLED :: "string option"
  FIREBASE_API_KEY :: "string option"
  FIREBASE_AUTH_DOMAIN :: "string option"
  FIREBASE_PROJECT_ID :: "string option"
  FIREBASE_APP_ID :: "string option"

text \<open>A variable is truthy when it is set and not empty.\<close>

definition truthy :: "string option \<Rightarrow> bool" where
  "truthy v = (case v of None \<Rightarrow> False | Some s \<Rightarrow> s \<noteq> [])"

definition isFirebaseEnabled :: "firebaseEnv \<Rightarrow> bool" where
  "isFirebaseEnabled env =
     (let enabled = toLowerCase (case FIREBASE_SYNC_ENABLED env of
                                   None \<Rightarrow> ''true''
                                 | Some s \<Rightarrow> if s = [] then ''true'' else s)
      in if enabled = ''0'' \<or> enabled = ''false'' \<or> enabled = ''no'' then False
         else truthy (FIREBASE_API_KEY env) \<and> truthy (FIREBASE_AUTH_DOMAIN env) \<and>
              truthy (FIREBASE_PROJECT_ID env) \<and> truthy (FIREBASE_APP_ID env))"

text \<open>
  What the Firebase SDK contributes: whether its initialisation succeeds, the uid of
  the signed-in user if there is one, and whether requests to Firestore fail (with
  the message of the error).
\<close>

record firebase =
  initSucceeds :: bool
  currentUser :: "string option"
  requestFailure :: "string option"

text \<open>
  \<^verbatim>\<open>getFirestore()\<close> and \<^verbatim>\<open>getFirebaseAuth()\<close> are non-null exactly when Firebase is
  enabled and was initialised.
\<close>

definition firebaseReady :: "firebaseEnv \<Rightarrow> firebase \<Rightarrow> bool" where
  "firebaseReady env fb = (isFirebaseEnabled env \<and> initSucceeds fb)"

subsection \<open>The cloud store\<close>

text \<open>
  The documents of one user, per collection, in the order in which \<^verbatim>\<open>getDocs\<close>
  returns them, each with its document id. A resume document may carry the chunks of
  a PDF that an older version stored.
\<close>

record resumeDoc =
  d_resume :: resume
  d_pdfChunkCount :: int
  d_pdfChunks :: "(int \<times> string) list"

record cloudUser =
  cloudResumes :: "(string \<times> resumeDoc) list"
  cloudOptimized :: "(string \<times> optimizedResume) list"
  cloudLetters :: "(string \<times> coverLetter) list"
  cloudApplications :: "(string \<times> application) list"
  cloudJobs :: "(string \<times> jobPosting) list"

record world =
  localStore :: storage
  cloud :: "string \<Rightarrow> cloudUser"

datatype syncError =
    NotConfigured
  | SignInRequired
  | AuthFailed
  | FirestoreError string

text \<open>\<^verbatim>\<open>setDoc(ref, data, { merge: true })\<close> and \<^verbatim>\<open>deleteDoc(ref)\<close> on a collection.\<close>

fun setDoc :: "string \<Rightarrow> 'd \<Rightarrow> (string \<times> 'd) list \<Rightarrow> (string \<times> 'd) list" where
  "setDoc k v [] = [(k, v)]"
| "setDoc k v ((k', v') # docs) = (if k' = k then (k, v) # docs else (k', v') # setDoc k v docs)"

definition deleteDoc :: "string \<Rightarrow> (string \<times> 'd) list \<Rightarrow> (string \<times> 'd) list" where
  "deleteDoc k docs = filter (\<lambda>(k', v). k' \<noteq> k) docs"

text \<open>\<^verbatim>\<open>value || null\<close> for an optional string.\<close>

definition orNull :: "string option \<Rightarrow> string option" where
  "orNull v = (if truthy v then v else None)"

text \<open>\<^verbatim>\<open>updateCloudSyncState(patch)\<close>, the patch given as the change it makes.\<close>

definition updateCloudSyncState ::
  "firebaseEnv \<Rightarrow> (cloudSyncState \<Rightarrow> cloudSyncState) \<Rightarrow> world \<Rightarrow> world" where
  "updateCloudSyncState env patch w =
     w\<lparr>localStore := (localStore w)
          \<lparr>cloudSync := (patch (cloudSync (localStore w)))\<lparr>cs_enabled := Some (isFirebaseEnabled env)\<rparr>\<rparr>\<rparr>"

definition pushedAt :: "int \<Rightarrow> cloudSyncState \<Rightarrow> cloudSyncState" where
  "pushedAt now s = s\<lparr>cs_lastPushAt := Some now, cs_lastError := None\<rparr>"

definition pulledAt :: "int \<Rightarrow> cloudSyncState \<Rightarrow> cloudSyncState" where
  "pulledAt now s = s\<lparr>cs_lastPullAt := Some now, cs_lastError := None\<rparr>"

text \<open>
  The change that a \<^verbatim>\<open>catch\<close> block records: the message of the error and the time.
  The arrow in the message of the sign-in error is written \<^verbatim>\<open>->\<close> here.
\<close>

definition failedAt :: "syncError \<Rightarrow> int \<Rightarrow> cloudSyncState \<Rightarrow> cloudSyncState" where
  "failedAt e now s =
     s\<lparr>cs_lastError := Some (case e of
                               NotConfigured \<Rightarrow> ''Firebase is not configured. Add Firebase env vars and rebuild.''
                             | SignInRequired \<Rightarrow>
                                 ''Cloud sync requires sign-in. Go to Settings -> Cloud Sync Account and sign in (or tap Continue as guest) first.''
                             | AuthFailed \<Rightarrow> ''Firebase auth failed''
                             | FirestoreError m \<Rightarrow> m),
       cs_lastErrorAt := Some now\<rparr>"

text \<open>\<^verbatim>\<open>ensureUser\<close>: the uid of the signed-in user, recorded in the sync state.\<close>

definition ensureUser :: "firebaseEnv \<Rightarrow> firebase \<Rightarrow> world \<Rightarrow> syncError + (string \<times> world)" where
  "ensureUser env fb w =
     (if \<not> firebaseReady env fb then Inl NotConfigured
      else case currentUser fb of
             None \<Rightarrow> Inl SignInRequired
           | Some uid \<Rightarrow>
               if uid = [] then Inl AuthFailed
               else Inr (uid, updateCloudSyncState env (\<lambda>s. s\<lparr>cs_uid := Some uid\<rparr>) w))"

text \<open>
  The common shape of the five push operations: leave at once when Firebase is not
  enabled; fail when Firestore is missing; find the user; write the document; record
  the push. The result is the error thrown, if any, and the new state.
\<close>

definition pushDocument ::
  "firebaseEnv \<Rightarrow> firebase \<Rightarrow> int \<Rightarrow> (cloudUser \<Rightarrow> cloudUser) \<Rightarrow> world \<Rightarrow> syncError option \<times> world" where
  "pushDocument env fb now write w =
     (if \<not> isFirebaseEnabled env then (None, w)
      else if \<not> firebaseReady env fb then (Some NotConfigured, w)
      else case ensureUser env fb w of
             Inl e \<Rightarrow> (Some e, w)
           | Inr (uid, w1) \<Rightarrow>
               (case requestFailure fb of
                  Some m \<Rightarrow> (Some (FirestoreError m), w1)
                | None \<Rightarrow>
                    (None, updateCloudSyncState env (pushedAt now)
                             (w1\<lparr>cloud := (cloud w1)(uid := write (cloud w1 uid))\<rparr>))))"

text \<open>The fields of a resume that a push sends; the file content is not among them.\<close>

definition resumeFields :: "resume \<Rightarrow> resume" where
  "resumeFields r =
     r\<lparr>r_content := [],
       r_originalFileUrl := orNull (r_originalFileUrl r),
       r_originalFilePublicId := orNull (r_originalFilePublicId r),
       r_originalFileMimeType := orNull (r_originalFileMimeType r),
       r_originalFileName := orNull (r_originalFileName r)\<rparr>"

definition mergeResumeDoc :: "resume \<Rightarrow> (string \<times> resumeDoc) list \<Rightarrow> (string \<times> resumeDoc) list" where
  "mergeResumeDoc r docs =
     (case map_of docs (r_id r) of
        None \<Rightarrow> setDoc (r_id r) \<lparr>d_resume = resumeFields r, d_pdfChunkCount = 0, d_pdfChunks = []\<rparr> docs
      | Some d \<Rightarrow> setDoc (r_id r) (d\<lparr>d_resume := resumeFields r\<rparr>) docs)"

definition tryCloudSyncResume ::
  "firebaseEnv \<Rightarrow> firebase \<Rightarrow> int \<Rightarrow> resume \<Rightarrow> world \<Rightarrow> syncError option \<times> world" where
  "tryCloudSyncResume env fb now r =
     pushDocument env fb now (\<lambda>u. u\<lparr>cloudResumes := mergeResumeDoc r (cloudResumes u)\<rparr>)"

definition optimizedFields :: "optimizedResume \<Rightarrow> optimizedResume" where
  "optimizedFields r =
     r\<lparr>r_content := [],
       r_originalFileUrl := orNull (r_originalFileUrl r),
       r_originalFilePublicId := orNull (r_originalFilePublicId r),
       r_originalFileMimeType := orNull (r_originalFileMimeType r),
       r_originalFileName := orNull (r_originalFileName r)\<rparr>"

definition tryCloudSyncOptimizedResume ::
  "firebaseEnv \<Rightarrow> firebase \<Rightarrow> int \<Rightarrow> optimizedResume \<Rightarrow> world \<Rightarrow> syncError option \<times> world" where
  "tryCloudSyncOptimizedResume env fb now optimized =
     pushDocument env fb now
       (\<lambda>u. u\<lparr>cloudOptimized := setDoc (r_id optimized) (optimizedFields optimized) (cloudOptimized u)\<rparr>)"

definition tryCloudSyncCoverLetter ::
  "firebaseEnv \<Rightarrow> firebase \<Rightarrow> int \<Rightarrow> coverLetter \<Rightarrow> world \<Rightarrow> syncError option \<times> world" where
  "tryCloudSyncCoverLetter env fb now letter =
     pushDocument env fb now
       (\<lambda>u. u\<lparr>cloudLetters := setDoc (c_id letter) letter (cloudLetters u)\<rparr>)"

definition jobFields :: "jobPosting \<Rightarrow> jobPosting" where
  "jobFields j =
     j\<lparr>j_location := orNull (j_location j), j_salary := orNull (j_salary j),
       j_postedDate := orNull (j_postedDate j), j_platform := orNull (j_platform j)\<rparr>"

definition tryCloudSyncJob ::
  "firebaseEnv \<Rightarrow> firebase \<Rightarrow> int \<Rightarrow> jobPosting \<Rightarrow> world \<Rightarrow> syncError option \<times> world" where
  "tryCloudSyncJob env fb now job =
     pushDocument env fb now
       (\<lambda>u. u\<lparr>cloudJobs := setDoc (j_id job) (jobFields job) (cloudJobs u)\<rparr>)"

definition tryCloudSyncApplication ::
  "firebaseEnv \<Rightarrow> firebase \<Rightarrow> int \<Rightarrow> application \<Rightarrow> world \<Rightarrow> syncError option \<times> world" where
  "tryCloudSyncApplication env fb now app =
     pushDocument env fb now
       (\<lambda>u. u\<lparr>cloudApplications :=
               setDoc (a_id app) (app\<lparr>a_coverLetterId := orNull (a_coverLetterId app)\<rparr>)
                 (cloudApplications u)\<rparr>)"

text \<open>
  The common shape of the three delete operations: they leave without an error also
  when Firestore is missing, and they do not record anything in the sync state.
\<close>

definition deleteDocument ::
  "firebaseEnv \<Rightarrow> firebase \<Rightarrow> (cloudUser \<Rightarrow> cloudUser) \<Rightarrow> world \<Rightarrow> syncError option \<times> world" where
  "deleteDocument env fb remove w =
     (if \<not> isFirebaseEnabled env then (None, w)
      else if \<not> firebaseReady env fb then (None, w)
      else case ensureUser env fb w of
             Inl e \<Rightarrow> (Some e, w)
           | Inr (uid, w1) \<Rightarrow>
               (case requestFailure fb of
                  Some m \<Rightarrow> (Some (FirestoreError m), w1)
                | None \<Rightarrow> (None, w1\<lparr>cloud := (cloud w1)(uid := remove (cloud w1 uid))\<rparr>)))"

definition tryCloudDeleteOptimizedResume ::
  "firebaseEnv \<Rightarrow> firebase \<Rightarrow> string \<Rightarrow> world \<Rightarrow> syncError option \<times> world" where
  "tryCloudDeleteOptimizedResume env fb ident =
     deleteDocument env fb (\<lambda>u. u\<lparr>cloudOptimized := deleteDoc ident (cloudOptimized u)\<rparr>)"

definition tryCloudDeleteCoverLetter ::
  "firebaseEnv \<Rightarrow> firebase \<Rightarrow> string \<Rightarrow> world \<Rightarrow> syncError option \<times> world" where
  "tryCloudDeleteCoverLetter env fb ident =
     deleteDocument env fb (\<lambda>u. u\<lparr>cloudLetters := deleteDoc ident (cloudLetters u)\<rparr>)"

definition tryCloudDeleteApplication ::
  "firebaseEnv \<Rightarrow> firebase \<Rightarrow> string \<Rightarrow> world \<Rightarrow> syncError option \<times> world" where
  "tryCloudDeleteApplication env fb ident =
     deleteDocument env fb (\<lambda>u. u\<lparr>cloudApplications := deleteDoc ident (cloudApplications u)\<rparr>)"

subsection \<open>tryCloudPullAllToLocal and tryCloudPushAllFromLocal\<close>

text \<open>
  \<^verbatim>\<open>upsertById\<close>: the item replaces the first element with its id, or is appended.
  The code stores \<^verbatim>\<open>{ ...arr[idx], ...item }\<close>; every item that the pull builds sets
  all fields of its type, so the merged object has the fields of the item. The
  function \<open>ident\<close> reads the id.
\<close>

definition upsertById :: "('a \<Rightarrow> string) \<Rightarrow> 'a list \<Rightarrow> 'a \<Rightarrow> 'a list" where
  "upsertById ident arr item =
     (let idx = findIndex (\<lambda>x. ident x = ident item) arr
      in if idx \<ge> 0 then arr[nat idx := item] else arr @ [item])"

text \<open>\<^verbatim>\<open>value ? String(value) : undefined\<close> for an optional string of a document.\<close>

definition orUndefined :: "string option \<Rightarrow> string option" where
  "orUndefined v = (if truthy v then v else None)"

text \<open>
  The resume that the pull builds from a cloud document, given the stored resumes
  at that moment: the content is kept from the stored resume with the same id, or
  put together from the PDF chunks of the document, or empty.
\<close>

definition pulledResume :: "int \<Rightarrow> resume list \<Rightarrow> resumeDoc \<Rightarrow> resume" where
  "pulledResume now stored d =
     (let r = d_resume d;
          url = orUndefined (r_originalFileUrl r);
          existing = find (\<lambda>x. r_id x = r_id r) stored;
          existingContent = (case existing of None \<Rightarrow> [] | Some x \<Rightarrow> r_content x);
          content =
            (if existingContent \<noteq> [] then existingContent
             else if url = None \<and> d_pdfChunkCount d > 0
                  then concat (map snd (sort_key fst (d_pdfChunks d)))
                  else [])
      in \<lparr>r_id = r_id r,
          r_name = (if r_name r = [] then ''Resume'' else r_name r),
          r_content = content,
          r_parsedText = r_parsedText r,
          r_uploadDate = (if r_uploadDate r = 0 then now else r_uploadDate r),
          r_isDefault = r_isDefault r,
          r_originalFileUrl = url,
          r_originalFileProvider = r_originalFileProvider r,
          r_originalFilePublicId = orUndefined (r_originalFilePublicId r),
          r_originalFileMimeType = orUndefined (r_originalFileMimeType r),
          r_originalFileName = orUndefined (r_originalFileName r)\<rparr>)"

definition pulledOptimized :: "int \<Rightarrow> optimizedResume \<Rightarrow> optimizedResume" where
  "pulledOptimized now r =
     r\<lparr>r_name := (if r_name r = [] then ''Optimized Resume'' else r_name r),
       r_content := [],
       r_uploadDate := (if r_uploadDate r = 0 then now else r_uploadDate r),
       r_originalFileUrl := orUndefined (r_originalFileUrl r),
       r_originalFilePublicId := orUndefined (r_originalFilePublicId r),
       r_originalFileMimeType := orUndefined (r_originalFileMimeType r),
       r_originalFileName := orUndefined (r_originalFileName r)\<rparr>"

definition pulledLetter :: "int \<Rightarrow> coverLetter \<Rightarrow> coverLetter" where
  "pulledLetter now l = l\<lparr>c_createdDate := (if c_createdDate l = 0 then now else c_createdDate l)\<rparr>"

definition pulledApplication :: "int \<Rightarrow> application \<Rightarrow> application" where
  "pulledApplication now a =
     a\<lparr>a_coverLetterId := orUndefined (a_coverLetterId a),
       a_appliedDate := (if a_appliedDate a = 0 then now else a_appliedDate a)\<rparr>"

definition pulledJob :: "int \<Rightarrow> jobPosting \<Rightarrow> jobPosting" where
  "pulledJob now j =
     j\<lparr>j_extractedDate := (if j_extractedDate j = 0 then now else j_extractedDate j),
       j_location := orUndefined (j_location j), j_salary := orUndefined (j_salary j),
       j_postedDate := orUndefined (j_postedDate j), j_platform := orUndefined (j_platform j)\<rparr>"

text \<open>The loop over the cloud resumes: each is built against the list as it stands.\<close>

definition mergeCloudResumes :: "int \<Rightarrow> resumeDoc list \<Rightarrow> resume list \<Rightarrow> resume list" where
  "mergeCloudResumes now docs stored =
     fold (\<lambda>d rs. upsertById r_id rs (pulledResume now rs d)) docs stored"

text \<open>
  \<^verbatim>\<open>If cloud has a default resume, enforce one-default locally\<close>: the first default of
  the merged list decides, by its id.
\<close>

definition enforceOneDefault :: "resume list \<Rightarrow> resume list" where
  "enforceOneDefault rs =
     (case find r_isDefault rs of
        None \<Rightarrow> rs
      | Some cloudDefault \<Rightarrow> map (\<lambda>r. r\<lparr>r_isDefault := (r_id r = r_id cloudDefault)\<rparr>) rs)"

text \<open>The lists that a successful pull writes, from the documents of the user.\<close>

definition pullInto :: "int \<Rightarrow> cloudUser \<Rightarrow> storage \<Rightarrow> storage" where
  "pullInto now u st =
     st\<lparr>resumes := enforceOneDefault (mergeCloudResumes now (map snd (cloudResumes u)) (resumes st)),
        optimizedResumes :=
          fold (\<lambda>x xs. upsertById r_id xs (pulledOptimized now x)) (map snd (cloudOptimized u))
            (optimizedResumes st),
        coverLetters :=
          fold (\<lambda>x xs. upsertById c_id xs (pulledLetter now x)) (map snd (cloudLetters u))
            (coverLetters st),
        applications :=
          fold (\<lambda>x xs. upsertById a_id xs (pulledApplication now x)) (map snd (cloudApplications u))
            (applications st),
        jobs :=
          fold (\<lambda>x xs. upsertById j_id xs (pulledJob now x)) (map snd (cloudJobs u)) (jobs st)\<rparr>"

definition tryCloudPullAllToLocal ::
  "firebaseEnv \<Rightarrow> firebase \<Rightarrow> int \<Rightarrow> world \<Rightarrow> syncError option \<times> world" where
  "tryCloudPullAllToLocal env fb now w =
     (if \<not> isFirebaseEnabled env then (None, w)
      else if \<not> firebaseReady env fb then (Some NotConfigured, w)
      else case ensureUser env fb w of
             Inl e \<Rightarrow> (Some e, updateCloudSyncState env (failedAt e now) w)
           | Inr (uid, w1) \<Rightarrow>
               (case requestFailure fb of
                  Some m \<Rightarrow>
                    (Some (FirestoreError m),
                     updateCloudSyncState env (failedAt (FirestoreError m) now) w1)
                | None \<Rightarrow>
                    (None, updateCloudSyncState env (pulledAt now)
                             (w1\<lparr>localStore := pullInto now (cloud w1 uid) (localStore w1)\<rparr>))))"

text \<open>Running an operation for every element of a list, up to the first error.\<close>

fun forEachSync ::
  "('a \<Rightarrow> world \<Rightarrow> syncError option \<times> world) \<Rightarrow> 'a list \<Rightarrow> world \<Rightarrow> syncError option \<times> world" where
  "forEachSync f [] w = (None, w)"
| "forEachSync f (x # xs) w =
     (case f x w of
        (Some e, w') \<Rightarrow> (Some e, w')
      | (None, w') \<Rightarrow> forEachSync f xs w')"

definition andThen ::
  "(world \<Rightarrow> syncError option \<times> world) \<Rightarrow> (world \<Rightarrow> syncError option \<times> world) \<Rightarrow>
   world \<Rightarrow> syncError option \<times> world" where
  "andThen f g w = (case f w of (Some e, w') \<Rightarrow> (Some e, w') | (None, w') \<Rightarrow> g w')"

definition tryCloudPushAllFromLocal ::
  "firebaseEnv \<Rightarrow> firebase \<Rightarrow> int \<Rightarrow> world \<Rightarrow> syncError option \<times> world" where
  "tryCloudPushAllFromLocal env fb now w =
     (if \<not> isFirebaseEnabled env then (None, w)
      else case ensureUser env fb w of
             Inl e \<Rightarrow> (Some e, updateCloudSyncState env (failedAt e now) w)
           | Inr (uid, w1) \<Rightarrow>
               (let st = localStore w1
                in case andThen (forEachSync (tryCloudSyncResume env fb now) (resumes st))
                         (andThen (forEachSync (tryCloudSyncOptimizedResume env fb now) (optimizedResumes st))
                           (andThen (forEachSync (tryCloudSyncCoverLetter env fb now) (coverLetters st))
                             (andThen (forEachSync (tryCloudSyncApplication env fb now) (applications st))
                               (forEachSync (tryCloudSyncJob env fb now) (jobs st))))) w1 of
                     (Some e, w') \<Rightarrow> (Some e, updateCloudSyncState env (failedAt e now) w')
                   | (None, w') \<Rightarrow> (None, updateCloudSyncState env (pushedAt now) w')))"

subsection \<open>Example records and states\<close>

definition exampleResume :: "string \<Rightarrow> bool \<Rightarrow> resume" where
  "exampleResume ident dflt =
     \<lparr>r_id = ident, r_name = ''CV'', r_content = ''UEsDBA=='', r_parsedText = ''Jane Doe'',
      r_uploadDate = 1700000000000, r_isDefault = dflt, r_originalFileUrl = None,
      r_originalFileProvider = None, r_originalFilePublicId = None,
      r_originalFileMimeType = None, r_originalFileName = Some ''cv.docx''\<rparr>"

definition exampleJob :: "string \<Rightarrow> string \<Rightarrow> string \<Rightarrow> jobPosting" where
  "exampleJob ident url title =
     \<lparr>j_id = ident, j_title = title, j_company = ''Acme'', j_description = ''react node'',
      j_url = url, j_extractedDate = 1700000000000, j_location = None, j_salary = None,
      j_postedDate = None, j_platform = None\<rparr>"

definition emptyStorage :: storage where
  "emptyStorage =
     \<lparr>resumes = [], jobs = [], applications = [], coverLetters = [], optimizedResumes = [],
      cloudSync = \<lparr>cs_uid = None, cs_enabled = None, cs_lastPushAt = None, cs_lastPullAt = None,
                   cs_lastError = None, cs_lastErrorAt = None\<rparr>\<rparr>"

definition emptyCloudUser :: cloudUser where
  "emptyCloudUser =
     \<lparr>cloudResumes = [], cloudOptimized = [], cloudLetters = [], cloudApplications = [],
      cloudJobs = []\<rparr>"

definition emptyWorld :: world where
  "emptyWorld = \<lparr>localStore = emptyStorage, cloud = (\<lambda>uid. emptyCloudUser)\<rparr>"

definition enabledEnv :: firebaseEnv where
  "enabledEnv =
     \<lparr>FIREBASE_SYNC_ENABLED = None, FIREBASE_API_KEY = Some ''k'',
      FIREBASE_AUTH_DOMAIN = Some ''d'', FIREBASE_PROJECT_ID = Some ''p'',
      FIREBASE_APP_ID = Some ''a''\<rparr>"

definition disabledEnv :: firebaseEnv where
  "disabledEnv = enabledEnv\<lparr>FIREBASE_SYNC_ENABLED := Some ''False''\<rparr>"

definition signedIn :: firebase where
  "signedIn = \<lparr>initSucceeds = True, currentUser = Some ''u1'', requestFailure = None\<rparr>"

definition twoJobs :: storage where
  "twoJobs = emptyStorage\<lparr>jobs := [exampleJob ''j1'' ''https://a.example/1'' ''Engineer'',
                                   exampleJob ''j2'' ''https://a.example/2'' ''Designer'']\<rparr>"

definition duplicateIdStorage :: storage where
  "duplicateIdStorage =
     saveResume (exampleResume ''r1'' False) (saveResume (exampleResume ''r1'' True) emptyStorage)"

definition duplicateIdWorld :: world where
  "duplicateIdWorld = \<lparr>localStore = duplicateIdStorage, cloud = (\<lambda>uid. emptyCloudUser)\<rparr>"

definition cloudDefaultWorld :: world where
  "cloudDefaultWorld =
     \<lparr>localStore = saveResume (exampleResume ''r2'' True) (saveResume (exampleResume ''r1'' True) emptyStorage),
      cloud = (\<lambda>uid. emptyCloudUser\<lparr>cloudResumes :=
                [(''r1'', \<lparr>d_resume = exampleResume ''r1'' True, d_pdfChunkCount = 0, d_pdfChunks = []\<rparr>)]\<rparr>)\<rparr>"

definition oneResumeStorage :: storage where
  "oneResumeStorage = saveResume (exampleResume ''r1'' True) emptyStorage"

section \<open>The job analysis view: saving and generating\<close>

subsection \<open>The state of the view\<close>

text \<open>
  The properties of the view (the resume and the job it shows, and the settings) and
  the part of its React state that saving and generating read and write.
\<close>

record generatedDocState =
  g_id :: string
  g_text :: string
  g_createdAt :: int

datatype rewriteKind = RewriteResume | RewriteCoverLetter

datatype rewriteStatus = Idle | Generating | Typing | Done | Failed | Cancelled

record analysisResult =
  ar_score :: int
  ar_missingKeywords :: "string list"
  ar_suggestions :: "string list"

record viewProps =
  p_resume :: resume
  p_job :: jobPosting
  p_settings :: settingsState

record viewState =
  rewriteFullText :: string
  rewriteType :: rewriteKind
  rewriteStatus :: rewriteStatus
  optimizedResumeDoc :: "generatedDocState option"
  coverLetterDoc :: "generatedDocState option"
  applicationStatus :: "applicationStatus option"
  saving :: bool
  generatingResume :: bool

subsection \<open>ensureApplication\<close>

text \<open>
  The argument of \<^verbatim>\<open>ensureApplication\<close>: a job id and the fields of the application
  that the caller sets.
\<close>

record applicationPatch =
  ap_jobId :: string
  ap_resumeId :: "string option"
  ap_coverLetterId :: "string option"
  ap_appliedDate :: "int option"
  ap_status :: "applicationStatus option"

text \<open>\<^verbatim>\<open>Object.assign(existing, patch)\<close>\<close>

definition assignPatch :: "applicationPatch \<Rightarrow> application \<Rightarrow> application" where
  "assignPatch patch a =
     a\<lparr>a_jobId := ap_jobId patch,
       a_resumeId := (case ap_resumeId patch of None \<Rightarrow> a_resumeId a | Some r \<Rightarrow> r),
       a_coverLetterId := (case ap_coverLetterId patch of None \<Rightarrow> a_coverLetterId a | Some c \<Rightarrow> Some c),
       a_appliedDate := (case ap_appliedDate patch of None \<Rightarrow> a_appliedDate a | Some d \<Rightarrow> d),
       a_status := (case ap_status patch of None \<Rightarrow> a_status a | Some s \<Rightarrow> s)\<rparr>"

text \<open>
  \<^verbatim>\<open>ensureApplication(patch)\<close>. Its storage callbacks and the cloud pushes it starts
  (whose errors are only logged) run to their end here before the caller goes on; the
  code does not wait for them. \<open>newId\<close> is the id that \<^verbatim>\<open>generateId()\<close> gives a
  new application.
\<close>

definition ensureApplication ::
  "firebaseEnv \<Rightarrow> firebase \<Rightarrow> viewProps \<Rightarrow> int \<Rightarrow> string \<Rightarrow> applicationPatch \<Rightarrow>
   viewState \<times> world \<Rightarrow> viewState \<times> world" where
  "ensureApplication env fb props now newId patch = (\<lambda>(ui, w).
     (let job = p_job props;
          st = localStore w;
          w1 = (case find (\<lambda>j. j_id j = j_id job) (jobs st) of
                  Some j \<Rightarrow> w
                | None \<Rightarrow>
                    snd (tryCloudSyncJob env fb now job
                           (w\<lparr>localStore := st\<lparr>jobs := jobs st @ [job]\<rparr>\<rparr>)));
          st1 = localStore w1;
          idx = findIndex (\<lambda>a. a_jobId a = ap_jobId patch) (applications st1)
      in if idx \<ge> 0 then
           (let existing = assignPatch patch (applications st1 ! nat idx);
                w2 = w1\<lparr>localStore := st1\<lparr>applications := (applications st1)[nat idx := existing]\<rparr>\<rparr>
            in (ui\<lparr>applicationStatus := Some (a_status existing), saving := False\<rparr>,
                snd (tryCloudSyncApplication env fb now existing w2)))
         else
           (let created =
                  \<lparr>a_id = newId,
                   a_jobId = ap_jobId patch,
                   a_resumeId = (case ap_resumeId patch of
                                   None \<Rightarrow> r_id (p_resume props)
                                 | Some r \<Rightarrow> if r = [] then r_id (p_resume props) else r),
                   a_coverLetterId = ap_coverLetterId patch,
                   a_appliedDate = (case ap_appliedDate patch of
                                      None \<Rightarrow> now
                                    | Some d \<Rightarrow> if d = 0 then now else d),
                   a_status = (case ap_status patch of None \<Rightarrow> Draft | Some s \<Rightarrow> s)\<rparr>;
                w2 = w1\<lparr>localStore := st1\<lparr>applications := applications st1 @ [created]\<rparr>\<rparr>
            in (ui\<lparr>applicationStatus := Some (a_status created), saving := False\<rparr>,
                snd (tryCloudSyncApplication env fb now created w2)))))"

subsection \<open>saveGeneratedContent\<close>

datatype saveOutcome =
    NothingToSave
  | AlreadyStored
  | Saved
  | SaveFailed syncError

text \<open>
  The separator in the name of an optimized resume; the code has an em dash between
  two spaces, which is written with a hyphen here.
\<close>

definition nameSeparator :: string where
  "nameSeparator = '' - ''"

text \<open>
  \<^verbatim>\<open>saveGeneratedContent\<close>. It returns at once when there is no generated text. For a
  resume it looks for a stored optimized resume of the same job with the same text;
  if there is one, the view takes its id and nothing is stored; otherwise a new
  record is appended and pushed to the cloud. The same for a cover letter. The
  modifications of a new optimized resume are read from the object that the storage
  read returned (it shadows the analysis result), which has no suggestions, so they
  are empty. \<open>newId\<close> and \<open>newAppId\<close> are the ids that \<^verbatim>\<open>generateId()\<close> returns.
\<close>

definition saveGeneratedContent ::
  "firebaseEnv \<Rightarrow> firebase \<Rightarrow> viewProps \<Rightarrow> int \<Rightarrow> string \<Rightarrow> string \<Rightarrow>
   viewState \<times> world \<Rightarrow> saveOutcome \<times> viewState \<times> world" where
  "saveGeneratedContent env fb props now newId newAppId = (\<lambda>(ui, w).
     (let text = rewriteFullText ui; resume = p_resume props; job = p_job props
      in if text = [] then (NothingToSave, ui, w)
         else if rewriteType ui = RewriteResume then
           (case find (\<lambda>x. o_jobId x = j_id job \<and> r_parsedText x = text)
                   (optimizedResumes (localStore w)) of
              Some existingDuplicate \<Rightarrow>
                (let ui1 = ui\<lparr>saving := True,
                              optimizedResumeDoc :=
                                Some \<lparr>g_id = r_id existingDuplicate, g_text = text,
                                      g_createdAt = r_uploadDate existingDuplicate\<rparr>\<rparr>;
                     (ui2, w2) = ensureApplication env fb props now newAppId
                                   \<lparr>ap_jobId = j_id job, ap_resumeId = Some (r_id existingDuplicate),
                                    ap_coverLetterId = None, ap_appliedDate = None,
                                    ap_status = Some Draft\<rparr> (ui1, w)
                 in (AlreadyStored, ui2\<lparr>saving := False\<rparr>, w2))
            | None \<Rightarrow>
                (let optimized =
                       \<lparr>r_id = newId,
                        r_name = r_name resume @ nameSeparator @ j_company job @ '' ('' @ j_title job @ '')'',
                        r_content = [],
                        r_parsedText = text,
                        r_uploadDate = now,
                        r_isDefault = False,
                        r_originalFileUrl = r_originalFileUrl resume,
                        r_originalFileProvider = r_originalFileProvider resume,
                        r_originalFilePublicId = r_originalFilePublicId resume,
                        r_originalFileMimeType = r_originalFileMimeType resume,
                        r_originalFileName = r_originalFileName resume,
                        o_originalResumeId = r_id resume,
                        o_jobId = j_id job,
                        o_modifications = []\<rparr>;
                     st = localStore w;
                     w1 = w\<lparr>localStore := st\<lparr>optimizedResumes := optimizedResumes st @ [optimized]\<rparr>\<rparr>;
                     ui1 = ui\<lparr>saving := True,
                              optimizedResumeDoc :=
                                Some \<lparr>g_id = newId, g_text = text, g_createdAt = now\<rparr>\<rparr>;
                     (ui2, w2) = ensureApplication env fb props now newAppId
                                   \<lparr>ap_jobId = j_id job, ap_resumeId = Some newId,
                                    ap_coverLetterId = None, ap_appliedDate = None,
                                    ap_status = Some Draft\<rparr> (ui1, w1)
                 in case tryCloudSyncOptimizedResume env fb now optimized w2 of
                      (Some e, w3) \<Rightarrow> (SaveFailed e, ui2\<lparr>saving := False\<rparr>, w3)
                    | (None, w3) \<Rightarrow> (Saved, ui2\<lparr>saving := False\<rparr>, w3)))
         else
           (case find (\<lambda>x. c_jobId x = j_id job \<and> c_content x = text)
                   (coverLetters (localStore w)) of
              Some existingDuplicate \<Rightarrow>
                (let ui1 = ui\<lparr>saving := True,
                              coverLetterDoc :=
                                Some \<lparr>g_id = c_id existingDuplicate, g_text = text,
                                      g_createdAt = c_createdDate existingDuplicate\<rparr>\<rparr>;
                     (ui2, w2) = ensureApplication env fb props now newAppId
                                   \<lparr>ap_jobId = j_id job, ap_resumeId = None,
                                    ap_coverLetterId = Some (c_id existingDuplicate),
                                    ap_appliedDate = None, ap_status = Some Draft\<rparr> (ui1, w)
                 in (AlreadyStored, ui2\<lparr>saving := False\<rparr>, w2))
            | None \<Rightarrow>
                (let letter = \<lparr>c_id = newId, c_jobId = j_id job, c_content = text, c_createdDate = now\<rparr>;
                     st = localStore w;
                     w1 = w\<lparr>localStore := st\<lparr>coverLetters := coverLetters st @ [letter]\<rparr>\<rparr>;
                     ui1 = ui\<lparr>saving := True,
                              coverLetterDoc :=
                                Some \<lparr>g_id = newId, g_text = text, g_createdAt = now\<rparr>\<rparr>;
                     (ui2, w2) = ensureApplication env fb props now newAppId
                                   \<lparr>ap_jobId = j_id job, ap_resumeId = None,
                                    ap_coverLetterId = Some newId, ap_appliedDate = None,
                                    ap_status = Some Draft\<rparr> (ui1, w1)
                 in case tryCloudSyncCoverLetter env fb now letter w2 of
                      (Some e, w3) \<Rightarrow> (SaveFailed e, ui2\<lparr>saving := False\<rparr>, w3)
                    | (None, w3) \<Rightarrow> (Saved, ui2\<lparr>saving := False\<rparr>, w3)))))"

text \<open>
  The last step of \<^verbatim>\<open>generateOptimizedResume\<close>: the generated text is shown; when an
  optimized resume of the job with this text is stored, the view takes its id.
  Storage is only read.
\<close>

definition showGeneratedResume :: "viewProps \<Rightarrow> string \<Rightarrow> storage \<Rightarrow> viewState \<Rightarrow> viewState" where
  "showGeneratedResume props cleaned st ui =
     (case find (\<lambda>x. o_jobId x = j_id (p_job props) \<and> r_parsedText x = cleaned)
             (optimizedResumes st) of
        Some existingDuplicate \<Rightarrow>
          ui\<lparr>optimizedResumeDoc :=
               Some \<lparr>g_id = r_id existingDuplicate, g_text = cleaned,
                     g_createdAt = r_uploadDate existingDuplicate\<rparr>,
             rewriteFullText := cleaned, rewriteStatus := Typing\<rparr>
      | None \<Rightarrow> ui\<lparr>rewriteFullText := cleaned, rewriteStatus := Typing\<rparr>)"


subsection \<open>Example states of the view\<close>

definition exampleProps :: viewProps where
  "exampleProps =
     \<lparr>p_resume = exampleResume ''r1'' True,
      p_job = exampleJob ''j1'' ''https://a.example/1'' ''Engineer'',
      p_settings = exampleSettings\<rparr>"

definition exampleView :: "string \<Rightarrow> rewriteKind \<Rightarrow> viewState" where
  "exampleView text kind =
     \<lparr>rewriteFullText = text, rewriteType = kind, rewriteStatus = Done,
      optimizedResumeDoc = None, coverLetterDoc = None, applicationStatus = None,
      saving = False, generatingResume = False\<rparr>"

definition exampleOptimized :: "string \<Rightarrow> string \<Rightarrow> optimizedResume" where
  "exampleOptimized ident text =
     \<lparr>r_id = ident, r_name = ''CV - Acme (Engineer)'', r_content = [], r_parsedText = text,
      r_uploadDate = 1700000000005, r_isDefault = False, r_originalFileUrl = None,
      r_originalFileProvider = None, r_originalFilePublicId = None,
      r_originalFileMimeType = None, r_originalFileName = Some ''cv.docx'',
      o_originalResumeId = ''r1'', o_jobId = ''j1'', o_modifications = []\<rparr>"

definition storedOptimizedWorld :: "string \<Rightarrow> world" where
  "storedOptimizedWorld text =
     emptyWorld\<lparr>localStore := emptyStorage\<lparr>optimizedResumes := [exampleOptimized ''o1'' text]\<rparr>\<rparr>"

text \<open>A state in which one cover letter, with the given content, is stored for the job.\<close>

definition exampleLetter :: "string \<Rightarrow> string \<Rightarrow> coverLetter" where
  "exampleLetter ident content =
     \<lparr>c_id = ident, c_jobId = ''j1'', c_content = content, c_createdDate = 1700000000007\<rparr>"

definition storedLetterWorld :: "string \<Rightarrow> world" where
  "storedLetterWorld content =
     emptyWorld\<lparr>localStore := emptyStorage\<lparr>coverLetters := [exampleLetter ''l1'' content]\<rparr>\<rparr>"


subsection \<open>Notions for the properties of saving\<close>

text \<open>The stored records of two states are the same (the sync state may differ).\<close>

definition sameRecords :: "world \<Rightarrow> world \<Rightarrow> bool" where
  "sameRecords w' w \<longleftrightarrow>
     resumes (localStore w') = resumes (localStore w) \<and>
     optimizedResumes (localStore w') = optimizedResumes (localStore w) \<and>
     coverLetters (localStore w') = coverLetters (localStore w) \<and>
     applications (localStore w') = applications (localStore w) \<and>
     jobs (localStore w') = jobs (localStore w)"

text \<open>The stored optimized resumes and cover letters of two states are the same.\<close>

definition keepsDocuments :: "world \<Rightarrow> world \<Rightarrow> bool" where
  "keepsDocuments w' w \<longleftrightarrow>
     optimizedResumes (localStore w') = optimizedResumes (localStore w) \<and>
     coverLetters (localStore w') = coverLetters (localStore w)"

text \<open>The first step of \<^verbatim>\<open>ensureApplication\<close>: the job of the view is stored, and pushed, if no stored job has its id.\<close>

definition jobEnsured :: "firebaseEnv \<Rightarrow> firebase \<Rightarrow> viewProps \<Rightarrow> int \<Rightarrow> world \<Rightarrow> world" where
  "jobEnsured env fb props now w =
     (case find (\<lambda>j. j_id j = j_id (p_job props)) (jobs (localStore w)) of
        Some j \<Rightarrow> w
      | None \<Rightarrow>
          snd (tryCloudSyncJob env fb now (p_job props)
                 (w\<lparr>localStore := (localStore w)\<lparr>jobs := jobs (localStore w) @ [p_job props]\<rparr>\<rparr>)))"

text \<open>The stored optimized resume that \<^verbatim>\<open>saveGeneratedContent\<close> finds as a duplicate: the first one of the job with the given text.\<close>

definition resumeDuplicate :: "viewProps \<Rightarrow> string \<Rightarrow> world \<Rightarrow> optimizedResume option" where
  "resumeDuplicate props text w =
     find (\<lambda>x. o_jobId x = j_id (p_job props) \<and> r_parsedText x = text)
       (optimizedResumes (localStore w))"

text \<open>The same for cover letters.\<close>

definition letterDuplicate :: "viewProps \<Rightarrow> string \<Rightarrow> world \<Rightarrow> coverLetter option" where
  "letterDuplicate props text w =
     find (\<lambda>x. c_jobId x = j_id (p_job props) \<and> c_content x = text) (coverLetters (localStore w))"

text \<open>The optimized resume that \<^verbatim>\<open>saveGeneratedContent\<close> builds for a new text.\<close>

definition newOptimized :: "viewProps \<Rightarrow> int \<Rightarrow> string \<Rightarrow> string \<Rightarrow> optimizedResume" where
  "newOptimized props now newId text =
     \<lparr>r_id = newId,
      r_name = r_name (p_resume props) @ nameSeparator @ j_company (p_job props) @ '' ('' @
                 j_title (p_job props) @ '')'',
      r_content = [],
      r_parsedText = text,
      r_uploadDate = now,
      r_isDefault = False,
      r_originalFileUrl = r_originalFileUrl (p_resume props),
      r_originalFileProvider = r_originalFileProvider (p_resume props),
      r_originalFilePublicId = r_originalFilePublicId (p_resume props),
      r_originalFileMimeType = r_originalFileMimeType (p_resume props),
      r_originalFileName = r_originalFileName (p_resume props),
      o_originalResumeId = r_id (p_resume props),
      o_jobId = j_id (p_job props),
      o_modifications = []\<rparr>"

text \<open>The cover letter that \<^verbatim>\<open>saveGeneratedContent\<close> builds for a new text.\<close>

definition newLetter :: "viewProps \<Rightarrow> int \<Rightarrow> string \<Rightarrow> string \<Rightarrow> coverLetter" where
  "newLetter props now newId text =
     \<lparr>c_id = newId, c_jobId = j_id (p_job props), c_content = text, c_createdDate = now\<rparr>"

text \<open>
  The argument that \<^verbatim>\<open>saveGeneratedContent\<close> passes to \<^verbatim>\<open>ensureApplication\<close> for an
  optimized resume and for a cover letter with the given id.
\<close>

definition resumePatch :: "viewProps \<Rightarrow> string \<Rightarrow> applicationPatch" where
  "resumePatch props ident =
     \<lparr>ap_jobId = j_id (p_job props), ap_resumeId = Some ident, ap_coverLetterId = None,
      ap_appliedDate = None, ap_status = Some Draft\<rparr>"

definition letterPatch :: "viewProps \<Rightarrow> string \<Rightarrow> applicationPatch" where
  "letterPatch props ident =
     \<lparr>ap_jobId = j_id (p_job props), ap_resumeId = None, ap_coverLetterId = Some ident,
      ap_appliedDate = None, ap_status = Some Draft\<rparr>"

text \<open>
  Storage as \<^verbatim>\<open>ensureApplication(patch)\<close> leaves it: the job of the view is stored,
  and the first application of the job has the fields of the patch.
\<close>

definition patchApplied :: "viewProps \<Rightarrow> applicationPatch \<Rightarrow> world \<Rightarrow> bool" where
  "patchApplied props patch w \<longleftrightarrow>
     find (\<lambda>j. j_id j = j_id (p_job props)) (jobs (localStore w)) \<noteq> None \<and>
     0 \<le> findIndex (\<lambda>a. a_jobId a = ap_jobId patch) (applications (localStore w)) \<and>
     assignPatch patch
       (applications (localStore w) !
          nat (findIndex (\<lambda>a. a_jobId a = ap_jobId patch) (applications (localStore w)))) =
     applications (localStore w) !
       nat (findIndex (\<lambda>a. a_jobId a = ap_jobId patch) (applications (localStore w)))"

section \<open>Generating an optimized resume\<close>

subsection \<open>mergeParagraphsJson\<close>

text \<open>
  The text helpers of the view that are regular-expression rewrites or tests are
  parameters of the model: \<^verbatim>\<open>stripMarkdownArtifacts\<close>, \<^verbatim>\<open>containsPlaceholderTokens\<close>,
  \<^verbatim>\<open>extractEmail\<close> (a non-empty match or nothing) and \<^verbatim>\<open>missingKeywordsFromText\<close>.
  What is proved about the requests of the generation holds for whatever they return.
\<close>

record textHelpers =
  stripMarkdownArtifacts :: "string \<Rightarrow> string"
  containsPlaceholderTokens :: "string \<Rightarrow> bool"
  extractEmail :: "string \<Rightarrow> string option"
  missingKeywordsFromText :: "string \<Rightarrow> string list \<Rightarrow> string list"

datatype mergeError =
    NotValidJson
  | ParagraphCountMismatch nat nat
  | NotReplacementsFormat
  | ConversionThrew

text \<open>\<^verbatim>\<open>stripMarkdownArtifacts(s).replace(/\n/g, '')\<close>\<close>

definition cleanParagraph :: "textHelpers \<Rightarrow> string \<Rightarrow> string" where
  "cleanParagraph h s = filter (\<lambda>c. c \<noteq> CHR 0x0A) (stripMarkdownArtifacts h s)"

text \<open>\<^verbatim>\<open>paragraphs.join('\n')\<close>\<close>

fun joinLines :: "string list \<Rightarrow> string" where
  "joinLines [] = []"
| "joinLines [p] = p"
| "joinLines (p # q # ps) = p @ [CHR 0x0A] @ joinLines (q # ps)"

text \<open>
  \<^verbatim>\<open>parseInt(key, 10)\<close>: leading whitespace, a sign, then decimal digits; \<open>None\<close> is
  \<^verbatim>\<open>NaN\<close>.
\<close>

definition isDigit :: "char \<Rightarrow> bool" where
  "isDigit c = (let n = (of_char c :: nat) in 48 \<le> n \<and> n \<le> 57)"

definition digitsValue :: "string \<Rightarrow> int" where
  "digitsValue ds = foldl (\<lambda>v c. 10 * v + (int (of_char c) - 48)) 0 ds"

definition parseInt10 :: "string \<Rightarrow> int option" where
  "parseInt10 s =
     (let s1 = dropWhile isWhitespace s;
          negative = (s1 \<noteq> [] \<and> hd s1 = CHR ''-'');
          s2 = (if s1 \<noteq> [] \<and> (hd s1 = CHR ''-'' \<or> hd s1 = CHR ''+'') then tl s1 else s1);
          ds = takeWhile isDigit s2
      in if ds = [] then None
         else Some (if negative then - digitsValue ds else digitsValue ds))"

text \<open>Whether a JSON value is truthy.\<close>

fun jsTruthy :: "json \<Rightarrow> bool" where
  "jsTruthy JNull = False"
| "jsTruthy (JBool b) = b"
| "jsTruthy (JNum n) = (case n of Finite x \<Rightarrow> x \<noteq> 0 | NaN \<Rightarrow> False | _ \<Rightarrow> True)"
| "jsTruthy (JStr s) = (s \<noteq> [])"
| "jsTruthy (JArr vs) = True"
| "jsTruthy (JObj members) = True"

text \<open>
  The legacy format \<^verbatim>\<open>{ paragraphs: [...] }\<close>: every element becomes a cleaned
  string.
\<close>

fun paragraphStrings :: "jsRuntime \<Rightarrow> textHelpers \<Rightarrow> json list \<Rightarrow> mergeError + string list" where
  "paragraphStrings rt h [] = Inr []"
| "paragraphStrings rt h (p # ps) =
     (case toStringOrEmpty rt (Some p) of
        None \<Rightarrow> Inl ConversionThrew
      | Some s \<Rightarrow>
          (case paragraphStrings rt h ps of
             Inl e \<Rightarrow> Inl e
           | Inr rest \<Rightarrow> Inr (cleanParagraph h s # rest)))"

text \<open>
  \<^verbatim>\<open>newParagraphs[idx - 1] = text\<close> under the guard
  \<^verbatim>\<open>!Number.isNaN(idx) && idx >= 1 && idx <= original.length\<close>. An index in the range that
  is not an integer sets a property of the array that is none of its elements.
\<close>

definition setParagraph :: "jsnumber \<Rightarrow> string \<Rightarrow> nat \<Rightarrow> string list \<Rightarrow> string list" where
  "setParagraph idx text n ps =
     (case idx of
        Finite x \<Rightarrow>
          if 1 \<le> x \<and> x \<le> real n
          then (if x = real_of_int \<lfloor>x\<rfloor> then ps[nat (\<lfloor>x\<rfloor> - 1) := text] else ps)
          else ps
      | _ \<Rightarrow> ps)"

text \<open>The schema format \<^verbatim>\<open>{ replacements: [ { index, text }, ... ] }\<close>.\<close>

fun applyReplacements ::
  "jsRuntime \<Rightarrow> textHelpers \<Rightarrow> nat \<Rightarrow> json list \<Rightarrow> string list \<Rightarrow> mergeError + string list" where
  "applyReplacements rt h n [] ps = Inr ps"
| "applyReplacements rt h n (item # items) ps =
     (case toNumber rt (getProp item ''index'') of
        None \<Rightarrow> Inl ConversionThrew
      | Some idx \<Rightarrow>
          (case toStringOrEmpty rt (getProp item ''text'') of
             None \<Rightarrow> Inl ConversionThrew
           | Some text \<Rightarrow>
               applyReplacements rt h n items (setParagraph idx (cleanParagraph h text) n ps)))"

text \<open>
  The map format \<^verbatim>\<open>{ "1": "...", "5": "..." }\<close>, over the entries of the object or
  array with their keys already read by \<^verbatim>\<open>parseInt\<close>.
\<close>

fun applyEntries ::
  "jsRuntime \<Rightarrow> textHelpers \<Rightarrow> nat \<Rightarrow> (int option \<times> json) list \<Rightarrow> string list \<Rightarrow>
   mergeError + string list" where
  "applyEntries rt h n [] ps = Inr ps"
| "applyEntries rt h n ((key, val) # entries) ps =
     (case key of
        None \<Rightarrow> applyEntries rt h n entries ps
      | Some idx \<Rightarrow>
          if 1 \<le> idx \<and> idx \<le> int n then
            (case toStringOrEmpty rt (Some val) of
               None \<Rightarrow> Inl ConversionThrew
             | Some s \<Rightarrow> applyEntries rt h n entries (ps[nat (idx - 1) := cleanParagraph h s]))
          else applyEntries rt h n entries ps)"

text \<open>\<^verbatim>\<open>Object.entries\<close> of an object or an array, the keys read by \<^verbatim>\<open>parseInt\<close>.\<close>

definition objectEntries :: "json \<Rightarrow> (int option \<times> json) list option" where
  "objectEntries v =
     (case v of
        JObj members \<Rightarrow> Some (map (\<lambda>(k, x). (parseInt10 k, x)) members)
      | JArr vs \<Rightarrow> Some (map (\<lambda>(i, x). (Some (int i), x)) (enumerate 0 vs))
      | _ \<Rightarrow> None)"

definition mergeParagraphsJson ::
  "jsRuntime \<Rightarrow> textHelpers \<Rightarrow> string \<Rightarrow> string list \<Rightarrow> mergeError + string list" where
  "mergeParagraphsJson rt h raw original =
     (case jsonParse rt (extractJsonObject raw) of
        None \<Rightarrow> Inl NotValidJson
      | Some parsed \<Rightarrow>
          (case getProp parsed ''paragraphs'' of
             Some (JArr arr) \<Rightarrow>
               if length arr \<noteq> length original
               then Inl (ParagraphCountMismatch (length original) (length arr))
               else paragraphStrings rt h arr
           | _ \<Rightarrow>
               (case getProp parsed ''replacements'' of
                  Some (JArr items) \<Rightarrow> applyReplacements rt h (length original) items original
                | other \<Rightarrow>
                    (let replacements =
                           (case other of
                              None \<Rightarrow> parsed
                            | Some v \<Rightarrow> if jsTruthy v then v else parsed)
                     in case objectEntries replacements of
                          None \<Rightarrow> Inl NotReplacementsFormat
                        | Some entries \<Rightarrow>
                            applyEntries rt h (length original) entries original))))"

subsection \<open>Requests to the provider\<close>

text \<open>
  The prompts of the generation, each with the texts it embeds besides the resume,
  the job and the analysis result.
\<close>

datatype prompt =
    OptimizeParagraphsPrompt "string list"
  | OptimizeTextPrompt
  | JsonRepairPrompt string
  | PlaceholderRepairParagraphsPrompt string
  | PlaceholderRepairTextPrompt string
  | RefineParagraphsPrompt "string list" string
  | RefineTextPrompt "string list" string

datatype requestError = Aborted | Rejected string

datatype generationError =
    NoGeminiKey
  | NoOpenAIKey
  | RequestAborted
  | RequestRejected string
  | DocxUnreadable
  | DocxInvalid docxError
  | MergeFailed mergeError
  | EmptyResumeText
  | PlaceholdersRemain
  | EmailRemoved

text \<open>
  The surroundings of the generation: the JavaScript runtime, the text helpers, the
  decoding of the stored base64 content into a DOCX archive (\<open>None\<close> when
  \<^verbatim>\<open>atob\<close> or the ZIP reader throws), and the provider, which answers a prompt, given
  the prompts sent before it, with a text or with an error: an abort, or a
  rejection, which stands for a response that is not ok, a timeout, and an answer
  whose content is not a string, on which \<^verbatim>\<open>.trim()\<close> throws.
\<close>

record generationEnv =
  runtime :: jsRuntime
  helpers :: textHelpers
  decodeDocx :: "string \<Rightarrow> (char, unit) docx option"
  llm :: "aiProvider \<Rightarrow> prompt list \<Rightarrow> prompt \<Rightarrow> requestError + string"

text \<open>
  \<^verbatim>\<open>runOnce(p)\<close>: without a key for the provider nothing is sent. The second component
  is the list of the prompts sent so far.
\<close>

definition runOnce ::
  "generationEnv \<Rightarrow> settingsState \<Rightarrow> prompt list \<Rightarrow> prompt \<Rightarrow> (generationError + string) \<times> prompt list" where
  "runOnce env settings sent p =
     (if aiProvider settings = Gemini \<and> geminiApiKey settings = [] then (Inl NoGeminiKey, sent)
      else if aiProvider settings \<noteq> Gemini \<and> openaiApiKey settings = [] then (Inl NoOpenAIKey, sent)
      else (case llm env (aiProvider settings) sent p of
              Inl Aborted \<Rightarrow> Inl RequestAborted
            | Inl (Rejected m) \<Rightarrow> Inl (RequestRejected m)
            | Inr reply \<Rightarrow> Inr reply,
            sent @ [p]))"

text \<open>\<^verbatim>\<open>String.prototype.stringIncludes\<close>\<close>

fun stringIncludes :: "string \<Rightarrow> string \<Rightarrow> bool" where
  "stringIncludes [] sub = (sub = [])"
| "stringIncludes (c # s) sub = (prefix sub (c # s) \<or> stringIncludes s sub)"

subsection \<open>generateOptimizedResume\<close>

text \<open>
  The paragraphs of the uploaded DOCX, when the resume is one:
  \<^verbatim>\<open>isDocx && resume.content ? await extractParagraphsFromDocxBase64(resume.content) : null\<close>.
\<close>

definition originalParagraphsOf :: "generationEnv \<Rightarrow> resume \<Rightarrow> generationError + string list option" where
  "originalParagraphsOf env resume =
     (let isDocx = suffix ''.docx''
                     (toLowerCase (case r_originalFileName resume of None \<Rightarrow> [] | Some n \<Rightarrow> n))
      in if isDocx \<and> r_content resume \<noteq> [] then
           (case decodeDocx env (r_content resume) of
              None \<Rightarrow> Inl DocxUnreadable
            | Some d \<Rightarrow>
                (case extractParagraphsFromDocxBase64 d of
                   Inl e \<Rightarrow> Inl (DocxInvalid e)
                 | Inr ps \<Rightarrow> Inr (Some ps)))
         else Inr None)"

text \<open>
  The first request and the reading of its answer. For a DOCX resume the answer must
  merge into the paragraphs; when it does not, one repair request is sent and its
  answer must merge.
\<close>

definition firstDraft ::
  "generationEnv \<Rightarrow> settingsState \<Rightarrow> string list option \<Rightarrow> (generationError + string) \<times> prompt list" where
  "firstDraft env settings originalParagraphs =
     (let prompt = (case originalParagraphs of
                      None \<Rightarrow> OptimizeTextPrompt
                    | Some ps \<Rightarrow> OptimizeParagraphsPrompt ps)
      in case runOnce env settings [] prompt of
           (Inl e, sent) \<Rightarrow> (Inl e, sent)
         | (Inr reply, sent) \<Rightarrow>
             (let raw = trim reply
              in case originalParagraphs of
                   None \<Rightarrow>
                     (Inr (trim (removeLiteral id ''```'' (stripMarkdownArtifacts (helpers env) raw))), sent)
                 | Some original \<Rightarrow>
                     (case mergeParagraphsJson (runtime env) (helpers env) raw original of
                        Inr paragraphs \<Rightarrow> (Inr (joinLines paragraphs), sent)
                      | Inl err \<Rightarrow>
                          (case runOnce env settings sent (JsonRepairPrompt raw) of
                             (Inl e, sent2) \<Rightarrow> (Inl e, sent2)
                           | (Inr reply2, sent2) \<Rightarrow>
                               (case mergeParagraphsJson (runtime env) (helpers env) (trim reply2)
                                       original of
                                  Inl err2 \<Rightarrow> (Inl (MergeFailed err2), sent2)
                                | Inr paragraphs2 \<Rightarrow> (Inr (joinLines paragraphs2), sent2))))))"

text \<open>
  The retry for a draft with placeholders or without the email address of the
  resume.
\<close>

definition placeholderRetry ::
  "generationEnv \<Rightarrow> settingsState \<Rightarrow> string list option \<Rightarrow> string option \<Rightarrow> string \<Rightarrow>
   prompt list \<Rightarrow> (generationError + string) \<times> prompt list" where
  "placeholderRetry env settings originalParagraphs resumeEmail cleaned sent =
     (let needsRetry =
            (containsPlaceholderTokens (helpers env) cleaned \<or>
             (case resumeEmail of None \<Rightarrow> False | Some e \<Rightarrow> \<not> stringIncludes cleaned e))
      in if \<not> needsRetry then (Inr cleaned, sent)
         else case originalParagraphs of
                Some original \<Rightarrow>
                  (case runOnce env settings sent (PlaceholderRepairParagraphsPrompt cleaned) of
                     (Inl e, sent2) \<Rightarrow> (Inl e, sent2)
                   | (Inr reply2, sent2) \<Rightarrow>
                       (case mergeParagraphsJson (runtime env) (helpers env) (trim reply2) original of
                          Inl err \<Rightarrow> (Inl (MergeFailed err), sent2)
                        | Inr paragraphs2 \<Rightarrow> (Inr (joinLines paragraphs2), sent2)))
              | None \<Rightarrow>
                  (case runOnce env settings sent (PlaceholderRepairTextPrompt cleaned) of
                     (Inl e, sent2) \<Rightarrow> (Inl e, sent2)
                   | (Inr reply2, sent2) \<Rightarrow> (Inr (trim (removeLiteral id ''```'' reply2)), sent2)))"

text \<open>
  The refinement pass for missing keywords; an answer that does not merge is
  ignored.
\<close>

definition refine ::
  "generationEnv \<Rightarrow> settingsState \<Rightarrow> string list option \<Rightarrow> string list \<Rightarrow> string \<Rightarrow> string \<Rightarrow>
   prompt list \<Rightarrow> (generationError + string) \<times> prompt list" where
  "refine env settings originalParagraphs targetKeywords jobDescription cleaned sent =
     (let pass1Heuristic = computeHeuristicScore cleaned jobDescription;
          missingAfterPass1 = missingKeywordsFromText (helpers env) cleaned targetKeywords
      in if (missingAfterPass1 \<noteq> [] \<or> pass1Heuristic < 95) \<and> targetKeywords \<noteq> [] then
           (case originalParagraphs of
              Some original \<Rightarrow>
                (case runOnce env settings sent (RefineParagraphsPrompt missingAfterPass1 cleaned) of
                   (Inl e, sent2) \<Rightarrow> (Inl e, sent2)
                 | (Inr reply, sent2) \<Rightarrow>
                     (case mergeParagraphsJson (runtime env) (helpers env) (trim reply) original of
                        Inl err \<Rightarrow> (Inr cleaned, sent2)
                      | Inr paragraphs \<Rightarrow>
                          (Inr (if length paragraphs > 0 then joinLines paragraphs else cleaned), sent2)))
            | None \<Rightarrow>
                (case runOnce env settings sent (RefineTextPrompt missingAfterPass1 cleaned) of
                   (Inl e, sent2) \<Rightarrow> (Inl e, sent2)
                 | (Inr reply, sent2) \<Rightarrow>
                     (let refined = trim (removeLiteral id ''```'' (trim reply))
                      in (Inr (if refined \<noteq> [] then refined else cleaned), sent2))))
         else (Inr cleaned, sent))"

text \<open>The checks on the final text.\<close>

definition finalChecks :: "generationEnv \<Rightarrow> string option \<Rightarrow> string \<Rightarrow> generationError + string" where
  "finalChecks env resumeEmail cleaned =
     (if cleaned = [] then Inl EmptyResumeText
      else if containsPlaceholderTokens (helpers env) cleaned then Inl PlaceholdersRemain
      else case resumeEmail of
             None \<Rightarrow> Inr cleaned
           | Some e \<Rightarrow> if \<not> stringIncludes cleaned e then Inl EmailRemoved else Inr cleaned)"

text \<open>The body of the \<^verbatim>\<open>try\<close> block: the generated text or the error thrown, and the
  prompts sent.\<close>

definition generateText ::
  "generationEnv \<Rightarrow> viewProps \<Rightarrow> analysisResult \<Rightarrow> (generationError + string) \<times> prompt list" where
  "generateText env props result =
     (let resume = p_resume props; job = p_job props; settings = p_settings props
      in case originalParagraphsOf env resume of
           Inl e \<Rightarrow> (Inl e, [])
         | Inr originalParagraphs \<Rightarrow>
             (let resumeEmail = extractEmail (helpers env) (r_parsedText resume)
              in case firstDraft env settings originalParagraphs of
                   (Inl e, sent) \<Rightarrow> (Inl e, sent)
                 | (Inr cleaned, sent) \<Rightarrow>
                     if cleaned = [] then (Inl EmptyResumeText, sent)
                     else
                       (case placeholderRetry env settings originalParagraphs resumeEmail cleaned sent of
                          (Inl e, sent2) \<Rightarrow> (Inl e, sent2)
                        | (Inr cleaned2, sent2) \<Rightarrow>
                            (case refine env settings originalParagraphs (ar_missingKeywords result)
                                    (j_description job) cleaned2 sent2 of
                               (Inl e, sent3) \<Rightarrow> (Inl e, sent3)
                             | (Inr cleaned3, sent3) \<Rightarrow>
                                 (finalChecks env resumeEmail cleaned3, sent3)))))"

text \<open>
  \<^verbatim>\<open>generateOptimizedResume\<close>: nothing happens without an analysis result; an error ends
  in the \<^verbatim>\<open>catch\<close> block, which shows it (an abort shows as cancelled); a generated
  text is shown. The outcome holds the new state of the view, the error shown and
  the prompts that were sent.
\<close>

record generationOutcome =
  go_view :: viewState
  go_error :: "generationError option"
  go_requests :: "prompt list"

definition generateOptimizedResume ::
  "generationEnv \<Rightarrow> viewProps \<Rightarrow> analysisResult option \<Rightarrow> storage \<Rightarrow> viewState \<Rightarrow> generationOutcome" where
  "generateOptimizedResume env props analysis st ui =
     (case analysis of
        None \<Rightarrow> \<lparr>go_view = ui, go_error = None, go_requests = []\<rparr>
      | Some result \<Rightarrow>
          (let ui0 = ui\<lparr>generatingResume := True, rewriteType := RewriteResume,
                        rewriteStatus := Generating, rewriteFullText := []\<rparr>
           in case generateText env props result of
                (Inl e, sent) \<Rightarrow>
                  \<lparr>go_view = ui0\<lparr>rewriteStatus := (if e = RequestAborted then Cancelled else Failed),
                                  generatingResume := False\<rparr>,
                   go_error = Some e, go_requests = sent\<rparr>
              | (Inr cleaned, sent) \<Rightarrow>
                  \<lparr>go_view = (showGeneratedResume props cleaned st ui0)\<lparr>generatingResume := False\<rparr>,
                   go_error = None, go_requests = sent\<rparr>))"

text \<open>A prompt is a JSON repair request.\<close>

fun isJsonRepair :: "prompt \<Rightarrow> bool" where
  "isJsonRepair (JsonRepairPrompt raw) = True"
| "isJsonRepair _ = False"

text \<open>The guard of \<^verbatim>\<open>runOnce\<close>: the settings hold a key for the provider in use.\<close>

definition keyPresent :: "settingsState \<Rightarrow> bool" where
  "keyPresent settings =
     (if aiProvider settings = Gemini then geminiApiKey settings \<noteq> []
      else openaiApiKey settings \<noteq> [])"

text \<open>
  Surroundings for examples: the resume decodes to the document of two paragraphs,
  and the provider answers every prompt with a sentence that is no JSON.
\<close>

definition exampleHelpers :: textHelpers where
  "exampleHelpers =
     \<lparr>stripMarkdownArtifacts = (\<lambda>s. s), containsPlaceholderTokens = (\<lambda>s. False),
      extractEmail = (\<lambda>s. None), missingKeywordsFromText = (\<lambda>s ks. [])\<rparr>"

definition apologizingEnv :: generationEnv where
  "apologizingEnv =
     \<lparr>runtime = exampleRuntime, helpers = exampleHelpers,
      decodeDocx = (\<lambda>content. Some textDocx),
      llm = (\<lambda>provider sent p. Inr '' Sorry, I cannot do that. '')\<rparr>"

definition exampleAnalysis :: analysisResult where
  "exampleAnalysis = \<lparr>ar_score = 40, ar_missingKeywords = [''react''], ar_suggestions = []\<rparr>"

text \<open>
  The same surroundings with a provider that answers the repair request with a JSON
  object, which holds no replacement.
\<close>

definition repairingEnv :: generationEnv where
  "repairingEnv =
     \<lparr>runtime = exampleRuntime, helpers = exampleHelpers,
      decodeDocx = (\<lambda>content. Some textDocx),
      llm = (\<lambda>provider sent p.
               if isJsonRepair p then Inr ''{\"match\": \"good\"}''
               else Inr '' Sorry, I cannot do that. '')\<rparr>"

text \<open>A step adds to the prompts sent at most one prompt, which is no JSON repair.\<close>

definition addsNoRepair :: "prompt list \<Rightarrow> prompt list \<Rightarrow> bool" where
  "addsNoRepair sent sent2 =
     (\<exists>extra. sent2 = sent @ extra \<and> length extra \<le> 1 \<and> filter isJsonRepair extra = [])"

section \<open>Properties of distributeAcrossNodes\<close>

lemma concat_cleared: "concat (map (\<lambda>_. []) xs) = []"
  by (induction xs) auto

lemma slice_in_range:
  "0 \<le> a \<Longrightarrow> a \<le> b \<Longrightarrow> b \<le> int (length s) \<Longrightarrow>
   slice s a b = take (nat (b - a)) (drop (nat a) s)"
  by (simp add: slice_def Let_def min_def max_def)


lemma distributeLoop_concat:
  "0 \<le> offset \<Longrightarrow> offset \<le> int (length text) \<Longrightarrow> ls \<noteq> [] \<Longrightarrow>
   concat (distributeLoop text ls offset) = drop (nat offset) text"
proof (induction ls arbitrary: offset)
  case Nil
  then show ?case by simp
next
  case (Cons l ls)
  let ?n = "int (length text)"
  show ?case
  proof (cases "ls = []")
    case True
    have "slice text offset ?n = drop (nat offset) text"
      using Cons.prems by (simp add: slice_in_range)
    with True Cons.prems show ?thesis
      by (auto simp: Let_def)
  next
    case False
    define tk where "tk = min (int l) (?n - offset)"
    have tk0: "0 \<le> tk" and tkn: "offset + tk \<le> ?n"
      using Cons.prems by (auto simp: tk_def)
    have part: "(if tk > 0 then slice text offset (offset + tk) else []) =
                take (nat tk) (drop (nat offset) text)"
      using Cons.prems tk0 tkn by (auto simp: slice_in_range)
    show ?thesis
    proof (cases "offset + tk \<ge> ?n")
      case True
      then have "nat tk \<ge> length (drop (nat offset) text)"
        using Cons.prems by auto
      then have "take (nat tk) (drop (nat offset) text) = drop (nat offset) text"
        by simp
      with True False tk0 part show ?thesis
        by (simp add: Let_def tk_def [symmetric] concat_cleared max_def)
    next
      case ge: False
      have ih: "concat (distributeLoop text ls (offset + tk)) = drop (nat (offset + tk)) text"
        using Cons.IH [of "offset + tk"] Cons.prems tk0 tkn False by simp
      have "drop (nat (offset + tk)) text = drop (nat tk) (drop (nat offset) text)"
        using Cons.prems tk0 by (simp add: nat_add_distrib add.commute)
      with ih have rest: "concat (distributeLoop text ls (offset + tk)) =
                          drop (nat tk) (drop (nat offset) text)"
        by simp
      have "concat (distributeLoop text (l # ls) offset) =
            take (nat tk) (drop (nat offset) text) @ drop (nat tk) (drop (nat offset) text)"
        using ge False tk0 part rest
        by (simp add: Let_def tk_def [symmetric] max_def del: drop_drop)
      then show ?thesis
        by (simp only: append_take_drop_id)
    qed
  qed
qed


lemma distributeAcrossNodes_concat:
  "nodes \<noteq> [] \<Longrightarrow> concat (distributeAcrossNodes text nodes) = text"
proof -
  assume ne: "nodes \<noteq> []"
  show ?thesis
  proof (cases "sum_list (map length nodes) = 0")
    case True
    with ne show ?thesis
      by (simp add: distributeAcrossNodes_def Let_def concat_cleared)
  next
    case False
    have "concat (distributeLoop text (map length nodes) 0) = drop (nat 0) text"
      using ne by (intro distributeLoop_concat) auto
    with ne False show ?thesis
      by (simp add: distributeAcrossNodes_def Let_def)
  qed
qed

text \<open>
  Claim C4. For every text and every non-empty list of nodes, the texts that
  \<^verbatim>\<open>distributeAcrossNodes\<close> writes to the nodes, concatenated in node order, are the
  text itself: nothing is lost and nothing is duplicated.
\<close>

theorem distributeAcrossNodes_lossless:
  "nodes \<noteq> [] \<Longrightarrow> concat (distributeAcrossNodes text nodes) = text"
  by (rule distributeAcrossNodes_concat)

theorem distributeAcrossNodes_lossless_witness:
  "[''Jane '', ''Doe'', ''!''] \<noteq> [] \<and>
   distributeAcrossNodes ''Senior engineer'' [''Jane '', ''Doe'', ''!''] =
     [''Senio'', ''r e'', ''ngineer''] \<and>
   concat (distributeAcrossNodes ''Senior engineer'' [''Jane '', ''Doe'', ''!'']) =
     ''Senior engineer''"
  using distributeAcrossNodes_lossless [of "[''Jane '', ''Doe'', ''!'']" "''Senior engineer''"]
  by (simp add: distributeAcrossNodes_def slice_def Let_def)

section \<open>The DOM model: paths and mutation\<close>


























lemma textContent_setTextContent: "textContent (setTextContent s (Elem n a cs)) = s"
  by simp


















section \<open>Writing the document and reading it back\<close>















section \<open>Characters and text nodes of the patched document\<close>
















section \<open>Patching and reading back\<close>











section \<open>The heuristic score and the score of analyzeMatch\<close>

lemma mathRound_bounds:
  "real_of_int a \<le> x \<Longrightarrow> x \<le> real_of_int b \<Longrightarrow> a \<le> mathRound x \<and> mathRound x \<le> b"
  unfolding mathRound_def by (simp add: le_floor_iff floor_le_iff)

lemma mathRound_of_int: "mathRound (real_of_int n) = n"
  unfolding mathRound_def by linarith

lemma clamp_bounds: "lo \<le> hi \<Longrightarrow> lo \<le> clamp n lo hi \<and> clamp n lo hi \<le> hi"
  by (auto simp: clamp_def)

lemma clamp_id: "lo \<le> n \<Longrightarrow> n \<le> hi \<Longrightarrow> clamp n lo hi = n"
  by (auto simp: clamp_def)

lemma ratio_bounds:
  "h \<le> n \<Longrightarrow> 0 \<le> real h / real (max 1 n) \<and> real h / real (max 1 n) \<le> 1"
  by (auto simp: divide_le_eq_1 max_def)

lemma computeHeuristicScore_empty:
  "tokenize jobText = [] \<or> tokenize resumeText = [] \<Longrightarrow>
   computeHeuristicScore resumeText jobText = 0"
  by (auto simp: computeHeuristicScore_def Let_def)

lemma computeHeuristicScore_nonempty:
  assumes "tokenize jobText \<noteq> []" "tokenize resumeText \<noteq> []"
  shows "15 \<le> computeHeuristicScore resumeText jobText \<and>
         computeHeuristicScore resumeText jobText \<le> 100"
proof -
  let ?top = "topJobTerms (tokenize jobText)"
  let ?hit = "length (filter (\<lambda>w. w \<in> set (tokenize resumeText)) ?top)"
  let ?ratio = "real ?hit / real (max 1 (length ?top))"
  have "?hit \<le> length ?top" by (rule length_filter_le)
  then have r: "0 \<le> ?ratio \<and> ?ratio \<le> 1" by (rule ratio_bounds)
  define ratio where "ratio = ?ratio"
  from r have r': "0 \<le> ratio" "ratio \<le> 1" by (simp_all add: ratio_def)
  then have "15 \<le> 15 + ratio * 85" and "15 + ratio * 85 \<le> 100"
    by simp_all
  then have lo: "15 \<le> 15 + ?ratio * 85" and hi: "15 + ?ratio * 85 \<le> 100"
    by (simp_all only: ratio_def)
  then have "clamp (15 + ?ratio * 85) 0 100 = 15 + ?ratio * 85"
    by (intro clamp_id) auto
  moreover have "15 \<le> mathRound (15 + ?ratio * 85) \<and> mathRound (15 + ?ratio * 85) \<le> 100"
    using lo hi by (intro mathRound_bounds) auto
  ultimately show ?thesis
    using assms by (simp add: computeHeuristicScore_def Let_def)
qed

lemma computeHeuristicScore_range:
  "0 \<le> computeHeuristicScore resumeText jobText \<and> computeHeuristicScore resumeText jobText \<le> 100"
proof (cases "tokenize jobText = [] \<or> tokenize resumeText = []")
  case True
  then show ?thesis by (simp add: computeHeuristicScore_empty)
next
  case False
  then show ?thesis using computeHeuristicScore_nonempty [of jobText resumeText] by auto
qed


lemma analyzeMatchScore_range:
  "0 \<le> score (analyzeMatchScore a r j) \<and> score (analyzeMatchScore a r j) \<le> 100"
proof -
  note h = computeHeuristicScore_range [of r j]
  show ?thesis
  proof (cases a)
    case (Finite x)
    have c: "0 \<le> clamp x 0 100 \<and> clamp x 0 100 \<le> 100" by (intro clamp_bounds) simp
    then have "0 \<le> mathRound (clamp x 0 100) \<and> mathRound (clamp x 0 100) \<le> 100"
      by (intro mathRound_bounds) auto
    with Finite h show ?thesis
      by (simp add: analyzeMatchScore_def Let_def mathRound_of_int)
  qed (use h in \<open>simp_all add: analyzeMatchScore_def Let_def mathRound_of_int\<close>)
qed

lemma analyzeMatchScore_fallback:
  "\<not> isFinite a \<or> (a = Finite 0 \<and> computeHeuristicScore r j \<ge> 20) \<Longrightarrow>
   score (analyzeMatchScore a r j) = computeHeuristicScore r j \<and>
   usedHeuristic (analyzeMatchScore a r j)"
  by (cases a) (auto simp: analyzeMatchScore_def Let_def mathRound_of_int clamp_def)

text \<open>
  Claim C10. \<^verbatim>\<open>computeHeuristicScore(resumeText, jobText)\<close> is 0 whenever one of the
  two texts has no token, and otherwise an integer from 15 to 100: a resume with a
  token compared against a job description with a token never scores below 15.
\<close>

theorem computeHeuristicScore_zero_or_15_to_100:
  "(tokenize jobText = [] \<or> tokenize resumeText = [] \<longrightarrow>
      computeHeuristicScore resumeText jobText = 0) \<and>
   (tokenize jobText \<noteq> [] \<and> tokenize resumeText \<noteq> [] \<longrightarrow>
      15 \<le> computeHeuristicScore resumeText jobText \<and>
      computeHeuristicScore resumeText jobText \<le> 100)"
  using computeHeuristicScore_empty computeHeuristicScore_nonempty by blast

theorem computeHeuristicScore_zero_or_15_to_100_witness:
  "tokenize ''of the'' = [] \<and> tokenize ''react node'' \<noteq> [] \<and>
   computeHeuristicScore ''of the'' ''react node'' = 0 \<and>
   tokenize ''I know react and python'' \<noteq> [] \<and>
   tokenize ''react node react python node react'' \<noteq> [] \<and>
   15 \<le> computeHeuristicScore ''I know react and python'' ''react node react python node react'' \<and>
   computeHeuristicScore ''I know react and python'' ''react node react python node react'' \<le> 100 \<and>
   computeHeuristicScore ''I know react and python'' ''react node react python node react'' = 72 \<and>
   computeHeuristicScore ''plumber'' ''react node'' = 15"
proof -
  have a: "tokenize ''of the'' = []" by code_simp
  have b: "tokenize ''react node'' \<noteq> []" by code_simp
  have c: "tokenize ''I know react and python'' \<noteq> []" by code_simp
  have d: "tokenize ''react node react python node react'' \<noteq> []" by code_simp
  have e: "computeHeuristicScore ''I know react and python'' ''react node react python node react'' = 72"
    by code_simp
  have f: "computeHeuristicScore ''plumber'' ''react node'' = 15" by code_simp
  show ?thesis
    using a b c d e f
      computeHeuristicScore_zero_or_15_to_100 [of "''react node''" "''of the''"]
      computeHeuristicScore_zero_or_15_to_100
        [of "''react node react python node react''" "''I know react and python''"]
    by simp
qed

text \<open>
  Claim C5. Whenever \<^verbatim>\<open>analyzeMatch\<close> produces a result, its score is an integer from
  0 to 100; the request returned a response whose JSON object was parsed and whose
  score was converted to a number, and if that number is not finite, or is 0 while
  the heuristic score is at least 20, the score of the result is the heuristic score
  (and the result is flagged as heuristic).
\<close>

theorem analyzeMatch_score:
  assumes "analyzeMatch rt settings callApi prompt resumeText jobText = Inr res"
  shows "0 \<le> score res \<and> score res \<le> 100 \<and>
         (\<exists>responseText data aiScore.
            callApi (aiProvider settings) prompt = Inr responseText \<and>
            jsonParse rt (extractJsonObject responseText) = Some data \<and>
            toNumber rt (getProp data ''score'') = Some aiScore \<and>
            (\<not> isFinite aiScore \<or>
             (aiScore = Finite 0 \<and> 20 \<le> computeHeuristicScore resumeText jobText) \<longrightarrow>
               score res = computeHeuristicScore resumeText jobText \<and> usedHeuristic res))"
proof -
  from assms obtain responseText data aiScore where
    c: "callApi (aiProvider settings) prompt = Inr responseText" and
    p: "jsonParse rt (extractJsonObject responseText) = Some data" and
    n: "toNumber rt (getProp data ''score'') = Some aiScore" and
    r: "res = analyzeMatchScore aiScore resumeText jobText"
    by (auto simp: analyzeMatch_def split: if_splits sum.splits option.splits)
  have "0 \<le> score res \<and> score res \<le> 100"
    unfolding r by (rule analyzeMatchScore_range)
  moreover have "score res = computeHeuristicScore resumeText jobText \<and> usedHeuristic res"
    if "\<not> isFinite aiScore \<or> (aiScore = Finite 0 \<and> 20 \<le> computeHeuristicScore resumeText jobText)"
    unfolding r using that by (rule analyzeMatchScore_fallback)
  ultimately show ?thesis using c p n by blast
qed

theorem analyzeMatch_score_witness:
  "analyzeMatch exampleRuntime exampleSettings zeroReply ''prompt''
     ''I know react and python'' ''react node react python node react'' =
     Inr \<lparr>score = 72, usedHeuristic = True\<rparr> \<and>
   computeHeuristicScore ''I know react and python'' ''react node react python node react'' = 72 \<and>
   analyzeMatch exampleRuntime exampleSettings noScoreReply ''prompt''
     ''I know react and python'' ''react node react python node react'' =
     Inr \<lparr>score = 72, usedHeuristic = True\<rparr> \<and>
   (0::int) \<le> score \<lparr>score = 72, usedHeuristic = True\<rparr> \<and>
   score \<lparr>score = 72, usedHeuristic = True\<rparr> \<le> 100"
proof -
  have a: "analyzeMatch exampleRuntime exampleSettings zeroReply ''prompt''
     ''I know react and python'' ''react node react python node react'' =
     Inr \<lparr>score = 72, usedHeuristic = True\<rparr>"
    by code_simp
  have b: "analyzeMatch exampleRuntime exampleSettings noScoreReply ''prompt''
     ''I know react and python'' ''react node react python node react'' =
     Inr \<lparr>score = 72, usedHeuristic = True\<rparr>"
    by code_simp
  have h: "computeHeuristicScore ''I know react and python'' ''react node react python node react'' = 72"
    by code_simp
  show ?thesis
    using a b h analyzeMatch_score [OF a] by simp
qed

section \<open>Stored jobs, the default resume and optional cloud sync\<close>

lemma findIndex_ge: "- 1 \<le> findIndex P xs"
  by (induction xs) (auto simp: Let_def)

lemma findIndex_neg_iff: "findIndex P xs < 0 \<longleftrightarrow> (\<forall>x\<in>set xs. \<not> P x)"
proof (induction xs)
  case Nil
  then show ?case by simp
next
  case (Cons x xs)
  have "- 1 \<le> findIndex P xs" by (rule findIndex_ge)
  with Cons show ?case by (auto simp: Let_def)
qed

lemma findIndex_found:
  "0 \<le> findIndex P xs \<Longrightarrow>
   nat (findIndex P xs) < length xs \<and> P (xs ! nat (findIndex P xs))"
proof (induction xs)
  case Nil
  then show ?case by simp
next
  case (Cons x xs)
  show ?case
  proof (cases "P x")
    case True
    then show ?thesis by simp
  next
    case False
    with Cons.prems have nn: "0 \<le> findIndex P xs"
      by (auto simp: Let_def split: if_splits)
    with Cons.IH have "nat (findIndex P xs) < length xs \<and> P (xs ! nat (findIndex P xs))"
      by simp
    moreover have "nat (findIndex P xs + 1) = Suc (nat (findIndex P xs))"
      using nn by simp
    ultimately show ?thesis using False nn by (simp add: Let_def)
  qed
qed

lemma distinct_map_update_same:
  "distinct (map f xs) \<Longrightarrow> i < length xs \<Longrightarrow> f y = f (xs ! i) \<Longrightarrow> distinct (map f (xs[i := y]))"
proof -
  assume d: "distinct (map f xs)" and i: "i < length xs" and f: "f y = f (xs ! i)"
  have "map f (xs[i := y]) = (map f xs)[i := (map f xs) ! i]"
    using i f by (simp add: map_update)
  also have "\<dots> = map f xs" by (rule list_update_id)
  finally show ?thesis using d by simp
qed

lemma upsertById_distinct:
  assumes "distinct (map ident arr)"
  shows "distinct (map ident (upsertById ident arr item))"
proof (cases "0 \<le> findIndex (\<lambda>x. ident x = ident item) arr")
  case True
  from findIndex_found [OF True]
  have "nat (findIndex (\<lambda>x. ident x = ident item) arr) < length arr"
    and "ident item = ident (arr ! nat (findIndex (\<lambda>x. ident x = ident item) arr))"
    by simp_all
  with assms True show ?thesis
    by (simp add: upsertById_def Let_def distinct_map_update_same)
next
  case False
  then have "findIndex (\<lambda>x. ident x = ident item) arr < 0" by simp
  then have "\<forall>x\<in>set arr. ident x \<noteq> ident item" by (simp add: findIndex_neg_iff)
  with assms False show ?thesis
    by (auto simp: upsertById_def Let_def)
qed

lemma saveJob_jobs:
  "jobs (saveJob job st) = upsertById j_url (jobs st) job"
  by (simp add: saveJob_def upsertById_def Let_def)

lemma handleJobExtraction_jobs:
  "jobs (fst (handleJobExtraction job st)) = upsertById j_url (jobs st) job"
  by (simp add: handleJobExtraction_def upsertById_def Let_def)

lemma upsertById_existing:
  assumes "ident item \<in> ident ` set arr"
  shows "\<exists>i < length arr. ident (arr ! i) = ident item \<and> upsertById ident arr item = arr[i := item]"
proof -
  from assms have "\<not> findIndex (\<lambda>x. ident x = ident item) arr < 0"
    by (auto simp: findIndex_neg_iff)
  then have nn: "0 \<le> findIndex (\<lambda>x. ident x = ident item) arr" by simp
  from findIndex_found [OF nn] nn show ?thesis
    by (auto simp: upsertById_def Let_def)
qed

lemma upsertById_new:
  assumes "ident item \<notin> ident ` set arr"
  shows "upsertById ident arr item = arr @ [item]"
proof -
  from assms have "\<forall>x\<in>set arr. ident x \<noteq> ident item"
    by (metis imageI)
  then have "findIndex (\<lambda>x. ident x = ident item) arr < 0"
    by (simp add: findIndex_neg_iff)
  then show ?thesis by (simp add: upsertById_def Let_def)
qed

text \<open>
  Claim C9. If no two stored jobs share a url, then after \<^verbatim>\<open>StorageManager.saveJob\<close>,
  and after \<^verbatim>\<open>handleJobExtraction\<close> (which stores the same list), no two stored jobs
  share a url; a job whose url is stored already replaces the stored job with that
  url at its position, so the number of stored jobs is unchanged, and a job with a
  new url is appended.
\<close>

theorem saveJob_keeps_urls_unique:
  assumes "distinct (map j_url (jobs st))"
  shows "distinct (map j_url (jobs (saveJob job st))) \<and>
         distinct (map j_url (jobs (fst (handleJobExtraction job st)))) \<and>
         jobs (fst (handleJobExtraction job st)) = jobs (saveJob job st) \<and>
         (j_url job \<in> j_url ` set (jobs st) \<longrightarrow>
            length (jobs (saveJob job st)) = length (jobs st) \<and>
            (\<exists>i < length (jobs st). j_url (jobs st ! i) = j_url job \<and>
               jobs (saveJob job st) = (jobs st)[i := job])) \<and>
         (j_url job \<notin> j_url ` set (jobs st) \<longrightarrow> jobs (saveJob job st) = jobs st @ [job])"
proof -
  have d: "distinct (map j_url (upsertById j_url (jobs st) job))"
    using assms by (rule upsertById_distinct)
  have e: "\<exists>i < length (jobs st). j_url (jobs st ! i) = j_url job \<and>
             upsertById j_url (jobs st) job = (jobs st)[i := job]"
    if "j_url job \<in> j_url ` set (jobs st)"
    using that by (rule upsertById_existing)
  have l: "length (upsertById j_url (jobs st) job) = length (jobs st)"
    if "j_url job \<in> j_url ` set (jobs st)"
    using e [OF that] by auto
  have n: "upsertById j_url (jobs st) job = jobs st @ [job]"
    if "j_url job \<notin> j_url ` set (jobs st)"
    using that by (rule upsertById_new)
  show ?thesis
    using d e l n by (simp only: saveJob_jobs handleJobExtraction_jobs) blast
qed

theorem saveJob_keeps_urls_unique_witness:
  "distinct (map j_url (jobs twoJobs)) \<and>
   j_url (exampleJob ''j9'' ''https://a.example/1'' ''Senior engineer'') \<in> j_url ` set (jobs twoJobs) \<and>
   jobs (saveJob (exampleJob ''j9'' ''https://a.example/1'' ''Senior engineer'') twoJobs) =
     [exampleJob ''j9'' ''https://a.example/1'' ''Senior engineer'',
      exampleJob ''j2'' ''https://a.example/2'' ''Designer''] \<and>
   j_url (exampleJob ''j3'' ''https://a.example/3'' ''Writer'') \<notin> j_url ` set (jobs twoJobs) \<and>
   jobs (saveJob (exampleJob ''j3'' ''https://a.example/3'' ''Writer'') twoJobs) =
     jobs twoJobs @ [exampleJob ''j3'' ''https://a.example/3'' ''Writer''] \<and>
   distinct (map j_url (jobs (saveJob (exampleJob ''j9'' ''https://a.example/1'' ''Senior engineer'') twoJobs))) \<and>
   distinct (map j_url (jobs (fst (handleJobExtraction (exampleJob ''j3'' ''https://a.example/3'' ''Writer'') twoJobs))))"
proof -
  have d: "distinct (map j_url (jobs twoJobs))"
    by (simp add: twoJobs_def emptyStorage_def exampleJob_def)
  have a: "jobs (saveJob (exampleJob ''j9'' ''https://a.example/1'' ''Senior engineer'') twoJobs) =
     [exampleJob ''j9'' ''https://a.example/1'' ''Senior engineer'',
      exampleJob ''j2'' ''https://a.example/2'' ''Designer'']"
    by (simp add: saveJob_def twoJobs_def emptyStorage_def exampleJob_def Let_def)
  have m: "j_url (exampleJob ''j9'' ''https://a.example/1'' ''Senior engineer'') \<in> j_url ` set (jobs twoJobs)"
    "j_url (exampleJob ''j3'' ''https://a.example/3'' ''Writer'') \<notin> j_url ` set (jobs twoJobs)"
    by (simp_all add: twoJobs_def emptyStorage_def exampleJob_def)
  show ?thesis
    using d a m
      saveJob_keeps_urls_unique [OF d, of "exampleJob ''j9'' ''https://a.example/1'' ''Senior engineer''"]
      saveJob_keeps_urls_unique [OF d, of "exampleJob ''j3'' ''https://a.example/3'' ''Writer''"]
    by simp
qed

lemma pushDocument_disabled: "\<not> isFirebaseEnabled env \<Longrightarrow> pushDocument env fb now write w = (None, w)"
  by (simp add: pushDocument_def)

lemma deleteDocument_disabled: "\<not> isFirebaseEnabled env \<Longrightarrow> deleteDocument env fb remove w = (None, w)"
  by (simp add: deleteDocument_def)

text \<open>
  Claim C6. When Firebase is not enabled, each of the five push operations, the three
  delete operations, the pull and the push of everything returns without an error
  and leaves local storage and the cloud store as they were.
\<close>

theorem cloud_sync_disabled_is_noop:
  assumes "\<not> isFirebaseEnabled env"
  shows "tryCloudSyncResume env fb now r w = (None, w) \<and>
         tryCloudSyncOptimizedResume env fb now optimized w = (None, w) \<and>
         tryCloudSyncCoverLetter env fb now letter w = (None, w) \<and>
         tryCloudSyncJob env fb now job w = (None, w) \<and>
         tryCloudSyncApplication env fb now app w = (None, w) \<and>
         tryCloudDeleteOptimizedResume env fb ident w = (None, w) \<and>
         tryCloudDeleteCoverLetter env fb ident w = (None, w) \<and>
         tryCloudDeleteApplication env fb ident w = (None, w) \<and>
         tryCloudPullAllToLocal env fb now w = (None, w) \<and>
         tryCloudPushAllFromLocal env fb now w = (None, w)"
  using assms
  by (simp add: tryCloudSyncResume_def tryCloudSyncOptimizedResume_def tryCloudSyncCoverLetter_def
      tryCloudSyncJob_def tryCloudSyncApplication_def tryCloudDeleteOptimizedResume_def
      tryCloudDeleteCoverLetter_def tryCloudDeleteApplication_def tryCloudPullAllToLocal_def
      tryCloudPushAllFromLocal_def pushDocument_disabled deleteDocument_disabled)

lemma disabledEnv_off: "\<not> isFirebaseEnabled disabledEnv"
  by code_simp

lemma enabledEnv_on: "isFirebaseEnabled enabledEnv"
  by code_simp

theorem cloud_sync_disabled_is_noop_witness:
  "\<not> isFirebaseEnabled disabledEnv \<and>
   tryCloudSyncResume disabledEnv signedIn 1700000000001 (exampleResume ''r1'' True) emptyWorld =
     (None, emptyWorld) \<and>
   tryCloudDeleteCoverLetter disabledEnv signedIn ''c1'' emptyWorld = (None, emptyWorld) \<and>
   tryCloudPullAllToLocal disabledEnv signedIn 1700000000001 emptyWorld = (None, emptyWorld) \<and>
   tryCloudPushAllFromLocal disabledEnv signedIn 1700000000001 emptyWorld = (None, emptyWorld) \<and>
   isFirebaseEnabled enabledEnv \<and>
   map fst (cloudResumes (cloud (snd (tryCloudSyncResume enabledEnv signedIn 1700000000001
     (exampleResume ''r1'' True) emptyWorld)) ''u1'')) = [''r1'']"
proof -
  have on: "map fst (cloudResumes (cloud (snd (tryCloudSyncResume enabledEnv signedIn 1700000000001
     (exampleResume ''r1'' True) emptyWorld)) ''u1'')) = [''r1'']"
    by (simp add: tryCloudSyncResume_def pushDocument_def enabledEnv_on firebaseReady_def
        signedIn_def ensureUser_def updateCloudSyncState_def emptyWorld_def emptyCloudUser_def
        mergeResumeDoc_def exampleResume_def)
  show ?thesis
    using disabledEnv_off enabledEnv_on on
      cloud_sync_disabled_is_noop [OF disabledEnv_off, of signedIn 1700000000001
        "exampleResume ''r1'' True" emptyWorld _ _ _ _ "''c1''"]
    by simp
qed

lemma no_default_after_reset:
  "filter r_isDefault (map (\<lambda>r. r\<lparr>r_isDefault := False\<rparr>) rs) = []"
  by (induction rs) auto

lemma saveResume_default:
  "r_isDefault resume \<Longrightarrow> filter r_isDefault (resumes (saveResume resume st)) = [resume]"
  by (simp add: saveResume_def Let_def no_default_after_reset)

lemma saveResume_nondefault:
  "\<not> r_isDefault resume \<Longrightarrow>
   filter r_isDefault (resumes (saveResume resume st)) = filter r_isDefault (resumes st)"
  by (simp add: saveResume_def Let_def)

lemma storeUploadedResume_default:
  "filter r_isDefault (resumes (storeUploadedResume resume st)) = [resume\<lparr>r_isDefault := True\<rparr>]"
  by (simp add: storeUploadedResume_def no_default_after_reset)

lemma deleteResume_defaults:
  "length (filter r_isDefault (resumes (deleteResume ident st))) \<le>
   length (filter r_isDefault (resumes st))"
proof -
  have "filter r_isDefault (filter (\<lambda>r. r_id r \<noteq> ident) rs) =
        filter (\<lambda>r. r_id r \<noteq> ident) (filter r_isDefault rs)" for rs :: "resume list"
    by (induction rs) auto
  then have "length (filter r_isDefault (filter (\<lambda>r. r_id r \<noteq> ident) (resumes st))) \<le>
             length (filter r_isDefault (resumes st))"
    by (simp only: length_filter_le)
  then show ?thesis
    by (simp add: deleteResume_def del: filter_filter)
qed

lemma r_id_pulledResume: "r_id (pulledResume now stored d) = r_id (d_resume d)"
  by (simp add: pulledResume_def Let_def)

lemma mergeCloudResumes_distinct:
  "distinct (map r_id stored) \<Longrightarrow> distinct (map r_id (mergeCloudResumes now docs stored))"
  unfolding mergeCloudResumes_def
proof (induction docs arbitrary: stored)
  case Nil
  then show ?case by simp
next
  case (Cons d docs)
  have "distinct (map r_id (upsertById r_id stored (pulledResume now stored d)))"
    using Cons.prems by (rule upsertById_distinct)
  then show ?case using Cons.IH by simp
qed

lemma count_same_key:
  "distinct (map f xs) \<Longrightarrow> d \<in> set xs \<Longrightarrow> length (filter (\<lambda>x. f x = f d) xs) = 1"
proof (induction xs)
  case Nil
  then show ?case by simp
next
  case (Cons x xs)
  show ?case
  proof (cases "x = d")
    case True
    with Cons.prems have "f d \<notin> f ` set xs" by simp
    then have "\<forall>y\<in>set xs. f y \<noteq> f d" by (metis imageI)
    then have "filter (\<lambda>x. f x = f d) xs = []" by (simp add: filter_empty_conv)
    with True show ?thesis by simp
  next
    case False
    with Cons.prems have d: "d \<in> set xs" by simp
    from Cons.prems have "f x \<notin> f ` set xs" by simp
    moreover from d have "f d \<in> f ` set xs" by (rule imageI)
    ultimately have "f x \<noteq> f d" by metis
    with Cons.IH d Cons.prems show ?thesis by simp
  qed
qed

lemma find_default_Some: "find P xs = Some d \<Longrightarrow> d \<in> set xs \<and> P d"
  by (induction xs) (auto split: if_splits)

lemma find_default_None: "find P xs = None \<Longrightarrow> filter P xs = []"
  by (induction xs) (auto split: if_splits)

lemma find_default_exists: "\<exists>x\<in>set xs. P x \<Longrightarrow> \<exists>d. find P xs = Some d"
  by (induction xs) auto

lemma defaults_after_enforce:
  "length (filter r_isDefault (map (\<lambda>r. r\<lparr>r_isDefault := (r_id r = k)\<rparr>) rs)) =
   length (filter (\<lambda>r. r_id r = k) rs)"
  by (induction rs) auto

lemma enforceOneDefault_distinct:
  assumes "distinct (map r_id rs)"
  shows "length (filter r_isDefault (enforceOneDefault rs)) \<le> 1 \<and>
         ((\<exists>r\<in>set rs. r_isDefault r) \<longrightarrow> length (filter r_isDefault (enforceOneDefault rs)) = 1)"
proof (cases "find r_isDefault rs")
  case None
  then have "filter r_isDefault rs = []" by (rule find_default_None)
  moreover from this have "\<not> (\<exists>r\<in>set rs. r_isDefault r)" by (simp add: filter_empty_conv)
  ultimately show ?thesis using None by (simp add: enforceOneDefault_def)
next
  case (Some d)
  then have "d \<in> set rs" by (simp add: find_default_Some)
  with assms have "length (filter (\<lambda>r. r_id r = r_id d) rs) = 1" by (rule count_same_key)
  then have "length (filter r_isDefault (map (\<lambda>r. r\<lparr>r_isDefault := (r_id r = r_id d)\<rparr>) rs)) = 1"
    by (simp only: defaults_after_enforce)
  with Some show ?thesis by (simp add: enforceOneDefault_def)
qed

lemma resumes_updateCloudSyncState:
  "resumes (localStore (updateCloudSyncState env patch w)) = resumes (localStore w)"
  by (simp add: updateCloudSyncState_def)

lemma cloud_updateCloudSyncState: "cloud (updateCloudSyncState env patch w) = cloud w"
  by (simp add: updateCloudSyncState_def)

lemma resumes_pullInto:
  "resumes (pullInto now u st) =
   enforceOneDefault (mergeCloudResumes now (map snd (cloudResumes u)) (resumes st))"
  by (simp add: pullInto_def)

lemma ensureUser_Inr:
  "ensureUser env fb w = Inr (uid, w1) \<Longrightarrow>
   currentUser fb = Some uid \<and> w1 = updateCloudSyncState env (\<lambda>s. s\<lparr>cs_uid := Some uid\<rparr>) w"
  by (simp add: ensureUser_def split: if_splits option.splits)

lemma pull_resumes:
  "resumes (localStore (snd (tryCloudPullAllToLocal env fb now w))) = resumes (localStore w) \<or>
   (\<exists>uid. fst (tryCloudPullAllToLocal env fb now w) = None \<and> isFirebaseEnabled env \<and>
      currentUser fb = Some uid \<and>
      resumes (localStore (snd (tryCloudPullAllToLocal env fb now w))) =
        enforceOneDefault (mergeCloudResumes now (map snd (cloudResumes (cloud w uid)))
          (resumes (localStore w))))"
proof (cases "isFirebaseEnabled env \<and> firebaseReady env fb")
  case False
  then show ?thesis by (auto simp: tryCloudPullAllToLocal_def)
next
  case True
  show ?thesis
  proof (cases "ensureUser env fb w")
    case (Inl e)
    with True show ?thesis
      by (simp add: tryCloudPullAllToLocal_def resumes_updateCloudSyncState)
  next
    case (Inr p)
    obtain uid w1 where p: "p = (uid, w1)" by (cases p)
    from Inr p have u: "currentUser fb = Some uid"
      and w1: "w1 = updateCloudSyncState env (\<lambda>s. s\<lparr>cs_uid := Some uid\<rparr>) w"
      by (simp_all add: ensureUser_Inr)
    show ?thesis
    proof (cases "requestFailure fb")
      case (Some m)
      with True Inr p w1 show ?thesis
        by (simp add: tryCloudPullAllToLocal_def resumes_updateCloudSyncState)
    next
      case None
      have "resumes (localStore (snd (tryCloudPullAllToLocal env fb now w))) =
            resumes (pullInto now (cloud w1 uid) (localStore w1))"
        using True Inr p None
        by (simp add: tryCloudPullAllToLocal_def resumes_updateCloudSyncState)
      also have "\<dots> = enforceOneDefault (mergeCloudResumes now (map snd (cloudResumes (cloud w uid)))
          (resumes (localStore w)))"
        by (simp only: resumes_pullInto w1 resumes_updateCloudSyncState cloud_updateCloudSyncState)
      finally have r: "resumes (localStore (snd (tryCloudPullAllToLocal env fb now w))) =
        enforceOneDefault (mergeCloudResumes now (map snd (cloudResumes (cloud w uid)))
          (resumes (localStore w)))" .
      have "fst (tryCloudPullAllToLocal env fb now w) = None"
        using True Inr p None by (simp add: tryCloudPullAllToLocal_def)
      with r u True show ?thesis by blast
    qed
  qed
qed

lemma pull_success:
  assumes "isFirebaseEnabled env" "initSucceeds fb" "currentUser fb = Some uid" "uid \<noteq> []"
    "requestFailure fb = None"
  shows "fst (tryCloudPullAllToLocal env fb now w) = None \<and>
         resumes (localStore (snd (tryCloudPullAllToLocal env fb now w))) =
           enforceOneDefault (mergeCloudResumes now (map snd (cloudResumes (cloud w uid)))
             (resumes (localStore w)))"
proof -
  let ?w1 = "updateCloudSyncState env (\<lambda>s. s\<lparr>cs_uid := Some uid\<rparr>) w"
  have e: "ensureUser env fb w = Inr (uid, ?w1)"
    using assms by (simp add: ensureUser_def firebaseReady_def)
  have p: "tryCloudPullAllToLocal env fb now w =
           (None, updateCloudSyncState env (pulledAt now)
                    (?w1\<lparr>localStore := pullInto now (cloud ?w1 uid) (localStore ?w1)\<rparr>))"
    using assms e by (simp add: tryCloudPullAllToLocal_def firebaseReady_def)
  show ?thesis
    by (simp only: p fst_conv snd_conv resumes_updateCloudSyncState)
       (simp add: resumes_pullInto resumes_updateCloudSyncState cloud_updateCloudSyncState)
qed

lemma signedIn_ok:
  "initSucceeds signedIn" "currentUser signedIn = Some ''u1''" "requestFailure signedIn = None"
  by (simp_all add: signedIn_def)

lemma duplicateIdStorage_resumes:
  "resumes duplicateIdStorage = [exampleResume ''r1'' True, exampleResume ''r1'' False]"
  by (simp add: duplicateIdStorage_def saveResume_def emptyStorage_def exampleResume_def Let_def)

text \<open>
  Claim C8, as stated, fails in two places. \<^verbatim>\<open>StorageManager.saveResume\<close> does not
  look at ids, so saving a default resume and then a second resume with the same id
  stores two resumes with one id, one of them the default; a pull then marks every
  resume with the id of the first default, here both. And
  \<^verbatim>\<open>StorageManager.importData\<close> writes the list it is given, here with two defaults.
\<close>

theorem one_default_counterexample:
  "atMostOneDefault (resumes duplicateIdStorage) \<and>
   fst (tryCloudPullAllToLocal enabledEnv signedIn 1700000000001 duplicateIdWorld) = None \<and>
   resumes (localStore (snd (tryCloudPullAllToLocal enabledEnv signedIn 1700000000001 duplicateIdWorld))) =
     [exampleResume ''r1'' True, exampleResume ''r1'' True] \<and>
   \<not> atMostOneDefault
       (resumes (localStore (snd (tryCloudPullAllToLocal enabledEnv signedIn 1700000000001 duplicateIdWorld)))) \<and>
   atMostOneDefault (resumes emptyStorage) \<and>
   \<not> atMostOneDefault
       (resumes (importResumes (Some [exampleResume ''r1'' True, exampleResume ''r2'' True]) emptyStorage))"
proof -
  have p: "fst (tryCloudPullAllToLocal enabledEnv signedIn 1700000000001 duplicateIdWorld) = None \<and>
     resumes (localStore (snd (tryCloudPullAllToLocal enabledEnv signedIn 1700000000001 duplicateIdWorld))) =
       enforceOneDefault (mergeCloudResumes 1700000000001
         (map snd (cloudResumes (cloud duplicateIdWorld ''u1''))) (resumes (localStore duplicateIdWorld)))"
    by (rule pull_success [OF enabledEnv_on signedIn_ok(1,2) _ signedIn_ok(3)]) simp
  have m: "enforceOneDefault (mergeCloudResumes 1700000000001
         (map snd (cloudResumes (cloud duplicateIdWorld ''u1''))) (resumes (localStore duplicateIdWorld))) =
       [exampleResume ''r1'' True, exampleResume ''r1'' True]"
    by (simp add: duplicateIdWorld_def duplicateIdStorage_resumes emptyCloudUser_def
        mergeCloudResumes_def enforceOneDefault_def exampleResume_def)
  have i: "resumes (importResumes (Some [exampleResume ''r1'' True, exampleResume ''r2'' True]) emptyStorage) =
     [exampleResume ''r1'' True, exampleResume ''r2'' True]"
    by (simp add: importResumes_def)
  have e: "resumes emptyStorage = []" by (simp add: emptyStorage_def)
  have d2: "length (filter r_isDefault [exampleResume ''r1'' True, exampleResume ''r1'' True]) = 2"
    "length (filter r_isDefault [exampleResume ''r1'' True, exampleResume ''r2'' True]) = 2"
    "length (filter r_isDefault [exampleResume ''r1'' True, exampleResume ''r1'' False]) = 1"
    by (simp_all add: exampleResume_def)
  show ?thesis
    unfolding atMostOneDefault_def p [THEN conjunct2] m i e duplicateIdStorage_resumes d2
    using p by simp
qed

text \<open>
  Claim C8, amended. \<^verbatim>\<open>StorageManager.saveResume\<close> makes a resume saved as default
  the only default and keeps the invariant (at most one default) otherwise;
  \<^verbatim>\<open>StorageManager.deleteResume\<close> keeps it; the upload view makes the uploaded resume
  the only default; and when the ids of the stored resumes are pairwise distinct,
  \<^verbatim>\<open>tryCloudPullAllToLocal\<close> keeps it, and a pull that succeeds leaves exactly one
  default whenever a merged resume is marked default.
\<close>

theorem one_default_preserved:
  "(r_isDefault resume \<longrightarrow> filter r_isDefault (resumes (saveResume resume st)) = [resume]) \<and>
   (atMostOneDefault (resumes st) \<longrightarrow> atMostOneDefault (resumes (saveResume resume st))) \<and>
   (atMostOneDefault (resumes st) \<longrightarrow> atMostOneDefault (resumes (deleteResume ident st))) \<and>
   filter r_isDefault (resumes (storeUploadedResume resume st)) = [resume\<lparr>r_isDefault := True\<rparr>] \<and>
   (distinct (map r_id (resumes (localStore w))) \<and> atMostOneDefault (resumes (localStore w)) \<longrightarrow>
      atMostOneDefault (resumes (localStore (snd (tryCloudPullAllToLocal env fb now w))))) \<and>
   (distinct (map r_id (resumes (localStore w))) \<and>
    isFirebaseEnabled env \<and> initSucceeds fb \<and> currentUser fb = Some uid \<and> uid \<noteq> [] \<and>
    requestFailure fb = None \<and>
    (\<exists>r \<in> set (mergeCloudResumes now (map snd (cloudResumes (cloud w uid))) (resumes (localStore w))).
       r_isDefault r) \<longrightarrow>
      fst (tryCloudPullAllToLocal env fb now w) = None \<and>
      length (filter r_isDefault
        (resumes (localStore (snd (tryCloudPullAllToLocal env fb now w))))) = 1)"
proof -
  have a: "filter r_isDefault (resumes (saveResume resume st)) = [resume]" if "r_isDefault resume"
    using that by (rule saveResume_default)
  have b: "atMostOneDefault (resumes (saveResume resume st))" if "atMostOneDefault (resumes st)"
  proof (cases "r_isDefault resume")
    case True
    then show ?thesis by (simp add: atMostOneDefault_def saveResume_default)
  next
    case False
    with that show ?thesis by (simp add: atMostOneDefault_def saveResume_nondefault)
  qed
  have c: "atMostOneDefault (resumes (deleteResume ident st))" if "atMostOneDefault (resumes st)"
    using that deleteResume_defaults [of ident st] by (simp add: atMostOneDefault_def)
  have d: "filter r_isDefault (resumes (storeUploadedResume resume st)) = [resume\<lparr>r_isDefault := True\<rparr>]"
    by (rule storeUploadedResume_default)
  have e: "atMostOneDefault (resumes (localStore (snd (tryCloudPullAllToLocal env fb now w))))"
    if dist: "distinct (map r_id (resumes (localStore w)))"
      and inv: "atMostOneDefault (resumes (localStore w))"
  proof -
    from pull_resumes [of env fb now w] show ?thesis
    proof
      assume "resumes (localStore (snd (tryCloudPullAllToLocal env fb now w))) = resumes (localStore w)"
      with inv show ?thesis by simp
    next
      assume "\<exists>uid. fst (tryCloudPullAllToLocal env fb now w) = None \<and> isFirebaseEnabled env \<and>
        currentUser fb = Some uid \<and>
        resumes (localStore (snd (tryCloudPullAllToLocal env fb now w))) =
          enforceOneDefault (mergeCloudResumes now (map snd (cloudResumes (cloud w uid)))
            (resumes (localStore w)))"
      then obtain u where r: "resumes (localStore (snd (tryCloudPullAllToLocal env fb now w))) =
          enforceOneDefault (mergeCloudResumes now (map snd (cloudResumes (cloud w u)))
            (resumes (localStore w)))"
        by blast
      have "distinct (map r_id (mergeCloudResumes now (map snd (cloudResumes (cloud w u)))
            (resumes (localStore w))))"
        using dist by (rule mergeCloudResumes_distinct)
      from enforceOneDefault_distinct [OF this] show ?thesis
        by (simp add: r atMostOneDefault_def)
    qed
  qed
  have f: "fst (tryCloudPullAllToLocal env fb now w) = None \<and>
      length (filter r_isDefault
        (resumes (localStore (snd (tryCloudPullAllToLocal env fb now w))))) = 1"
    if dist: "distinct (map r_id (resumes (localStore w)))"
      and ok: "isFirebaseEnabled env" "initSucceeds fb" "currentUser fb = Some uid" "uid \<noteq> []"
        "requestFailure fb = None"
      and ex: "\<exists>r \<in> set (mergeCloudResumes now (map snd (cloudResumes (cloud w uid)))
                 (resumes (localStore w))). r_isDefault r"
  proof -
    note s = pull_success [OF ok, of now w]
    have "distinct (map r_id (mergeCloudResumes now (map snd (cloudResumes (cloud w uid)))
            (resumes (localStore w))))"
      using dist by (rule mergeCloudResumes_distinct)
    from enforceOneDefault_distinct [OF this] ex s show ?thesis by simp
  qed
  show ?thesis
    using a b c d e f by blast
qed

lemma oneResumeStorage_resumes: "resumes oneResumeStorage = [exampleResume ''r1'' True]"
  by (simp add: oneResumeStorage_def saveResume_def emptyStorage_def Let_def)

lemma cloudDefaultWorld_resumes:
  "resumes (localStore cloudDefaultWorld) = [exampleResume ''r1'' False, exampleResume ''r2'' True]"
  by (simp add: cloudDefaultWorld_def saveResume_def emptyStorage_def exampleResume_def Let_def)

lemma cloudDefaultWorld_merged:
  "mergeCloudResumes 1700000000001 (map snd (cloudResumes (cloud cloudDefaultWorld ''u1'')))
     (resumes (localStore cloudDefaultWorld)) = [exampleResume ''r1'' True, exampleResume ''r2'' True]"
  unfolding cloudDefaultWorld_resumes
  by (simp add: cloudDefaultWorld_def emptyCloudUser_def mergeCloudResumes_def upsertById_def
      pulledResume_def orUndefined_def truthy_def exampleResume_def Let_def)

theorem one_default_preserved_witness:
  "r_isDefault (exampleResume ''r2'' True) \<and>
   atMostOneDefault (resumes oneResumeStorage) \<and>
   filter r_isDefault (resumes (saveResume (exampleResume ''r2'' True) oneResumeStorage)) =
     [exampleResume ''r2'' True] \<and>
   atMostOneDefault (resumes (saveResume (exampleResume ''r2'' True) oneResumeStorage)) \<and>
   atMostOneDefault (resumes (deleteResume ''r1'' oneResumeStorage)) \<and>
   distinct (map r_id (resumes (localStore cloudDefaultWorld))) \<and>
   atMostOneDefault (resumes (localStore cloudDefaultWorld)) \<and>
   isFirebaseEnabled enabledEnv \<and> initSucceeds signedIn \<and> currentUser signedIn = Some ''u1'' \<and>
   requestFailure signedIn = None \<and>
   (\<exists>r \<in> set (mergeCloudResumes 1700000000001 (map snd (cloudResumes (cloud cloudDefaultWorld ''u1'')))
              (resumes (localStore cloudDefaultWorld))). r_isDefault r) \<and>
   fst (tryCloudPullAllToLocal enabledEnv signedIn 1700000000001 cloudDefaultWorld) = None \<and>
   length (filter r_isDefault
     (resumes (localStore (snd (tryCloudPullAllToLocal enabledEnv signedIn 1700000000001
        cloudDefaultWorld))))) = 1 \<and>
   atMostOneDefault
     (resumes (localStore (snd (tryCloudPullAllToLocal enabledEnv signedIn 1700000000001
        cloudDefaultWorld))))"
proof -
  have h1: "r_isDefault (exampleResume ''r2'' True)" by (simp add: exampleResume_def)
  have h2: "atMostOneDefault (resumes oneResumeStorage)"
    by (simp add: oneResumeStorage_resumes atMostOneDefault_def)
  have h3: "distinct (map r_id (resumes (localStore cloudDefaultWorld)))"
    by (simp add: cloudDefaultWorld_resumes exampleResume_def)
  have h4: "atMostOneDefault (resumes (localStore cloudDefaultWorld))"
    by (simp add: cloudDefaultWorld_resumes atMostOneDefault_def exampleResume_def)
  have h5: "\<exists>r \<in> set (mergeCloudResumes 1700000000001
              (map snd (cloudResumes (cloud cloudDefaultWorld ''u1'')))
              (resumes (localStore cloudDefaultWorld))). r_isDefault r"
    unfolding cloudDefaultWorld_merged by (simp add: exampleResume_def)
  have h6: "''u1'' \<noteq> []" by simp
  note t = one_default_preserved [where resume = "exampleResume ''r2'' True"
      and st = oneResumeStorage and ident = "''r1''" and w = cloudDefaultWorld
      and env = enabledEnv and fb = signedIn and now = 1700000000001 and uid = "''u1''"]
  show ?thesis
    using t h1 h2 h3 h4 h5 h6 enabledEnv_on signedIn_ok by blast
qed

section \<open>Saving generated content\<close>

lemma sameRecords_refl: "sameRecords w w"
  by (simp add: sameRecords_def)

lemma sameRecords_updateCloudSyncState: "sameRecords (updateCloudSyncState env patch w) w"
  by (simp add: sameRecords_def updateCloudSyncState_def)

lemma sameRecords_trans: "sameRecords w2 w1 \<Longrightarrow> sameRecords w1 w \<Longrightarrow> sameRecords w2 w"
  by (simp add: sameRecords_def)

lemma sameRecords_cloud: "sameRecords (w\<lparr>cloud := c\<rparr>) w"
  by (simp add: sameRecords_def)

lemma sameRecords_ensureUser: "ensureUser env fb w = Inr (uid, w1) \<Longrightarrow> sameRecords w1 w"
  by (auto simp: ensureUser_def sameRecords_updateCloudSyncState split: if_splits option.splits)

lemma sameRecords_pushDocument: "sameRecords (snd (pushDocument env fb now write w)) w"
proof (cases "isFirebaseEnabled env \<and> firebaseReady env fb")
  case False
  then show ?thesis by (auto simp: pushDocument_def sameRecords_refl)
next
  case True
  show ?thesis
  proof (cases "ensureUser env fb w")
    case (Inl e)
    with True show ?thesis by (simp add: pushDocument_def sameRecords_refl)
  next
    case (Inr p)
    obtain uid w1 where p: "p = (uid, w1)" by (cases p)
    with Inr have s1: "sameRecords w1 w" by (simp add: sameRecords_ensureUser)
    show ?thesis
    proof (cases "requestFailure fb")
      case (Some m)
      with True Inr p s1 show ?thesis by (simp add: pushDocument_def)
    next
      case None
      have "sameRecords (updateCloudSyncState env (pushedAt now)
              (w1\<lparr>cloud := (cloud w1)(uid := write (cloud w1 uid))\<rparr>)) w"
        by (rule sameRecords_trans [OF sameRecords_updateCloudSyncState
              sameRecords_trans [OF sameRecords_cloud s1]])
      with True Inr p None show ?thesis by (simp add: pushDocument_def)
    qed
  qed
qed

lemma keepsDocuments_refl: "keepsDocuments w w"
  by (simp add: keepsDocuments_def)

lemma keepsDocuments_trans:
  "keepsDocuments w2 w1 \<Longrightarrow> keepsDocuments w1 w \<Longrightarrow> keepsDocuments w2 w"
  by (simp add: keepsDocuments_def)

lemma sameRecords_keeps: "sameRecords w' w \<Longrightarrow> keepsDocuments w' w"
  by (simp add: keepsDocuments_def sameRecords_def)

lemma keeps_push: "keepsDocuments (snd (pushDocument env fb now write w)) w"
  by (rule sameRecords_keeps [OF sameRecords_pushDocument])

lemma keeps_jobs: "keepsDocuments (w\<lparr>localStore := (localStore w)\<lparr>jobs := js\<rparr>\<rparr>) w"
  by (simp add: keepsDocuments_def)

lemma keeps_applications:
  "keepsDocuments (w\<lparr>localStore := (localStore w)\<lparr>applications := as\<rparr>\<rparr>) w"
  by (simp add: keepsDocuments_def)

lemma keeps_jobEnsured: "keepsDocuments (jobEnsured env fb props now w) w"
proof (cases "find (\<lambda>j. j_id j = j_id (p_job props)) (jobs (localStore w))")
  case None
  have "keepsDocuments
          (snd (tryCloudSyncJob env fb now (p_job props)
                 (w\<lparr>localStore := (localStore w)\<lparr>jobs := jobs (localStore w) @ [p_job props]\<rparr>\<rparr>))) w"
    unfolding tryCloudSyncJob_def by (rule keepsDocuments_trans [OF keeps_push keeps_jobs])
  with None show ?thesis by (simp add: jobEnsured_def)
next
  case (Some j)
  then show ?thesis by (simp add: jobEnsured_def keepsDocuments_refl)
qed

lemma ensureApplication_unfold:
  "ensureApplication env fb props now newId patch (ui, w) =
     (let w1 = jobEnsured env fb props now w;
          st1 = localStore w1;
          idx = findIndex (\<lambda>a. a_jobId a = ap_jobId patch) (applications st1)
      in if idx \<ge> 0 then
           (let existing = assignPatch patch (applications st1 ! nat idx)
            in (ui\<lparr>applicationStatus := Some (a_status existing), saving := False\<rparr>,
                snd (tryCloudSyncApplication env fb now existing
                  (w1\<lparr>localStore := st1\<lparr>applications := (applications st1)[nat idx := existing]\<rparr>\<rparr>))))
         else
           (let created =
                  \<lparr>a_id = newId,
                   a_jobId = ap_jobId patch,
                   a_resumeId = (case ap_resumeId patch of
                                   None \<Rightarrow> r_id (p_resume props)
                                 | Some r \<Rightarrow> if r = [] then r_id (p_resume props) else r),
                   a_coverLetterId = ap_coverLetterId patch,
                   a_appliedDate = (case ap_appliedDate patch of
                                      None \<Rightarrow> now
                                    | Some d \<Rightarrow> if d = 0 then now else d),
                   a_status = (case ap_status patch of None \<Rightarrow> Draft | Some s \<Rightarrow> s)\<rparr>
            in (ui\<lparr>applicationStatus := Some (a_status created), saving := False\<rparr>,
                snd (tryCloudSyncApplication env fb now created
                  (w1\<lparr>localStore := st1\<lparr>applications := applications st1 @ [created]\<rparr>\<rparr>)))))"
  by (simp add: ensureApplication_def jobEnsured_def Let_def)

lemma ensureApplication_keeps:
  "keepsDocuments (snd (ensureApplication env fb props now newId patch (ui, w))) w"
proof -
  let ?w1 = "jobEnsured env fb props now w"
  have k1: "keepsDocuments ?w1 w" by (rule keeps_jobEnsured)
  have k2: "keepsDocuments (snd (tryCloudSyncApplication env fb now a
              (?w1\<lparr>localStore := (localStore ?w1)\<lparr>applications := as\<rparr>\<rparr>))) w" for a as
    unfolding tryCloudSyncApplication_def
    by (rule keepsDocuments_trans [OF keeps_push keepsDocuments_trans [OF keeps_applications k1]])
  show ?thesis
    unfolding ensureApplication_unfold Let_def by (simp add: k2)
qed

lemma ensureApplication_view:
  "optimizedResumeDoc (fst (ensureApplication env fb props now newId patch (ui, w))) = optimizedResumeDoc ui \<and>
   coverLetterDoc (fst (ensureApplication env fb props now newId patch (ui, w))) = coverLetterDoc ui \<and>
   rewriteFullText (fst (ensureApplication env fb props now newId patch (ui, w))) = rewriteFullText ui \<and>
   rewriteType (fst (ensureApplication env fb props now newId patch (ui, w))) = rewriteType ui"
  unfolding ensureApplication_unfold Let_def by simp

lemma save_empty:
  "rewriteFullText ui = [] \<Longrightarrow>
   saveGeneratedContent env fb props now newId newAppId (ui, w) = (NothingToSave, ui, w)"
  by (simp add: saveGeneratedContent_def)

lemma keeps_optimized_push:
  "keepsDocuments (snd (tryCloudSyncOptimizedResume env fb now x w)) w"
  "keepsDocuments (snd (tryCloudSyncCoverLetter env fb now y w)) w"
  unfolding tryCloudSyncOptimizedResume_def tryCloudSyncCoverLetter_def by (rule keeps_push)+

lemma save_resume_duplicate:
  assumes "rewriteFullText ui \<noteq> []" "rewriteType ui = RewriteResume"
    and "resumeDuplicate props (rewriteFullText ui) w = Some dup"
  shows "fst (saveGeneratedContent env fb props now newId newAppId (ui, w)) = AlreadyStored \<and>
         keepsDocuments (snd (snd (saveGeneratedContent env fb props now newId newAppId (ui, w)))) w \<and>
         optimizedResumeDoc (fst (snd (saveGeneratedContent env fb props now newId newAppId (ui, w)))) =
           Some \<lparr>g_id = r_id dup, g_text = rewriteFullText ui, g_createdAt = r_uploadDate dup\<rparr> \<and>
         rewriteFullText (fst (snd (saveGeneratedContent env fb props now newId newAppId (ui, w)))) =
           rewriteFullText ui \<and>
         rewriteType (fst (snd (saveGeneratedContent env fb props now newId newAppId (ui, w)))) =
           rewriteType ui"
  using assms
  by (simp add: saveGeneratedContent_def resumeDuplicate_def Let_def split_beta
      ensureApplication_keeps ensureApplication_view)

lemma save_letter_duplicate:
  assumes "rewriteFullText ui \<noteq> []" "rewriteType ui = RewriteCoverLetter"
    and "letterDuplicate props (rewriteFullText ui) w = Some dup"
  shows "fst (saveGeneratedContent env fb props now newId newAppId (ui, w)) = AlreadyStored \<and>
         keepsDocuments (snd (snd (saveGeneratedContent env fb props now newId newAppId (ui, w)))) w \<and>
         coverLetterDoc (fst (snd (saveGeneratedContent env fb props now newId newAppId (ui, w)))) =
           Some \<lparr>g_id = c_id dup, g_text = rewriteFullText ui, g_createdAt = c_createdDate dup\<rparr> \<and>
         rewriteFullText (fst (snd (saveGeneratedContent env fb props now newId newAppId (ui, w)))) =
           rewriteFullText ui \<and>
         rewriteType (fst (snd (saveGeneratedContent env fb props now newId newAppId (ui, w)))) =
           rewriteType ui"
  using assms
  by (simp add: saveGeneratedContent_def letterDuplicate_def Let_def split_beta
      ensureApplication_keeps ensureApplication_view)

lemma outcome_case:
  "snd (case a of None \<Rightarrow> (g, u, w3) | Some e \<Rightarrow> (f e, u, w3)) = (u, w3)"
  by (cases a) auto

lemma save_resume_new:
  assumes "rewriteFullText ui \<noteq> []" "rewriteType ui = RewriteResume"
    and "resumeDuplicate props (rewriteFullText ui) w = None"
  shows "optimizedResumes (localStore (snd (snd (saveGeneratedContent env fb props now newId newAppId (ui, w))))) =
           optimizedResumes (localStore w) @ [newOptimized props now newId (rewriteFullText ui)] \<and>
         coverLetters (localStore (snd (snd (saveGeneratedContent env fb props now newId newAppId (ui, w))))) =
           coverLetters (localStore w) \<and>
         rewriteFullText (fst (snd (saveGeneratedContent env fb props now newId newAppId (ui, w)))) =
           rewriteFullText ui \<and>
         rewriteType (fst (snd (saveGeneratedContent env fb props now newId newAppId (ui, w)))) =
           rewriteType ui"
proof -
  let ?opt = "newOptimized props now newId (rewriteFullText ui)"
  let ?w1 = "w\<lparr>localStore := (localStore w)\<lparr>optimizedResumes := optimizedResumes (localStore w) @ [?opt]\<rparr>\<rparr>"
  let ?ui1 = "ui\<lparr>saving := True,
                 optimizedResumeDoc := Some \<lparr>g_id = newId, g_text = rewriteFullText ui, g_createdAt = now\<rparr>\<rparr>"
  let ?patch = "\<lparr>ap_jobId = j_id (p_job props), ap_resumeId = Some newId, ap_coverLetterId = None,
                 ap_appliedDate = None, ap_status = Some Draft\<rparr>"
  let ?E = "ensureApplication env fb props now newAppId ?patch (?ui1, ?w1)"
  have s: "snd (saveGeneratedContent env fb props now newId newAppId (ui, w)) =
           ((fst ?E)\<lparr>saving := False\<rparr>, snd (tryCloudSyncOptimizedResume env fb now ?opt (snd ?E)))"
    using assms
    by (simp add: saveGeneratedContent_def resumeDuplicate_def Let_def split_beta outcome_case
        newOptimized_def)
  have k: "keepsDocuments (snd (tryCloudSyncOptimizedResume env fb now ?opt (snd ?E))) ?w1"
    by (rule keepsDocuments_trans [OF keeps_optimized_push(1) ensureApplication_keeps])
  have v: "rewriteFullText (fst ?E) = rewriteFullText ui" "rewriteType (fst ?E) = rewriteType ui"
    using ensureApplication_view [of env fb props now newAppId ?patch ?ui1 ?w1] by simp_all
  show ?thesis
    using k v unfolding s by (simp add: keepsDocuments_def)
qed

lemma save_letter_new:
  assumes "rewriteFullText ui \<noteq> []" "rewriteType ui = RewriteCoverLetter"
    and "letterDuplicate props (rewriteFullText ui) w = None"
  shows "coverLetters (localStore (snd (snd (saveGeneratedContent env fb props now newId newAppId (ui, w))))) =
           coverLetters (localStore w) @ [newLetter props now newId (rewriteFullText ui)] \<and>
         optimizedResumes (localStore (snd (snd (saveGeneratedContent env fb props now newId newAppId (ui, w))))) =
           optimizedResumes (localStore w) \<and>
         rewriteFullText (fst (snd (saveGeneratedContent env fb props now newId newAppId (ui, w)))) =
           rewriteFullText ui \<and>
         rewriteType (fst (snd (saveGeneratedContent env fb props now newId newAppId (ui, w)))) =
           rewriteType ui"
proof -
  let ?l = "newLetter props now newId (rewriteFullText ui)"
  let ?w1 = "w\<lparr>localStore := (localStore w)\<lparr>coverLetters := coverLetters (localStore w) @ [?l]\<rparr>\<rparr>"
  let ?ui1 = "ui\<lparr>saving := True,
                 coverLetterDoc := Some \<lparr>g_id = newId, g_text = rewriteFullText ui, g_createdAt = now\<rparr>\<rparr>"
  let ?patch = "\<lparr>ap_jobId = j_id (p_job props), ap_resumeId = None, ap_coverLetterId = Some newId,
                 ap_appliedDate = None, ap_status = Some Draft\<rparr>"
  let ?E = "ensureApplication env fb props now newAppId ?patch (?ui1, ?w1)"
  have s: "snd (saveGeneratedContent env fb props now newId newAppId (ui, w)) =
           ((fst ?E)\<lparr>saving := False\<rparr>, snd (tryCloudSyncCoverLetter env fb now ?l (snd ?E)))"
    using assms
    by (simp add: saveGeneratedContent_def letterDuplicate_def Let_def split_beta outcome_case
        newLetter_def)
  have k: "keepsDocuments (snd (tryCloudSyncCoverLetter env fb now ?l (snd ?E))) ?w1"
    by (rule keepsDocuments_trans [OF keeps_optimized_push(2) ensureApplication_keeps])
  have v: "rewriteFullText (fst ?E) = rewriteFullText ui" "rewriteType (fst ?E) = rewriteType ui"
    using ensureApplication_view [of env fb props now newAppId ?patch ?ui1 ?w1] by simp_all
  show ?thesis
    using k v unfolding s by (simp add: keepsDocuments_def)
qed

lemma find_append_new: "find P xs = None \<Longrightarrow> P x \<Longrightarrow> find P (xs @ [x]) = Some x"
  by (induction xs) (auto split: if_splits)

lemma resumeDuplicate_cong:
  "optimizedResumes (localStore w') = optimizedResumes (localStore w) \<Longrightarrow>
   resumeDuplicate props text w' = resumeDuplicate props text w"
  by (simp add: resumeDuplicate_def)

lemma letterDuplicate_cong:
  "coverLetters (localStore w') = coverLetters (localStore w) \<Longrightarrow>
   letterDuplicate props text w' = letterDuplicate props text w"
  by (simp add: letterDuplicate_def)

lemma save_then_duplicate_resume:
  assumes ne: "rewriteFullText ui \<noteq> []" and ty: "rewriteType ui = RewriteResume"
    and r1: "r1 = saveGeneratedContent env fb props now newId newAppId (ui, w)"
  shows "\<exists>d. resumeDuplicate props (rewriteFullText (fst (snd r1))) (snd (snd r1)) = Some d"
    and "rewriteFullText (fst (snd r1)) \<noteq> []" and "rewriteType (fst (snd r1)) = RewriteResume"
proof -
  let ?text = "rewriteFullText ui"
  let ?P = "\<lambda>x. o_jobId x = j_id (p_job props) \<and> r_parsedText x = ?text"
  have "(\<exists>d. find ?P (optimizedResumes (localStore (snd (snd r1)))) = Some d) \<and>
        rewriteFullText (fst (snd r1)) = ?text \<and> rewriteType (fst (snd r1)) = rewriteType ui"
  proof (cases "resumeDuplicate props ?text w")
    case None
    note n = save_resume_new [OF ne ty None, of env fb now newId newAppId, folded r1]
    from n have l: "optimizedResumes (localStore (snd (snd r1))) =
        optimizedResumes (localStore w) @ [newOptimized props now newId ?text]"
      by (rule conjunct1)
    have p: "?P (newOptimized props now newId ?text)" by (simp add: newOptimized_def)
    from None have "find ?P (optimizedResumes (localStore w)) = None"
      by (simp only: resumeDuplicate_def)
    then have "find ?P (optimizedResumes (localStore w) @ [newOptimized props now newId ?text]) =
          Some (newOptimized props now newId ?text)"
      using p by (rule find_append_new)
    then have "\<exists>d. find ?P (optimizedResumes (localStore (snd (snd r1)))) = Some d"
      by (simp only: l) blast
    with n show ?thesis by blast
  next
    case (Some dup)
    note d = save_resume_duplicate [OF ne ty Some, of env fb now newId newAppId, folded r1]
    from d have "optimizedResumes (localStore (snd (snd r1))) = optimizedResumes (localStore w)"
      by (simp only: keepsDocuments_def)
    moreover from Some have "find ?P (optimizedResumes (localStore w)) = Some dup"
      by (simp only: resumeDuplicate_def)
    ultimately have "\<exists>d. find ?P (optimizedResumes (localStore (snd (snd r1)))) = Some d"
      by simp
    with d show ?thesis by blast
  qed
  then have f: "\<exists>d. find ?P (optimizedResumes (localStore (snd (snd r1)))) = Some d"
    and t: "rewriteFullText (fst (snd r1)) = ?text" and k: "rewriteType (fst (snd r1)) = rewriteType ui"
    by blast+
  from f t show "\<exists>d. resumeDuplicate props (rewriteFullText (fst (snd r1))) (snd (snd r1)) = Some d"
    by (simp only: resumeDuplicate_def)
  from t ne show "rewriteFullText (fst (snd r1)) \<noteq> []" by simp
  from k ty show "rewriteType (fst (snd r1)) = RewriteResume" by simp
qed

lemma save_then_duplicate_letter:
  assumes ne: "rewriteFullText ui \<noteq> []" and ty: "rewriteType ui = RewriteCoverLetter"
    and r1: "r1 = saveGeneratedContent env fb props now newId newAppId (ui, w)"
  shows "\<exists>d. letterDuplicate props (rewriteFullText (fst (snd r1))) (snd (snd r1)) = Some d"
    and "rewriteFullText (fst (snd r1)) \<noteq> []" and "rewriteType (fst (snd r1)) = RewriteCoverLetter"
proof -
  let ?text = "rewriteFullText ui"
  let ?P = "\<lambda>x. c_jobId x = j_id (p_job props) \<and> c_content x = ?text"
  have "(\<exists>d. find ?P (coverLetters (localStore (snd (snd r1)))) = Some d) \<and>
        rewriteFullText (fst (snd r1)) = ?text \<and> rewriteType (fst (snd r1)) = rewriteType ui"
  proof (cases "letterDuplicate props ?text w")
    case None
    note n = save_letter_new [OF ne ty None, of env fb now newId newAppId, folded r1]
    from n have l: "coverLetters (localStore (snd (snd r1))) =
        coverLetters (localStore w) @ [newLetter props now newId ?text]"
      by (rule conjunct1)
    have p: "?P (newLetter props now newId ?text)" by (simp add: newLetter_def)
    from None have "find ?P (coverLetters (localStore w)) = None"
      by (simp only: letterDuplicate_def)
    then have "find ?P (coverLetters (localStore w) @ [newLetter props now newId ?text]) =
          Some (newLetter props now newId ?text)"
      using p by (rule find_append_new)
    then have "\<exists>d. find ?P (coverLetters (localStore (snd (snd r1)))) = Some d"
      by (simp only: l) blast
    with n show ?thesis by blast
  next
    case (Some dup)
    note d = save_letter_duplicate [OF ne ty Some, of env fb now newId newAppId, folded r1]
    from d have "coverLetters (localStore (snd (snd r1))) = coverLetters (localStore w)"
      by (simp only: keepsDocuments_def)
    moreover from Some have "find ?P (coverLetters (localStore w)) = Some dup"
      by (simp only: letterDuplicate_def)
    ultimately have "\<exists>d. find ?P (coverLetters (localStore (snd (snd r1)))) = Some d"
      by simp
    with d show ?thesis by blast
  qed
  then have f: "\<exists>d. find ?P (coverLetters (localStore (snd (snd r1)))) = Some d"
    and t: "rewriteFullText (fst (snd r1)) = ?text" and k: "rewriteType (fst (snd r1)) = rewriteType ui"
    by blast+
  from f t show "\<exists>d. letterDuplicate props (rewriteFullText (fst (snd r1))) (snd (snd r1)) = Some d"
    by (simp only: letterDuplicate_def)
  from t ne show "rewriteFullText (fst (snd r1)) \<noteq> []" by simp
  from k ty show "rewriteType (fst (snd r1)) = RewriteCoverLetter" by simp
qed

lemma save_twice:
  "keepsDocuments
     (snd (snd (saveGeneratedContent env fb props now2 newId2 newAppId2
        (snd (saveGeneratedContent env fb props now1 newId1 newAppId1 (ui, w))))))
     (snd (snd (saveGeneratedContent env fb props now1 newId1 newAppId1 (ui, w))))"
proof -
  define r1 where "r1 = saveGeneratedContent env fb props now1 newId1 newAppId1 (ui, w)"
  have pair: "snd r1 = (fst (snd r1), snd (snd r1))" by simp
  have "keepsDocuments
          (snd (snd (saveGeneratedContent env fb props now2 newId2 newAppId2 (fst (snd r1), snd (snd r1)))))
          (snd (snd r1))"
  proof (cases "rewriteFullText ui = []")
    case True
    then have "r1 = (NothingToSave, ui, w)" unfolding r1_def by (rule save_empty)
    with True show ?thesis by (simp add: save_empty keepsDocuments_refl)
  next
    case ne: False
    show ?thesis
    proof (cases "rewriteType ui")
      case RewriteResume
      from save_then_duplicate_resume [OF ne RewriteResume r1_def]
      obtain d where d: "resumeDuplicate props (rewriteFullText (fst (snd r1))) (snd (snd r1)) = Some d"
        and t: "rewriteFullText (fst (snd r1)) \<noteq> []" "rewriteType (fst (snd r1)) = RewriteResume"
        by blast
      from save_resume_duplicate [OF t d, of env fb now2 newId2 newAppId2]
      show ?thesis by (rule conjunct2 [THEN conjunct1])
    next
      case RewriteCoverLetter
      from save_then_duplicate_letter [OF ne RewriteCoverLetter r1_def]
      obtain d where d: "letterDuplicate props (rewriteFullText (fst (snd r1))) (snd (snd r1)) = Some d"
        and t: "rewriteFullText (fst (snd r1)) \<noteq> []" "rewriteType (fst (snd r1)) = RewriteCoverLetter"
        by blast
      from save_letter_duplicate [OF t d, of env fb now2 newId2 newAppId2]
      show ?thesis by (rule conjunct2 [THEN conjunct1])
    qed
  qed
  then have "keepsDocuments (snd (snd (saveGeneratedContent env fb props now2 newId2 newAppId2 (snd r1))))
               (snd (snd r1))"
    by (simp only: pair [symmetric])
  then show ?thesis by (simp only: r1_def)
qed

lemma showGeneratedResume_duplicate:
  "resumeDuplicate props cleaned w = Some dup \<Longrightarrow>
   optimizedResumeDoc (showGeneratedResume props cleaned (localStore w) ui) =
     Some \<lparr>g_id = r_id dup, g_text = cleaned, g_createdAt = r_uploadDate dup\<rparr>"
  by (simp add: showGeneratedResume_def resumeDuplicate_def)

lemma findIndex_first:
  "P x \<Longrightarrow> \<forall>y \<in> set xs. \<not> P y \<Longrightarrow> findIndex P (xs @ x # ys) = int (length xs)"
  by (induction xs) (auto simp: Let_def)

lemma findIndex_split:
  assumes "0 \<le> findIndex P xs"
  shows "\<forall>y \<in> set (take (nat (findIndex P xs)) xs). \<not> P y"
  using assms
proof (induction xs)
  case Nil
  then show ?case by simp
next
  case (Cons x xs)
  show ?case
  proof (cases "P x")
    case True
    then show ?thesis by simp
  next
    case False
    have ge: "- 1 \<le> findIndex P xs" by (rule findIndex_ge)
    from False Cons.prems have nn: "0 \<le> findIndex P xs"
      by (auto simp: Let_def split: if_splits)
    with False have "findIndex P (x # xs) = findIndex P xs + 1"
      by (auto simp: Let_def)
    moreover from nn have "nat (findIndex P xs + 1) = Suc (nat (findIndex P xs))" by simp
    ultimately show ?thesis using False Cons.IH [OF nn] by simp
  qed
qed

lemma findIndex_update:
  assumes nn: "0 \<le> findIndex P xs" and p: "P y"
  shows "findIndex P (xs[nat (findIndex P xs) := y]) = findIndex P xs"
proof -
  let ?i = "nat (findIndex P xs)"
  from findIndex_found [OF nn] have i: "?i < length xs" by simp
  have "xs[?i := y] = take ?i xs @ y # drop (Suc ?i) xs"
    using i by (rule upd_conv_take_nth_drop)
  moreover have "findIndex P (take ?i xs @ y # drop (Suc ?i) xs) = int (length (take ?i xs))"
    using p findIndex_split [OF nn] by (rule findIndex_first)
  ultimately show ?thesis using i nn by simp
qed

lemma findIndex_append_new:
  assumes "findIndex P xs < 0" and "P y"
  shows "findIndex P (xs @ [y]) = int (length xs)"
  using assms findIndex_first [of P y xs "[]"] by (simp add: findIndex_neg_iff)

lemma assignPatch_idem: "assignPatch patch (assignPatch patch a) = assignPatch patch a"
  by (simp add: assignPatch_def split: option.splits)

lemma a_jobId_assignPatch: "a_jobId (assignPatch patch a) = ap_jobId patch"
  by (simp add: assignPatch_def)

lemma patchApplied_cong:
  "sameRecords w' w \<Longrightarrow> patchApplied props patch w' = patchApplied props patch w"
  by (simp add: patchApplied_def sameRecords_def)

lemma jobEnsured_stored:
  "find (\<lambda>j. j_id j = j_id (p_job props)) (jobs (localStore (jobEnsured env fb props now w))) \<noteq> None"
proof (cases "find (\<lambda>j. j_id j = j_id (p_job props)) (jobs (localStore w))")
  case (Some j)
  then show ?thesis by (simp add: jobEnsured_def)
next
  case None
  let ?w0 = "w\<lparr>localStore := (localStore w)\<lparr>jobs := jobs (localStore w) @ [p_job props]\<rparr>\<rparr>"
  have "sameRecords (snd (tryCloudSyncJob env fb now (p_job props) ?w0)) ?w0"
    unfolding tryCloudSyncJob_def by (rule sameRecords_pushDocument)
  then have "jobs (localStore (snd (tryCloudSyncJob env fb now (p_job props) ?w0))) =
             jobs (localStore w) @ [p_job props]"
    by (simp add: sameRecords_def)
  moreover have "find (\<lambda>j. j_id j = j_id (p_job props)) (jobs (localStore w) @ [p_job props]) =
                 Some (p_job props)"
    using None by (intro find_append_new) simp_all
  ultimately show ?thesis using None by (simp add: jobEnsured_def)
qed

lemma jobEnsured_id:
  "find (\<lambda>j. j_id j = j_id (p_job props)) (jobs (localStore w)) \<noteq> None \<Longrightarrow>
   jobEnsured env fb props now w = w"
  by (auto simp: jobEnsured_def)


lemma ensureApplication_world:
  "snd (ensureApplication env fb props now newId patch (ui, w)) =
     (let w1 = jobEnsured env fb props now w;
          apps = applications (localStore w1);
          idx = findIndex (\<lambda>a. a_jobId a = ap_jobId patch) apps
      in if idx \<ge> 0 then
           snd (tryCloudSyncApplication env fb now (assignPatch patch (apps ! nat idx))
                  (w1\<lparr>localStore := (localStore w1)
                        \<lparr>applications := apps[nat idx := assignPatch patch (apps ! nat idx)]\<rparr>\<rparr>))
         else
           snd (tryCloudSyncApplication env fb now
                  \<lparr>a_id = newId,
                   a_jobId = ap_jobId patch,
                   a_resumeId = (case ap_resumeId patch of
                                   None \<Rightarrow> r_id (p_resume props)
                                 | Some r \<Rightarrow> if r = [] then r_id (p_resume props) else r),
                   a_coverLetterId = ap_coverLetterId patch,
                   a_appliedDate = (case ap_appliedDate patch of
                                      None \<Rightarrow> now
                                    | Some d \<Rightarrow> if d = 0 then now else d),
                   a_status = (case ap_status patch of None \<Rightarrow> Draft | Some s \<Rightarrow> s)\<rparr>
                  (w1\<lparr>localStore := (localStore w1)
                        \<lparr>applications := apps @
                           [\<lparr>a_id = newId,
                             a_jobId = ap_jobId patch,
                             a_resumeId = (case ap_resumeId patch of
                                             None \<Rightarrow> r_id (p_resume props)
                                           | Some r \<Rightarrow> if r = [] then r_id (p_resume props) else r),
                             a_coverLetterId = ap_coverLetterId patch,
                             a_appliedDate = (case ap_appliedDate patch of
                                                None \<Rightarrow> now
                                              | Some d \<Rightarrow> if d = 0 then now else d),
                             a_status = (case ap_status patch of None \<Rightarrow> Draft | Some s \<Rightarrow> s)\<rparr>]\<rparr>\<rparr>)))"
  unfolding ensureApplication_unfold Let_def by simp

lemma sameRecords_syncApplication:
  "sameRecords (snd (tryCloudSyncApplication env fb now a w)) w"
  unfolding tryCloudSyncApplication_def by (rule sameRecords_pushDocument)

lemma patchApplied_store:
  assumes j: "find (\<lambda>j. j_id j = j_id (p_job props)) (jobs (localStore w1)) \<noteq> None"
    and i: "findIndex (\<lambda>a. a_jobId a = ap_jobId patch) apps = int k"
    and k: "k < length apps"
    and a: "assignPatch patch (apps ! k) = apps ! k"
  shows "patchApplied props patch (w1\<lparr>localStore := (localStore w1)\<lparr>applications := apps\<rparr>\<rparr>)"
  using assms by (simp add: patchApplied_def)

lemma ensureApplication_applies:
  assumes r: "ap_resumeId patch \<noteq> Some []" and d: "ap_appliedDate patch \<noteq> Some 0"
  shows "patchApplied props patch (snd (ensureApplication env fb props now newId patch (ui, w)))"
proof -
  define w1 where "w1 = jobEnsured env fb props now w"
  define apps where "apps = applications (localStore w1)"
  define P where "P = (\<lambda>a :: application. a_jobId a = ap_jobId patch)"
  define idx where "idx = findIndex P apps"
  have j: "find (\<lambda>j. j_id j = j_id (p_job props)) (jobs (localStore w1)) \<noteq> None"
    unfolding w1_def by (rule jobEnsured_stored)
  show ?thesis
  proof (cases "0 \<le> idx")
    case True
    define existing where "existing = assignPatch patch (apps ! nat idx)"
    define w2 where "w2 = w1\<lparr>localStore := (localStore w1)\<lparr>applications := apps[nat idx := existing]\<rparr>\<rparr>"
    have res: "snd (ensureApplication env fb props now newId patch (ui, w)) =
               snd (tryCloudSyncApplication env fb now existing w2)"
      unfolding ensureApplication_world Let_def
      using True by (simp add: w1_def apps_def P_def idx_def existing_def w2_def)
    from True have nn: "0 \<le> findIndex P apps" by (simp add: idx_def)
    from findIndex_found [OF nn] have lt: "nat idx < length apps" by (simp add: idx_def)
    have pe: "P existing" by (simp add: P_def existing_def a_jobId_assignPatch)
    have fi: "findIndex P (apps[nat idx := existing]) = int (nat idx)"
      using findIndex_update [OF nn pe] True by (simp add: idx_def)
    have "patchApplied props patch w2"
      unfolding w2_def
    proof (rule patchApplied_store [OF j])
      show "findIndex (\<lambda>a. a_jobId a = ap_jobId patch) (apps[nat idx := existing]) = int (nat idx)"
        using fi by (simp only: P_def)
      show "nat idx < length (apps[nat idx := existing])" using lt by simp
      show "assignPatch patch (apps[nat idx := existing] ! nat idx) = apps[nat idx := existing] ! nat idx"
        using lt by (simp add: existing_def assignPatch_idem)
    qed
    then have "patchApplied props patch (snd (tryCloudSyncApplication env fb now existing w2))"
      by (simp only: patchApplied_cong [OF sameRecords_syncApplication])
    then show ?thesis by (simp only: res)
  next
    case False
    define created where "created =
      \<lparr>a_id = newId,
       a_jobId = ap_jobId patch,
       a_resumeId = (case ap_resumeId patch of
                       None \<Rightarrow> r_id (p_resume props)
                     | Some r \<Rightarrow> if r = [] then r_id (p_resume props) else r),
       a_coverLetterId = ap_coverLetterId patch,
       a_appliedDate = (case ap_appliedDate patch of
                          None \<Rightarrow> now
                        | Some d \<Rightarrow> if d = 0 then now else d),
       a_status = (case ap_status patch of None \<Rightarrow> Draft | Some s \<Rightarrow> s)\<rparr>"
    define w2 where "w2 = w1\<lparr>localStore := (localStore w1)\<lparr>applications := apps @ [created]\<rparr>\<rparr>"
    have res: "snd (ensureApplication env fb props now newId patch (ui, w)) =
               snd (tryCloudSyncApplication env fb now created w2)"
      unfolding ensureApplication_world Let_def
      using False by (simp add: w1_def apps_def P_def idx_def created_def w2_def)
    from False have neg: "findIndex P apps < 0" by (simp add: idx_def)
    have pc: "P created" by (simp add: P_def created_def)
    have fi: "findIndex P (apps @ [created]) = int (length apps)"
      using neg pc by (rule findIndex_append_new)
    have ac: "assignPatch patch created = created"
      using r d by (simp add: assignPatch_def created_def split: option.splits)
    have "patchApplied props patch w2"
      unfolding w2_def
    proof (rule patchApplied_store [OF j])
      show "findIndex (\<lambda>a. a_jobId a = ap_jobId patch) (apps @ [created]) = int (length apps)"
        using fi by (simp only: P_def)
      show "length apps < length (apps @ [created])" by simp
      show "assignPatch patch ((apps @ [created]) ! length apps) = (apps @ [created]) ! length apps"
        using ac by simp
    qed
    then have "patchApplied props patch (snd (tryCloudSyncApplication env fb now created w2))"
      by (simp only: patchApplied_cong [OF sameRecords_syncApplication])
    then show ?thesis by (simp only: res)
  qed
qed

lemma ensureApplication_applied:
  assumes "patchApplied props patch w"
  shows "sameRecords (snd (ensureApplication env fb props now newId patch (ui, w))) w"
    and "\<not> isFirebaseEnabled env \<Longrightarrow> snd (ensureApplication env fb props now newId patch (ui, w)) = w"
proof -
  define apps where "apps = applications (localStore w)"
  define idx where "idx = findIndex (\<lambda>a. a_jobId a = ap_jobId patch) apps"
  from assms have j: "jobEnsured env fb props now w = w"
    by (intro jobEnsured_id) (simp add: patchApplied_def)
  from assms have nn: "0 \<le> idx" and a: "assignPatch patch (apps ! nat idx) = apps ! nat idx"
    by (simp_all add: patchApplied_def idx_def apps_def)
  have upd: "apps[nat idx := apps ! nat idx] = apps" by (rule list_update_id)
  have w: "w\<lparr>localStore := (localStore w)\<lparr>applications := apps\<rparr>\<rparr> = w"
    by (simp add: apps_def)
  have res: "snd (ensureApplication env fb props now newId patch (ui, w)) =
             snd (tryCloudSyncApplication env fb now (apps ! nat idx) w)"
    unfolding ensureApplication_world Let_def j
    using nn a upd w by (simp add: idx_def apps_def)
  show "sameRecords (snd (ensureApplication env fb props now newId patch (ui, w))) w"
    unfolding res by (rule sameRecords_syncApplication)
  show "snd (ensureApplication env fb props now newId patch (ui, w)) = w"
    if "\<not> isFirebaseEnabled env"
    unfolding res using that by (simp add: tryCloudSyncApplication_def pushDocument_disabled)
qed


lemma save_resume_duplicate_world:
  assumes "rewriteFullText ui \<noteq> []" "rewriteType ui = RewriteResume"
    and "resumeDuplicate props (rewriteFullText ui) w = Some d"
  shows "\<exists>ui1. snd (snd (saveGeneratedContent env fb props now newId newAppId (ui, w))) =
           snd (ensureApplication env fb props now newAppId (resumePatch props (r_id d)) (ui1, w))"
proof -
  define ui1 where "ui1 = ui\<lparr>saving := True,
      optimizedResumeDoc := Some \<lparr>g_id = r_id d, g_text = rewriteFullText ui, g_createdAt = r_uploadDate d\<rparr>\<rparr>"
  have "snd (snd (saveGeneratedContent env fb props now newId newAppId (ui, w))) =
        snd (ensureApplication env fb props now newAppId (resumePatch props (r_id d)) (ui1, w))"
    using assms
    by (simp add: saveGeneratedContent_def resumeDuplicate_def Let_def split_beta resumePatch_def ui1_def)
  then show ?thesis ..
qed

lemma save_letter_duplicate_world:
  assumes "rewriteFullText ui \<noteq> []" "rewriteType ui = RewriteCoverLetter"
    and "letterDuplicate props (rewriteFullText ui) w = Some d"
  shows "\<exists>ui1. snd (snd (saveGeneratedContent env fb props now newId newAppId (ui, w))) =
           snd (ensureApplication env fb props now newAppId (letterPatch props (c_id d)) (ui1, w))"
proof -
  define ui1 where "ui1 = ui\<lparr>saving := True,
      coverLetterDoc := Some \<lparr>g_id = c_id d, g_text = rewriteFullText ui, g_createdAt = c_createdDate d\<rparr>\<rparr>"
  have "snd (snd (saveGeneratedContent env fb props now newId newAppId (ui, w))) =
        snd (ensureApplication env fb props now newAppId (letterPatch props (c_id d)) (ui1, w))"
    using assms
    by (simp add: saveGeneratedContent_def letterDuplicate_def Let_def split_beta letterPatch_def ui1_def)
  then show ?thesis ..
qed

lemma save_resume_new_world:
  assumes "rewriteFullText ui \<noteq> []" "rewriteType ui = RewriteResume"
    and "resumeDuplicate props (rewriteFullText ui) w = None"
  shows "\<exists>ui1. snd (snd (saveGeneratedContent env fb props now newId newAppId (ui, w))) =
           snd (tryCloudSyncOptimizedResume env fb now (newOptimized props now newId (rewriteFullText ui))
             (snd (ensureApplication env fb props now newAppId (resumePatch props newId)
               (ui1, w\<lparr>localStore := (localStore w)\<lparr>optimizedResumes :=
                  optimizedResumes (localStore w) @ [newOptimized props now newId (rewriteFullText ui)]\<rparr>\<rparr>))))"
proof -
  define ui1 where "ui1 = ui\<lparr>saving := True,
      optimizedResumeDoc := Some \<lparr>g_id = newId, g_text = rewriteFullText ui, g_createdAt = now\<rparr>\<rparr>"
  have "snd (snd (saveGeneratedContent env fb props now newId newAppId (ui, w))) =
           snd (tryCloudSyncOptimizedResume env fb now (newOptimized props now newId (rewriteFullText ui))
             (snd (ensureApplication env fb props now newAppId (resumePatch props newId)
               (ui1, w\<lparr>localStore := (localStore w)\<lparr>optimizedResumes :=
                  optimizedResumes (localStore w) @ [newOptimized props now newId (rewriteFullText ui)]\<rparr>\<rparr>))))"
    using assms
    by (simp add: saveGeneratedContent_def resumeDuplicate_def Let_def split_beta outcome_case
        newOptimized_def resumePatch_def ui1_def)
  then show ?thesis ..
qed

lemma save_letter_new_world:
  assumes "rewriteFullText ui \<noteq> []" "rewriteType ui = RewriteCoverLetter"
    and "letterDuplicate props (rewriteFullText ui) w = None"
  shows "\<exists>ui1. snd (snd (saveGeneratedContent env fb props now newId newAppId (ui, w))) =
           snd (tryCloudSyncCoverLetter env fb now (newLetter props now newId (rewriteFullText ui))
             (snd (ensureApplication env fb props now newAppId (letterPatch props newId)
               (ui1, w\<lparr>localStore := (localStore w)\<lparr>coverLetters :=
                  coverLetters (localStore w) @ [newLetter props now newId (rewriteFullText ui)]\<rparr>\<rparr>))))"
proof -
  define ui1 where "ui1 = ui\<lparr>saving := True,
      coverLetterDoc := Some \<lparr>g_id = newId, g_text = rewriteFullText ui, g_createdAt = now\<rparr>\<rparr>"
  have "snd (snd (saveGeneratedContent env fb props now newId newAppId (ui, w))) =
           snd (tryCloudSyncCoverLetter env fb now (newLetter props now newId (rewriteFullText ui))
             (snd (ensureApplication env fb props now newAppId (letterPatch props newId)
               (ui1, w\<lparr>localStore := (localStore w)\<lparr>coverLetters :=
                  coverLetters (localStore w) @ [newLetter props now newId (rewriteFullText ui)]\<rparr>\<rparr>))))"
    using assms
    by (simp add: saveGeneratedContent_def letterDuplicate_def Let_def split_beta outcome_case
        newLetter_def letterPatch_def ui1_def)
  then show ?thesis ..
qed

lemma sameRecords_syncDocument:
  "sameRecords (snd (tryCloudSyncOptimizedResume env fb now x w)) w"
  "sameRecords (snd (tryCloudSyncCoverLetter env fb now y w)) w"
  unfolding tryCloudSyncOptimizedResume_def tryCloudSyncCoverLetter_def
  by (rule sameRecords_pushDocument)+

lemma save_resume_post:
  assumes ne: "rewriteFullText ui \<noteq> []" and ty: "rewriteType ui = RewriteResume"
    and n: "newId \<noteq> []"
    and ids: "list_all (\<lambda>x. r_id x \<noteq> []) (optimizedResumes (localStore w))"
  shows "\<exists>d. resumeDuplicate props (rewriteFullText ui)
                (snd (snd (saveGeneratedContent env fb props now newId newAppId (ui, w)))) = Some d \<and>
              patchApplied props (resumePatch props (r_id d))
                (snd (snd (saveGeneratedContent env fb props now newId newAppId (ui, w))))"
proof (cases "resumeDuplicate props (rewriteFullText ui) w")
  case (Some d)
  from save_resume_duplicate_world [OF ne ty Some, of env fb now newId newAppId]
  obtain ui1 where w1: "snd (snd (saveGeneratedContent env fb props now newId newAppId (ui, w))) =
      snd (ensureApplication env fb props now newAppId (resumePatch props (r_id d)) (ui1, w))" ..
  from Some have "d \<in> set (optimizedResumes (localStore w))"
    by (auto simp: resumeDuplicate_def find_Some_iff)
  with ids have id: "r_id d \<noteq> []" by (simp add: list_all_iff)
  have k: "keepsDocuments
      (snd (ensureApplication env fb props now newAppId (resumePatch props (r_id d)) (ui1, w))) w"
    by (rule ensureApplication_keeps)
  then have dup: "resumeDuplicate props (rewriteFullText ui)
      (snd (ensureApplication env fb props now newAppId (resumePatch props (r_id d)) (ui1, w))) = Some d"
    using Some by (simp add: keepsDocuments_def resumeDuplicate_def)
  have "patchApplied props (resumePatch props (r_id d))
      (snd (ensureApplication env fb props now newAppId (resumePatch props (r_id d)) (ui1, w)))"
    by (rule ensureApplication_applies) (simp_all add: resumePatch_def id)
  with dup show ?thesis unfolding w1 by blast
next
  case None
  let ?opt = "newOptimized props now newId (rewriteFullText ui)"
  let ?w0 = "w\<lparr>localStore := (localStore w)\<lparr>optimizedResumes :=
                  optimizedResumes (localStore w) @ [?opt]\<rparr>\<rparr>"
  from save_resume_new_world [OF ne ty None, of env fb now newId newAppId]
  obtain ui1 where w1: "snd (snd (saveGeneratedContent env fb props now newId newAppId (ui, w))) =
      snd (tryCloudSyncOptimizedResume env fb now ?opt
        (snd (ensureApplication env fb props now newAppId (resumePatch props newId) (ui1, ?w0))))" ..
  let ?wE = "snd (ensureApplication env fb props now newAppId (resumePatch props newId) (ui1, ?w0))"
  have l: "optimizedResumes (localStore (snd (snd (saveGeneratedContent env fb props now newId newAppId (ui, w))))) =
           optimizedResumes (localStore w) @ [?opt]"
    using save_resume_new [OF ne ty None, of env fb now newId newAppId] by (rule conjunct1)
  have p: "o_jobId ?opt = j_id (p_job props) \<and> r_parsedText ?opt = rewriteFullText ui"
    by (simp add: newOptimized_def)
  from None have "find (\<lambda>x. o_jobId x = j_id (p_job props) \<and> r_parsedText x = rewriteFullText ui)
      (optimizedResumes (localStore w)) = None"
    by (simp only: resumeDuplicate_def)
  then have "find (\<lambda>x. o_jobId x = j_id (p_job props) \<and> r_parsedText x = rewriteFullText ui)
      (optimizedResumes (localStore w) @ [?opt]) = Some ?opt"
    using p by (rule find_append_new)
  then have dup: "resumeDuplicate props (rewriteFullText ui)
      (snd (snd (saveGeneratedContent env fb props now newId newAppId (ui, w)))) = Some ?opt"
    by (simp only: resumeDuplicate_def l)
  have id: "r_id ?opt = newId" by (simp add: newOptimized_def)
  have "patchApplied props (resumePatch props newId) ?wE"
    by (rule ensureApplication_applies) (simp_all add: resumePatch_def n)
  then have "patchApplied props (resumePatch props newId)
      (snd (tryCloudSyncOptimizedResume env fb now ?opt ?wE))"
    by (simp only: patchApplied_cong [OF sameRecords_syncDocument(1)])
  then have "patchApplied props (resumePatch props (r_id ?opt))
      (snd (snd (saveGeneratedContent env fb props now newId newAppId (ui, w))))"
    by (simp only: w1 id)
  with dup show ?thesis by blast
qed

lemma save_letter_post:
  assumes ne: "rewriteFullText ui \<noteq> []" and ty: "rewriteType ui = RewriteCoverLetter"
  shows "\<exists>d. letterDuplicate props (rewriteFullText ui)
                (snd (snd (saveGeneratedContent env fb props now newId newAppId (ui, w)))) = Some d \<and>
              patchApplied props (letterPatch props (c_id d))
                (snd (snd (saveGeneratedContent env fb props now newId newAppId (ui, w))))"
proof (cases "letterDuplicate props (rewriteFullText ui) w")
  case (Some d)
  from save_letter_duplicate_world [OF ne ty Some, of env fb now newId newAppId]
  obtain ui1 where w1: "snd (snd (saveGeneratedContent env fb props now newId newAppId (ui, w))) =
      snd (ensureApplication env fb props now newAppId (letterPatch props (c_id d)) (ui1, w))" ..
  have k: "keepsDocuments
      (snd (ensureApplication env fb props now newAppId (letterPatch props (c_id d)) (ui1, w))) w"
    by (rule ensureApplication_keeps)
  then have dup: "letterDuplicate props (rewriteFullText ui)
      (snd (ensureApplication env fb props now newAppId (letterPatch props (c_id d)) (ui1, w))) = Some d"
    using Some by (simp add: keepsDocuments_def letterDuplicate_def)
  have "patchApplied props (letterPatch props (c_id d))
      (snd (ensureApplication env fb props now newAppId (letterPatch props (c_id d)) (ui1, w)))"
    by (rule ensureApplication_applies) (simp_all add: letterPatch_def)
  with dup show ?thesis unfolding w1 by blast
next
  case None
  let ?l = "newLetter props now newId (rewriteFullText ui)"
  let ?w0 = "w\<lparr>localStore := (localStore w)\<lparr>coverLetters := coverLetters (localStore w) @ [?l]\<rparr>\<rparr>"
  from save_letter_new_world [OF ne ty None, of env fb now newId newAppId]
  obtain ui1 where w1: "snd (snd (saveGeneratedContent env fb props now newId newAppId (ui, w))) =
      snd (tryCloudSyncCoverLetter env fb now ?l
        (snd (ensureApplication env fb props now newAppId (letterPatch props newId) (ui1, ?w0))))" ..
  let ?wE = "snd (ensureApplication env fb props now newAppId (letterPatch props newId) (ui1, ?w0))"
  have l: "coverLetters (localStore (snd (snd (saveGeneratedContent env fb props now newId newAppId (ui, w))))) =
           coverLetters (localStore w) @ [?l]"
    using save_letter_new [OF ne ty None, of env fb now newId newAppId] by (rule conjunct1)
  have p: "c_jobId ?l = j_id (p_job props) \<and> c_content ?l = rewriteFullText ui"
    by (simp add: newLetter_def)
  from None have "find (\<lambda>x. c_jobId x = j_id (p_job props) \<and> c_content x = rewriteFullText ui)
      (coverLetters (localStore w)) = None"
    by (simp only: letterDuplicate_def)
  then have "find (\<lambda>x. c_jobId x = j_id (p_job props) \<and> c_content x = rewriteFullText ui)
      (coverLetters (localStore w) @ [?l]) = Some ?l"
    using p by (rule find_append_new)
  then have dup: "letterDuplicate props (rewriteFullText ui)
      (snd (snd (saveGeneratedContent env fb props now newId newAppId (ui, w)))) = Some ?l"
    by (simp only: letterDuplicate_def l)
  have id: "c_id ?l = newId" by (simp add: newLetter_def)
  have "patchApplied props (letterPatch props newId) ?wE"
    by (rule ensureApplication_applies) (simp_all add: letterPatch_def)
  then have "patchApplied props (letterPatch props newId)
      (snd (tryCloudSyncCoverLetter env fb now ?l ?wE))"
    by (simp only: patchApplied_cong [OF sameRecords_syncDocument(2)])
  then have "patchApplied props (letterPatch props (c_id ?l))
      (snd (snd (saveGeneratedContent env fb props now newId newAppId (ui, w))))"
    by (simp only: w1 id)
  with dup show ?thesis by blast
qed

lemma save_resume_second:
  assumes ne: "rewriteFullText ui \<noteq> []" and ty: "rewriteType ui = RewriteResume"
    and dup: "resumeDuplicate props (rewriteFullText ui) w = Some d"
    and pa: "patchApplied props (resumePatch props (r_id d)) w"
  shows "fst (saveGeneratedContent env fb props now newId newAppId (ui, w)) = AlreadyStored \<and>
         sameRecords (snd (snd (saveGeneratedContent env fb props now newId newAppId (ui, w)))) w \<and>
         (\<not> isFirebaseEnabled env \<longrightarrow>
            snd (snd (saveGeneratedContent env fb props now newId newAppId (ui, w))) = w)"
proof -
  from save_resume_duplicate_world [OF ne ty dup, of env fb now newId newAppId]
  obtain ui1 where w1: "snd (snd (saveGeneratedContent env fb props now newId newAppId (ui, w))) =
      snd (ensureApplication env fb props now newAppId (resumePatch props (r_id d)) (ui1, w))" ..
  have "fst (saveGeneratedContent env fb props now newId newAppId (ui, w)) = AlreadyStored"
    using save_resume_duplicate [OF ne ty dup, of env fb now newId newAppId] by (rule conjunct1)
  then show ?thesis
    unfolding w1 using ensureApplication_applied [OF pa, of env fb now newAppId ui1] by blast
qed

lemma save_letter_second:
  assumes ne: "rewriteFullText ui \<noteq> []" and ty: "rewriteType ui = RewriteCoverLetter"
    and dup: "letterDuplicate props (rewriteFullText ui) w = Some d"
    and pa: "patchApplied props (letterPatch props (c_id d)) w"
  shows "fst (saveGeneratedContent env fb props now newId newAppId (ui, w)) = AlreadyStored \<and>
         sameRecords (snd (snd (saveGeneratedContent env fb props now newId newAppId (ui, w)))) w \<and>
         (\<not> isFirebaseEnabled env \<longrightarrow>
            snd (snd (saveGeneratedContent env fb props now newId newAppId (ui, w))) = w)"
proof -
  from save_letter_duplicate_world [OF ne ty dup, of env fb now newId newAppId]
  obtain ui1 where w1: "snd (snd (saveGeneratedContent env fb props now newId newAppId (ui, w))) =
      snd (ensureApplication env fb props now newAppId (letterPatch props (c_id d)) (ui1, w))" ..
  have "fst (saveGeneratedContent env fb props now newId newAppId (ui, w)) = AlreadyStored"
    using save_letter_duplicate [OF ne ty dup, of env fb now newId newAppId] by (rule conjunct1)
  then show ?thesis
    unfolding w1 using ensureApplication_applied [OF pa, of env fb now newAppId ui1] by blast
qed

lemma save_twice_records:
  assumes ne: "rewriteFullText ui \<noteq> []"
    and n: "newId \<noteq> []"
    and ids: "list_all (\<lambda>x. r_id x \<noteq> []) (optimizedResumes (localStore w))"
  shows "fst (saveGeneratedContent env fb props now2 newId2 newAppId2
            (snd (saveGeneratedContent env fb props now newId newAppId (ui, w)))) = AlreadyStored \<and>
         sameRecords
           (snd (snd (saveGeneratedContent env fb props now2 newId2 newAppId2
              (snd (saveGeneratedContent env fb props now newId newAppId (ui, w))))))
           (snd (snd (saveGeneratedContent env fb props now newId newAppId (ui, w)))) \<and>
         (\<not> isFirebaseEnabled env \<longrightarrow>
            snd (snd (saveGeneratedContent env fb props now2 newId2 newAppId2
              (snd (saveGeneratedContent env fb props now newId newAppId (ui, w))))) =
            snd (snd (saveGeneratedContent env fb props now newId newAppId (ui, w))))"
proof -
  define r1 where "r1 = saveGeneratedContent env fb props now newId newAppId (ui, w)"
  define ui1 where "ui1 = fst (snd r1)"
  define w1 where "w1 = snd (snd r1)"
  have pair: "snd r1 = (ui1, w1)" by (simp add: ui1_def w1_def)
  have "fst (saveGeneratedContent env fb props now2 newId2 newAppId2 (ui1, w1)) = AlreadyStored \<and>
        sameRecords (snd (snd (saveGeneratedContent env fb props now2 newId2 newAppId2 (ui1, w1)))) w1 \<and>
        (\<not> isFirebaseEnabled env \<longrightarrow>
           snd (snd (saveGeneratedContent env fb props now2 newId2 newAppId2 (ui1, w1))) = w1)"
  proof (cases "rewriteType ui")
    case RewriteResume
    note t = save_then_duplicate_resume(2,3) [OF ne RewriteResume r1_def, folded ui1_def]
    have tx: "rewriteFullText ui1 = rewriteFullText ui"
    proof (cases "resumeDuplicate props (rewriteFullText ui) w")
      case None
      from save_resume_new [OF ne RewriteResume None, of env fb now newId newAppId]
      show ?thesis by (simp add: ui1_def r1_def)
    next
      case (Some d)
      from save_resume_duplicate [OF ne RewriteResume Some, of env fb now newId newAppId]
      show ?thesis by (simp add: ui1_def r1_def)
    qed
    from save_resume_post [OF ne RewriteResume n ids, of props env fb now newAppId, folded r1_def w1_def]
    obtain d where d: "resumeDuplicate props (rewriteFullText ui) w1 = Some d"
      and pa: "patchApplied props (resumePatch props (r_id d)) w1"
      by blast
    from d have d': "resumeDuplicate props (rewriteFullText ui1) w1 = Some d" by (simp only: tx)
    show ?thesis by (rule save_resume_second [OF t d' pa])
  next
    case RewriteCoverLetter
    note t = save_then_duplicate_letter(2,3) [OF ne RewriteCoverLetter r1_def, folded ui1_def]
    have tx: "rewriteFullText ui1 = rewriteFullText ui"
    proof (cases "letterDuplicate props (rewriteFullText ui) w")
      case None
      from save_letter_new [OF ne RewriteCoverLetter None, of env fb now newId newAppId]
      show ?thesis by (simp add: ui1_def r1_def)
    next
      case (Some d)
      from save_letter_duplicate [OF ne RewriteCoverLetter Some, of env fb now newId newAppId]
      show ?thesis by (simp add: ui1_def r1_def)
    qed
    from save_letter_post [OF ne RewriteCoverLetter, of props env fb now newId newAppId w,
        folded r1_def w1_def]
    obtain d where d: "letterDuplicate props (rewriteFullText ui) w1 = Some d"
      and pa: "patchApplied props (letterPatch props (c_id d)) w1"
      by blast
    from d have d': "letterDuplicate props (rewriteFullText ui1) w1 = Some d" by (simp only: tx)
    show ?thesis by (rule save_letter_second [OF t d' pa])
  qed
  from this [folded pair] show ?thesis
    unfolding w1_def r1_def .
qed

lemma storedOptimizedWorld_list:
  "optimizedResumes (localStore (storedOptimizedWorld text)) = [exampleOptimized ''o1'' text]"
  "coverLetters (localStore (storedOptimizedWorld text)) = []"
  by (simp_all add: storedOptimizedWorld_def emptyWorld_def emptyStorage_def)

lemma storedOptimizedWorld_duplicate:
  "resumeDuplicate exampleProps text (storedOptimizedWorld text) = Some (exampleOptimized ''o1'' text)"
  by (simp add: resumeDuplicate_def storedOptimizedWorld_list exampleOptimized_def exampleProps_def
      exampleJob_def)

text \<open>
  Claim C7. \<^verbatim>\<open>saveGeneratedContent\<close> is reached from the save button, which is disabled
  while there is no generated text; without a text it returns at once. When it is
  invoked with a text that equals the text of an optimized resume (respectively the
  content of a cover letter) stored for the same job, no record is appended: the
  stored lists of optimized resumes and cover letters are unchanged and the view
  takes the id of the first such record. A second save after a first one finds the
  record of the first and stores nothing more, whatever ids and times the two calls
  use: the lists of optimized resumes and cover letters are unchanged, and, ids
  being non-empty as \<^verbatim>\<open>generateId\<close> makes them, so is every list of stored records
  (resumes, optimized resumes, cover letters, applications, jobs). Without cloud
  sync the second save leaves the whole state as it was; with cloud sync the sync
  state takes the time of the new push. The last step of
  \<^verbatim>\<open>generateOptimizedResume\<close> takes the id of such a duplicate too and only reads
  storage.
\<close>

theorem save_generated_duplicate:
  "(rewriteFullText ui \<noteq> [] \<and> rewriteType ui = RewriteResume \<and>
    resumeDuplicate props (rewriteFullText ui) w = Some dup \<longrightarrow>
      fst (saveGeneratedContent env fb props now newId newAppId (ui, w)) = AlreadyStored \<and>
      optimizedResumes (localStore (snd (snd (saveGeneratedContent env fb props now newId newAppId (ui, w))))) =
        optimizedResumes (localStore w) \<and>
      coverLetters (localStore (snd (snd (saveGeneratedContent env fb props now newId newAppId (ui, w))))) =
        coverLetters (localStore w) \<and>
      optimizedResumeDoc (fst (snd (saveGeneratedContent env fb props now newId newAppId (ui, w)))) =
        Some \<lparr>g_id = r_id dup, g_text = rewriteFullText ui, g_createdAt = r_uploadDate dup\<rparr>) \<and>
   (rewriteFullText ui \<noteq> [] \<and> rewriteType ui = RewriteCoverLetter \<and>
    letterDuplicate props (rewriteFullText ui) w = Some ldup \<longrightarrow>
      fst (saveGeneratedContent env fb props now newId newAppId (ui, w)) = AlreadyStored \<and>
      optimizedResumes (localStore (snd (snd (saveGeneratedContent env fb props now newId newAppId (ui, w))))) =
        optimizedResumes (localStore w) \<and>
      coverLetters (localStore (snd (snd (saveGeneratedContent env fb props now newId newAppId (ui, w))))) =
        coverLetters (localStore w) \<and>
      coverLetterDoc (fst (snd (saveGeneratedContent env fb props now newId newAppId (ui, w)))) =
        Some \<lparr>g_id = c_id ldup, g_text = rewriteFullText ui, g_createdAt = c_createdDate ldup\<rparr>) \<and>
   (rewriteFullText ui = [] \<longrightarrow>
      saveGeneratedContent env fb props now newId newAppId (ui, w) = (NothingToSave, ui, w)) \<and>
   (rewriteFullText ui \<noteq> [] \<and> newId \<noteq> [] \<and>
    list_all (\<lambda>x. r_id x \<noteq> []) (optimizedResumes (localStore w)) \<longrightarrow>
      fst (saveGeneratedContent env fb props now2 newId2 newAppId2
        (snd (saveGeneratedContent env fb props now newId newAppId (ui, w)))) = AlreadyStored \<and>
      sameRecords
        (snd (snd (saveGeneratedContent env fb props now2 newId2 newAppId2
        (snd (saveGeneratedContent env fb props now newId newAppId (ui, w))))))
        (snd (snd (saveGeneratedContent env fb props now newId newAppId (ui, w)))) \<and>
      (\<not> isFirebaseEnabled env \<longrightarrow>
         snd (snd (saveGeneratedContent env fb props now2 newId2 newAppId2
        (snd (saveGeneratedContent env fb props now newId newAppId (ui, w))))) =
         snd (snd (saveGeneratedContent env fb props now newId newAppId (ui, w))))) \<and>
   optimizedResumes (localStore (snd (snd (saveGeneratedContent env fb props now2 newId2 newAppId2
        (snd (saveGeneratedContent env fb props now newId newAppId (ui, w))))))) =
     optimizedResumes (localStore (snd (snd (saveGeneratedContent env fb props now newId newAppId (ui, w))))) \<and>
   coverLetters (localStore (snd (snd (saveGeneratedContent env fb props now2 newId2 newAppId2
        (snd (saveGeneratedContent env fb props now newId newAppId (ui, w))))))) =
     coverLetters (localStore (snd (snd (saveGeneratedContent env fb props now newId newAppId (ui, w))))) \<and>
   (resumeDuplicate props cleaned w = Some dup \<longrightarrow>
      optimizedResumeDoc (showGeneratedResume props cleaned (localStore w) ui) =
        Some \<lparr>g_id = r_id dup, g_text = cleaned, g_createdAt = r_uploadDate dup\<rparr>)"
proof -
  have a: "fst (saveGeneratedContent env fb props now newId newAppId (ui, w)) = AlreadyStored \<and>
      optimizedResumes (localStore (snd (snd (saveGeneratedContent env fb props now newId newAppId (ui, w))))) =
        optimizedResumes (localStore w) \<and>
      coverLetters (localStore (snd (snd (saveGeneratedContent env fb props now newId newAppId (ui, w))))) =
        coverLetters (localStore w) \<and>
      optimizedResumeDoc (fst (snd (saveGeneratedContent env fb props now newId newAppId (ui, w)))) =
        Some \<lparr>g_id = r_id dup, g_text = rewriteFullText ui, g_createdAt = r_uploadDate dup\<rparr>"
    if "rewriteFullText ui \<noteq> []" "rewriteType ui = RewriteResume"
      "resumeDuplicate props (rewriteFullText ui) w = Some dup"
    using save_resume_duplicate [OF that, of env fb now newId newAppId]
    by (simp add: keepsDocuments_def)
  have b: "fst (saveGeneratedContent env fb props now newId newAppId (ui, w)) = AlreadyStored \<and>
      optimizedResumes (localStore (snd (snd (saveGeneratedContent env fb props now newId newAppId (ui, w))))) =
        optimizedResumes (localStore w) \<and>
      coverLetters (localStore (snd (snd (saveGeneratedContent env fb props now newId newAppId (ui, w))))) =
        coverLetters (localStore w) \<and>
      coverLetterDoc (fst (snd (saveGeneratedContent env fb props now newId newAppId (ui, w)))) =
        Some \<lparr>g_id = c_id ldup, g_text = rewriteFullText ui, g_createdAt = c_createdDate ldup\<rparr>"
    if "rewriteFullText ui \<noteq> []" "rewriteType ui = RewriteCoverLetter"
      "letterDuplicate props (rewriteFullText ui) w = Some ldup"
    using save_letter_duplicate [OF that, of env fb now newId newAppId]
    by (simp add: keepsDocuments_def)
  have c: "fst (saveGeneratedContent env fb props now2 newId2 newAppId2
        (snd (saveGeneratedContent env fb props now newId newAppId (ui, w)))) = AlreadyStored \<and>
      sameRecords
        (snd (snd (saveGeneratedContent env fb props now2 newId2 newAppId2
        (snd (saveGeneratedContent env fb props now newId newAppId (ui, w))))))
        (snd (snd (saveGeneratedContent env fb props now newId newAppId (ui, w)))) \<and>
      (\<not> isFirebaseEnabled env \<longrightarrow>
         snd (snd (saveGeneratedContent env fb props now2 newId2 newAppId2
        (snd (saveGeneratedContent env fb props now newId newAppId (ui, w))))) =
         snd (snd (saveGeneratedContent env fb props now newId newAppId (ui, w))))"
    if "rewriteFullText ui \<noteq> []" "newId \<noteq> []"
      "list_all (\<lambda>x. r_id x \<noteq> []) (optimizedResumes (localStore w))"
    using that by (rule save_twice_records)
  have z: "saveGeneratedContent env fb props now newId newAppId (ui, w) = (NothingToSave, ui, w)"
    if "rewriteFullText ui = []"
    using that by (rule save_empty)
  note d = save_twice [of env fb props now2 newId2 newAppId2 now newId newAppId ui w,
      unfolded keepsDocuments_def]
  note e = showGeneratedResume_duplicate [of props cleaned w dup ui]
  show ?thesis
    using a b z c d e by blast
qed

theorem save_generated_duplicate_witness:
  "rewriteFullText (exampleView ''Jane Doe, engineer'' RewriteResume) \<noteq> [] \<and>
   rewriteType (exampleView ''Jane Doe, engineer'' RewriteResume) = RewriteResume \<and>
   resumeDuplicate exampleProps (rewriteFullText (exampleView ''Jane Doe, engineer'' RewriteResume))
     (storedOptimizedWorld ''Jane Doe, engineer'') = Some (exampleOptimized ''o1'' ''Jane Doe, engineer'') \<and>
   ''n1'' \<noteq> [] \<and>
   list_all (\<lambda>x. r_id x \<noteq> []) (optimizedResumes (localStore (storedOptimizedWorld ''Another text''))) \<and>
   \<not> isFirebaseEnabled disabledEnv \<and>
   fst (saveGeneratedContent enabledEnv signedIn exampleProps 1700000000009 ''n1'' ''n2''
     (exampleView ''Jane Doe, engineer'' RewriteResume, storedOptimizedWorld ''Jane Doe, engineer'')) =
     AlreadyStored \<and>
   optimizedResumes (localStore (snd (snd (saveGeneratedContent enabledEnv signedIn exampleProps
     1700000000009 ''n1'' ''n2''
     (exampleView ''Jane Doe, engineer'' RewriteResume, storedOptimizedWorld ''Jane Doe, engineer''))))) =
     [exampleOptimized ''o1'' ''Jane Doe, engineer''] \<and>
   optimizedResumeDoc (fst (snd (saveGeneratedContent enabledEnv signedIn exampleProps
     1700000000009 ''n1'' ''n2''
     (exampleView ''Jane Doe, engineer'' RewriteResume, storedOptimizedWorld ''Jane Doe, engineer'')))) =
     Some \<lparr>g_id = ''o1'', g_text = ''Jane Doe, engineer'', g_createdAt = 1700000000005\<rparr> \<and>
   map r_id (optimizedResumes (localStore (snd (snd (saveGeneratedContent enabledEnv signedIn exampleProps
     1700000000009 ''n1'' ''n2''
     (exampleView ''Jane Doe, engineer'' RewriteResume, storedOptimizedWorld ''Another text'')))))) =
     [''o1'', ''n1''] \<and>
   fst (saveGeneratedContent enabledEnv signedIn exampleProps 1700000000099 ''n3'' ''n4''
     (snd (saveGeneratedContent enabledEnv signedIn exampleProps 1700000000009 ''n1'' ''n2''
       (exampleView ''Jane Doe, engineer'' RewriteResume, storedOptimizedWorld ''Another text'')))) =
     AlreadyStored \<and>
   sameRecords
     (snd (snd (saveGeneratedContent enabledEnv signedIn exampleProps 1700000000099 ''n3'' ''n4''
       (snd (saveGeneratedContent enabledEnv signedIn exampleProps 1700000000009 ''n1'' ''n2''
         (exampleView ''Jane Doe, engineer'' RewriteResume, storedOptimizedWorld ''Another text''))))))
     (snd (snd (saveGeneratedContent enabledEnv signedIn exampleProps 1700000000009 ''n1'' ''n2''
       (exampleView ''Jane Doe, engineer'' RewriteResume, storedOptimizedWorld ''Another text'')))) \<and>
   snd (snd (saveGeneratedContent disabledEnv signedIn exampleProps 1700000000099 ''n3'' ''n4''
     (snd (saveGeneratedContent disabledEnv signedIn exampleProps 1700000000009 ''n1'' ''n2''
       (exampleView ''Jane Doe, engineer'' RewriteResume, storedOptimizedWorld ''Another text''))))) =
   snd (snd (saveGeneratedContent disabledEnv signedIn exampleProps 1700000000009 ''n1'' ''n2''
     (exampleView ''Jane Doe, engineer'' RewriteResume, storedOptimizedWorld ''Another text''))) \<and>
   rewriteType (exampleView ''Dear team'' RewriteCoverLetter) = RewriteCoverLetter \<and>
   letterDuplicate exampleProps (rewriteFullText (exampleView ''Dear team'' RewriteCoverLetter))
     (storedLetterWorld ''Dear team'') = Some (exampleLetter ''l1'' ''Dear team'') \<and>
   fst (saveGeneratedContent enabledEnv signedIn exampleProps 1700000000009 ''n1'' ''n2''
     (exampleView ''Dear team'' RewriteCoverLetter, storedLetterWorld ''Dear team'')) = AlreadyStored \<and>
   coverLetters (localStore (snd (snd (saveGeneratedContent enabledEnv signedIn exampleProps
     1700000000009 ''n1'' ''n2''
     (exampleView ''Dear team'' RewriteCoverLetter, storedLetterWorld ''Dear team''))))) =
     [exampleLetter ''l1'' ''Dear team''] \<and>
   coverLetterDoc (fst (snd (saveGeneratedContent enabledEnv signedIn exampleProps
     1700000000009 ''n1'' ''n2''
     (exampleView ''Dear team'' RewriteCoverLetter, storedLetterWorld ''Dear team'')))) =
     Some \<lparr>g_id = ''l1'', g_text = ''Dear team'', g_createdAt = 1700000000007\<rparr> \<and>
   rewriteFullText (exampleView [] RewriteResume) = [] \<and>
   saveGeneratedContent enabledEnv signedIn exampleProps 1700000000009 ''n1'' ''n2''
     (exampleView [] RewriteResume, storedOptimizedWorld []) =
     (NothingToSave, exampleView [] RewriteResume, storedOptimizedWorld []) \<and>
   optimizedResumeDoc (showGeneratedResume exampleProps ''Jane Doe, engineer''
     (localStore (storedOptimizedWorld ''Jane Doe, engineer'')) (exampleView [] RewriteResume)) =
     Some \<lparr>g_id = ''o1'', g_text = ''Jane Doe, engineer'', g_createdAt = 1700000000005\<rparr>"
proof -
  let ?ui = "exampleView ''Jane Doe, engineer'' RewriteResume"
  have t: "rewriteFullText ?ui = ''Jane Doe, engineer''" "rewriteType ?ui = RewriteResume"
    by (simp_all add: exampleView_def)
  have ne: "rewriteFullText ?ui \<noteq> []" by (simp add: exampleView_def)
  have d: "resumeDuplicate exampleProps (rewriteFullText ?ui) (storedOptimizedWorld ''Jane Doe, engineer'') =
           Some (exampleOptimized ''o1'' ''Jane Doe, engineer'')"
    unfolding t by (rule storedOptimizedWorld_duplicate)
  have n: "resumeDuplicate exampleProps (rewriteFullText ?ui) (storedOptimizedWorld ''Another text'') = None"
    unfolding t
    by (simp add: resumeDuplicate_def storedOptimizedWorld_list exampleOptimized_def)
  have f: "r_id (exampleOptimized ''o1'' x) = ''o1''"
    "r_uploadDate (exampleOptimized ''o1'' x) = 1700000000005" for x
    by (simp_all add: exampleOptimized_def)
  have m: "r_id (newOptimized exampleProps 1700000000009 ''n1'' (rewriteFullText ?ui)) = ''n1''"
    by (simp add: newOptimized_def)
  have i: "''n1'' \<noteq> []" by simp
  have ids: "list_all (\<lambda>x. r_id x \<noteq> []) (optimizedResumes (localStore (storedOptimizedWorld ''Another text'')))"
    by (simp add: storedOptimizedWorld_list f)
  have off: "\<not> isFirebaseEnabled disabledEnv" by (rule disabledEnv_off)
  note th = save_generated_duplicate [where ui = ?ui and props = exampleProps
      and w = "storedOptimizedWorld ''Jane Doe, engineer''"
      and dup = "exampleOptimized ''o1'' ''Jane Doe, engineer''"
      and env = enabledEnv and fb = signedIn and now = 1700000000009 and newId = "''n1''"
      and newAppId = "''n2''"]
  note on = save_generated_duplicate [where ui = ?ui and props = exampleProps
      and w = "storedOptimizedWorld ''Another text''"
      and env = enabledEnv and fb = signedIn and now = 1700000000009 and newId = "''n1''"
      and newAppId = "''n2''" and ?now2.0 = 1700000000099 and ?newId2.0 = "''n3''"
      and ?newAppId2.0 = "''n4''"]
  note no = save_generated_duplicate [where ui = ?ui and props = exampleProps
      and w = "storedOptimizedWorld ''Another text''"
      and env = disabledEnv and fb = signedIn and now = 1700000000009 and newId = "''n1''"
      and newAppId = "''n2''" and ?now2.0 = 1700000000099 and ?newId2.0 = "''n3''"
      and ?newAppId2.0 = "''n4''"]
  note new = save_resume_new [OF ne t(2) n, of enabledEnv signedIn 1700000000009 "''n1''" "''n2''"]
  from th ne t(2) d have
    a: "fst (saveGeneratedContent enabledEnv signedIn exampleProps 1700000000009 ''n1'' ''n2''
          (?ui, storedOptimizedWorld ''Jane Doe, engineer'')) = AlreadyStored"
    and b: "optimizedResumes (localStore (snd (snd (saveGeneratedContent enabledEnv signedIn exampleProps
          1700000000009 ''n1'' ''n2'' (?ui, storedOptimizedWorld ''Jane Doe, engineer''))))) =
          optimizedResumes (localStore (storedOptimizedWorld ''Jane Doe, engineer''))"
    and c: "optimizedResumeDoc (fst (snd (saveGeneratedContent enabledEnv signedIn exampleProps
          1700000000009 ''n1'' ''n2'' (?ui, storedOptimizedWorld ''Jane Doe, engineer'')))) =
          Some \<lparr>g_id = r_id (exampleOptimized ''o1'' ''Jane Doe, engineer''),
                g_text = rewriteFullText ?ui,
                g_createdAt = r_uploadDate (exampleOptimized ''o1'' ''Jane Doe, engineer'')\<rparr>"
    by blast+
  from on ne i ids have
    g: "fst (saveGeneratedContent enabledEnv signedIn exampleProps 1700000000099 ''n3'' ''n4''
     (snd (saveGeneratedContent enabledEnv signedIn exampleProps 1700000000009 ''n1'' ''n2''
       (?ui, storedOptimizedWorld ''Another text'')))) = AlreadyStored"
    and h: "sameRecords
     (snd (snd (saveGeneratedContent enabledEnv signedIn exampleProps 1700000000099 ''n3'' ''n4''
       (snd (saveGeneratedContent enabledEnv signedIn exampleProps 1700000000009 ''n1'' ''n2''
         (?ui, storedOptimizedWorld ''Another text''))))))
     (snd (snd (saveGeneratedContent enabledEnv signedIn exampleProps 1700000000009 ''n1'' ''n2''
       (?ui, storedOptimizedWorld ''Another text''))))"
    by blast+
  from no ne i ids off have
    k: "snd (snd (saveGeneratedContent disabledEnv signedIn exampleProps 1700000000099 ''n3'' ''n4''
     (snd (saveGeneratedContent disabledEnv signedIn exampleProps 1700000000009 ''n1'' ''n2''
       (?ui, storedOptimizedWorld ''Another text''))))) =
     snd (snd (saveGeneratedContent disabledEnv signedIn exampleProps 1700000000009 ''n1'' ''n2''
       (?ui, storedOptimizedWorld ''Another text'')))"
    by blast
  from new have e: "map r_id (optimizedResumes (localStore (snd (snd (saveGeneratedContent enabledEnv
      signedIn exampleProps 1700000000009 ''n1'' ''n2'' (?ui, storedOptimizedWorld ''Another text'')))))) =
      [''o1'', ''n1'']"
    by (simp add: storedOptimizedWorld_list f m)
  have first: "rewriteFullText ?ui \<noteq> [] \<and> rewriteType ?ui = RewriteResume \<and>
     resumeDuplicate exampleProps (rewriteFullText ?ui) (storedOptimizedWorld ''Jane Doe, engineer'') =
       Some (exampleOptimized ''o1'' ''Jane Doe, engineer'') \<and>
     fst (saveGeneratedContent enabledEnv signedIn exampleProps 1700000000009 ''n1'' ''n2''
       (?ui, storedOptimizedWorld ''Jane Doe, engineer'')) = AlreadyStored \<and>
     optimizedResumes (localStore (snd (snd (saveGeneratedContent enabledEnv signedIn exampleProps
       1700000000009 ''n1'' ''n2'' (?ui, storedOptimizedWorld ''Jane Doe, engineer''))))) =
       [exampleOptimized ''o1'' ''Jane Doe, engineer''] \<and>
     optimizedResumeDoc (fst (snd (saveGeneratedContent enabledEnv signedIn exampleProps
       1700000000009 ''n1'' ''n2'' (?ui, storedOptimizedWorld ''Jane Doe, engineer'')))) =
       Some \<lparr>g_id = ''o1'', g_text = ''Jane Doe, engineer'', g_createdAt = 1700000000005\<rparr>"
    using ne t(2) d a unfolding b c by (simp add: storedOptimizedWorld_list f t(1))
  have extra:
    "rewriteType (exampleView ''Dear team'' RewriteCoverLetter) = RewriteCoverLetter \<and>
    letterDuplicate exampleProps (rewriteFullText (exampleView ''Dear team'' RewriteCoverLetter))
      (storedLetterWorld ''Dear team'') = Some (exampleLetter ''l1'' ''Dear team'') \<and>
    fst (saveGeneratedContent enabledEnv signedIn exampleProps 1700000000009 ''n1'' ''n2''
      (exampleView ''Dear team'' RewriteCoverLetter, storedLetterWorld ''Dear team'')) = AlreadyStored \<and>
    coverLetters (localStore (snd (snd (saveGeneratedContent enabledEnv signedIn exampleProps
      1700000000009 ''n1'' ''n2''
      (exampleView ''Dear team'' RewriteCoverLetter, storedLetterWorld ''Dear team''))))) =
      [exampleLetter ''l1'' ''Dear team''] \<and>
    coverLetterDoc (fst (snd (saveGeneratedContent enabledEnv signedIn exampleProps
      1700000000009 ''n1'' ''n2''
      (exampleView ''Dear team'' RewriteCoverLetter, storedLetterWorld ''Dear team'')))) =
      Some \<lparr>g_id = ''l1'', g_text = ''Dear team'', g_createdAt = 1700000000007\<rparr> \<and>
    rewriteFullText (exampleView [] RewriteResume) = [] \<and>
    saveGeneratedContent enabledEnv signedIn exampleProps 1700000000009 ''n1'' ''n2''
      (exampleView [] RewriteResume, storedOptimizedWorld []) =
      (NothingToSave, exampleView [] RewriteResume, storedOptimizedWorld []) \<and>
    optimizedResumeDoc (showGeneratedResume exampleProps ''Jane Doe, engineer''
      (localStore (storedOptimizedWorld ''Jane Doe, engineer'')) (exampleView [] RewriteResume)) =
      Some \<lparr>g_id = ''o1'', g_text = ''Jane Doe, engineer'', g_createdAt = 1700000000005\<rparr>"
  proof -
    let ?ul = "exampleView ''Dear team'' RewriteCoverLetter"
    let ?ue = "exampleView [] RewriteResume"
    have lt: "rewriteFullText ?ul = ''Dear team''" "rewriteType ?ul = RewriteCoverLetter"
      by (simp_all add: exampleView_def)
    have lne: "rewriteFullText ?ul \<noteq> []" by (simp add: exampleView_def)
    have ll: "coverLetters (localStore (storedLetterWorld ''Dear team'')) = [exampleLetter ''l1'' ''Dear team'']"
      by (simp add: storedLetterWorld_def emptyWorld_def emptyStorage_def)
    have ld: "letterDuplicate exampleProps (rewriteFullText ?ul) (storedLetterWorld ''Dear team'') =
              Some (exampleLetter ''l1'' ''Dear team'')"
      unfolding lt
      by (simp add: letterDuplicate_def ll exampleLetter_def exampleProps_def exampleJob_def)
    have lf: "c_id (exampleLetter ''l1'' ''Dear team'') = ''l1''"
      "c_createdDate (exampleLetter ''l1'' ''Dear team'') = 1700000000007"
      by (simp_all add: exampleLetter_def)
    have et: "rewriteFullText ?ue = []" by (simp add: exampleView_def)
    have sd: "resumeDuplicate exampleProps ''Jane Doe, engineer'' (storedOptimizedWorld ''Jane Doe, engineer'') =
              Some (exampleOptimized ''o1'' ''Jane Doe, engineer'')"
      by (rule storedOptimizedWorld_duplicate)
    have f: "r_id (exampleOptimized ''o1'' x) = ''o1''"
      "r_uploadDate (exampleOptimized ''o1'' x) = 1700000000005" for x
      by (simp_all add: exampleOptimized_def)
    note tl = save_generated_duplicate [where ui = ?ul and props = exampleProps
        and w = "storedLetterWorld ''Dear team''" and ldup = "exampleLetter ''l1'' ''Dear team''"
        and env = enabledEnv and fb = signedIn and now = 1700000000009 and newId = "''n1''"
        and newAppId = "''n2''"]
    note te = save_generated_duplicate [where ui = ?ue and props = exampleProps
        and w = "storedOptimizedWorld []"
        and env = enabledEnv and fb = signedIn and now = 1700000000009 and newId = "''n1''"
        and newAppId = "''n2''"]
    note tg = save_generated_duplicate [where ui = ?ue and props = exampleProps
        and w = "storedOptimizedWorld ''Jane Doe, engineer''"
        and dup = "exampleOptimized ''o1'' ''Jane Doe, engineer''"
        and cleaned = "''Jane Doe, engineer''"]
    from tl lne lt(2) ld have
      la: "fst (saveGeneratedContent enabledEnv signedIn exampleProps 1700000000009 ''n1'' ''n2''
            (?ul, storedLetterWorld ''Dear team'')) = AlreadyStored"
      and lb: "coverLetters (localStore (snd (snd (saveGeneratedContent enabledEnv signedIn exampleProps
            1700000000009 ''n1'' ''n2'' (?ul, storedLetterWorld ''Dear team''))))) =
            coverLetters (localStore (storedLetterWorld ''Dear team''))"
      and lc: "coverLetterDoc (fst (snd (saveGeneratedContent enabledEnv signedIn exampleProps
            1700000000009 ''n1'' ''n2'' (?ul, storedLetterWorld ''Dear team'')))) =
            Some \<lparr>g_id = c_id (exampleLetter ''l1'' ''Dear team''), g_text = rewriteFullText ?ul,
                  g_createdAt = c_createdDate (exampleLetter ''l1'' ''Dear team'')\<rparr>"
      by blast+
    from te et have
      ea: "saveGeneratedContent enabledEnv signedIn exampleProps 1700000000009 ''n1'' ''n2''
            (?ue, storedOptimizedWorld []) = (NothingToSave, ?ue, storedOptimizedWorld [])"
      by blast
    from tg sd have
      ga: "optimizedResumeDoc (showGeneratedResume exampleProps ''Jane Doe, engineer''
            (localStore (storedOptimizedWorld ''Jane Doe, engineer'')) ?ue) =
            Some \<lparr>g_id = r_id (exampleOptimized ''o1'' ''Jane Doe, engineer''),
                  g_text = ''Jane Doe, engineer'',
                  g_createdAt = r_uploadDate (exampleOptimized ''o1'' ''Jane Doe, engineer'')\<rparr>"
      by blast
    show ?thesis
      using lt(2) ld la et ea unfolding lb lc ga by (simp add: ll lf lt(1) f)
  qed
  from first i ids off e g h k extra show ?thesis by blast
qed

section \<open>The JSON repair request of the resume generation\<close>

lemma runOnce_sent:
  "snd (runOnce env settings sent p) = sent \<or> snd (runOnce env settings sent p) = sent @ [p]"
  by (simp add: runOnce_def)

lemma runOnce_reply:
  assumes "keyPresent settings" and "llm env (aiProvider settings) sent p = Inr reply"
  shows "runOnce env settings sent p = (Inr reply, sent @ [p])"
  using assms by (auto simp add: runOnce_def keyPresent_def split: if_splits)

lemma runOnce_error:
  assumes "keyPresent settings" and "llm env (aiProvider settings) sent p = Inl e"
  shows "runOnce env settings sent p =
           (Inl (case e of Aborted \<Rightarrow> RequestAborted | Rejected m \<Rightarrow> RequestRejected m), sent @ [p])"
  using assms by (auto simp add: runOnce_def keyPresent_def split: if_splits requestError.splits)

lemma runOnce_key:
  assumes "keyPresent settings"
  shows "snd (runOnce env settings sent p) = sent @ [p]"
  using assms by (auto simp add: runOnce_def keyPresent_def split: if_splits)

lemma addsNoRepair_refl: "addsNoRepair sent sent"
  by (simp add: addsNoRepair_def)

lemma addsNoRepair_runOnce:
  assumes "\<not> isJsonRepair p"
  shows "addsNoRepair sent (snd (runOnce env settings sent p))"
  using runOnce_sent [of env settings sent p] assms by (auto simp add: addsNoRepair_def)

lemma placeholderRetry_snd:
  "snd (placeholderRetry env settings originalParagraphs resumeEmail cleaned sent) = sent \<or>
   snd (placeholderRetry env settings originalParagraphs resumeEmail cleaned sent) =
     snd (runOnce env settings sent (PlaceholderRepairParagraphsPrompt cleaned)) \<or>
   snd (placeholderRetry env settings originalParagraphs resumeEmail cleaned sent) =
     snd (runOnce env settings sent (PlaceholderRepairTextPrompt cleaned))"
  by (auto simp add: placeholderRetry_def Let_def split: option.splits prod.splits sum.splits)

lemma placeholderRetry_sent:
  "addsNoRepair sent (snd (placeholderRetry env settings originalParagraphs resumeEmail cleaned sent))"
proof -
  have a: "addsNoRepair sent (snd (runOnce env settings sent (PlaceholderRepairParagraphsPrompt cleaned)))"
    by (rule addsNoRepair_runOnce) simp
  have b: "addsNoRepair sent (snd (runOnce env settings sent (PlaceholderRepairTextPrompt cleaned)))"
    by (rule addsNoRepair_runOnce) simp
  from placeholderRetry_snd [of env settings originalParagraphs resumeEmail cleaned sent]
  show ?thesis
  proof (elim disjE)
    assume "snd (placeholderRetry env settings originalParagraphs resumeEmail cleaned sent) = sent"
    then show ?thesis by (simp only: addsNoRepair_refl)
  next
    assume "snd (placeholderRetry env settings originalParagraphs resumeEmail cleaned sent) =
      snd (runOnce env settings sent (PlaceholderRepairParagraphsPrompt cleaned))"
    then show ?thesis using a by (simp only:)
  next
    assume "snd (placeholderRetry env settings originalParagraphs resumeEmail cleaned sent) =
      snd (runOnce env settings sent (PlaceholderRepairTextPrompt cleaned))"
    then show ?thesis using b by (simp only:)
  qed
qed

lemma refine_snd:
  "\<exists>ks. snd (refine env settings originalParagraphs targetKeywords jobDescription cleaned sent) = sent \<or>
   snd (refine env settings originalParagraphs targetKeywords jobDescription cleaned sent) =
     snd (runOnce env settings sent (RefineParagraphsPrompt ks cleaned)) \<or>
   snd (refine env settings originalParagraphs targetKeywords jobDescription cleaned sent) =
     snd (runOnce env settings sent (RefineTextPrompt ks cleaned))"
proof -
  define ks where "ks = missingKeywordsFromText (helpers env) cleaned targetKeywords"
  have "snd (refine env settings originalParagraphs targetKeywords jobDescription cleaned sent) = sent \<or>
   snd (refine env settings originalParagraphs targetKeywords jobDescription cleaned sent) =
     snd (runOnce env settings sent (RefineParagraphsPrompt ks cleaned)) \<or>
   snd (refine env settings originalParagraphs targetKeywords jobDescription cleaned sent) =
     snd (runOnce env settings sent (RefineTextPrompt ks cleaned))"
    unfolding refine_def Let_def ks_def [symmetric]
    by (auto split: option.splits prod.splits sum.splits)
  then show ?thesis ..
qed

lemma refine_sent:
  "addsNoRepair sent (snd (refine env settings originalParagraphs targetKeywords jobDescription cleaned sent))"
proof -
  have a: "\<And>ks. addsNoRepair sent (snd (runOnce env settings sent (RefineParagraphsPrompt ks cleaned)))"
    by (rule addsNoRepair_runOnce) simp
  have b: "\<And>ks. addsNoRepair sent (snd (runOnce env settings sent (RefineTextPrompt ks cleaned)))"
    by (rule addsNoRepair_runOnce) simp
  from refine_snd [of env settings originalParagraphs targetKeywords jobDescription cleaned sent]
  obtain ks where
    "snd (refine env settings originalParagraphs targetKeywords jobDescription cleaned sent) = sent \<or>
     snd (refine env settings originalParagraphs targetKeywords jobDescription cleaned sent) =
       snd (runOnce env settings sent (RefineParagraphsPrompt ks cleaned)) \<or>
     snd (refine env settings originalParagraphs targetKeywords jobDescription cleaned sent) =
       snd (runOnce env settings sent (RefineTextPrompt ks cleaned))" ..
  then show ?thesis
  proof (elim disjE)
    assume "snd (refine env settings originalParagraphs targetKeywords jobDescription cleaned sent) = sent"
    then show ?thesis by (simp only: addsNoRepair_refl)
  next
    assume "snd (refine env settings originalParagraphs targetKeywords jobDescription cleaned sent) =
       snd (runOnce env settings sent (RefineParagraphsPrompt ks cleaned))"
    then show ?thesis using a [of ks] by (simp only:)
  next
    assume "snd (refine env settings originalParagraphs targetKeywords jobDescription cleaned sent) =
       snd (runOnce env settings sent (RefineTextPrompt ks cleaned))"
    then show ?thesis using b [of ks] by (simp only:)
  qed
qed


lemma addsNoRepair_twice:
  assumes "addsNoRepair a b" and "addsNoRepair b c"
  shows "\<exists>extra. c = a @ extra \<and> length extra \<le> 2 \<and> filter isJsonRepair extra = []"
proof -
  from assms(1) obtain e1 where e1: "b = a @ e1" "length e1 \<le> 1" "filter isJsonRepair e1 = []"
    unfolding addsNoRepair_def by blast
  from assms(2) obtain e2 where e2: "c = b @ e2" "length e2 \<le> 1" "filter isJsonRepair e2 = []"
    unfolding addsNoRepair_def by blast
  have "c = a @ (e1 @ e2) \<and> length (e1 @ e2) \<le> 2 \<and> filter isJsonRepair (e1 @ e2) = []"
    using e1 e2 by simp
  then show ?thesis by blast
qed

lemma addsNoRepair_once:
  assumes "addsNoRepair a b"
  shows "\<exists>extra. b = a @ extra \<and> length extra \<le> 2 \<and> filter isJsonRepair extra = []"
  using addsNoRepair_twice [OF assms addsNoRepair_refl] .

lemma firstDraft_repair_unfold:
  assumes key: "keyPresent settings"
    and first: "llm env (aiProvider settings) [] (OptimizeParagraphsPrompt original) = Inr reply"
    and bad: "mergeParagraphsJson (runtime env) (helpers env) (trim reply) original = Inl err"
  shows "firstDraft env settings (Some original) =
     (case runOnce env settings [OptimizeParagraphsPrompt original] (JsonRepairPrompt (trim reply)) of
        (Inl e, sent2) \<Rightarrow> (Inl e, sent2)
      | (Inr reply2, sent2) \<Rightarrow>
          (case mergeParagraphsJson (runtime env) (helpers env) (trim reply2) original of
             Inl err2 \<Rightarrow> (Inl (MergeFailed err2), sent2)
           | Inr paragraphs2 \<Rightarrow> (Inr (joinLines paragraphs2), sent2)))"
  using runOnce_reply [OF key first] bad by (simp add: firstDraft_def Let_def)

lemma firstDraft_repair_sent:
  assumes key: "keyPresent settings"
    and first: "llm env (aiProvider settings) [] (OptimizeParagraphsPrompt original) = Inr reply"
    and bad: "mergeParagraphsJson (runtime env) (helpers env) (trim reply) original = Inl err"
  shows "snd (firstDraft env settings (Some original)) =
           [OptimizeParagraphsPrompt original, JsonRepairPrompt (trim reply)]"
proof -
  obtain r s where rs:
    "runOnce env settings [OptimizeParagraphsPrompt original] (JsonRepairPrompt (trim reply)) = (r, s)"
    by (cases "runOnce env settings [OptimizeParagraphsPrompt original] (JsonRepairPrompt (trim reply))")
  have "s = [OptimizeParagraphsPrompt original] @ [JsonRepairPrompt (trim reply)]"
    using runOnce_key [OF key, of env "[OptimizeParagraphsPrompt original]" "JsonRepairPrompt (trim reply)"]
      rs by simp
  then show ?thesis
    unfolding firstDraft_repair_unfold [OF key first bad] rs
    by (simp split: sum.splits)
qed

lemma firstDraft_repair_fails:
  assumes key: "keyPresent settings"
    and first: "llm env (aiProvider settings) [] (OptimizeParagraphsPrompt original) = Inr reply"
    and bad: "mergeParagraphsJson (runtime env) (helpers env) (trim reply) original = Inl err"
    and second: "llm env (aiProvider settings) [OptimizeParagraphsPrompt original]
                   (JsonRepairPrompt (trim reply)) = Inr reply2"
    and bad2: "mergeParagraphsJson (runtime env) (helpers env) (trim reply2) original = Inl err2"
  shows "firstDraft env settings (Some original) =
           (Inl (MergeFailed err2), [OptimizeParagraphsPrompt original, JsonRepairPrompt (trim reply)])"
  unfolding firstDraft_repair_unfold [OF key first bad] runOnce_reply [OF key second]
  using bad2 by simp

lemma firstDraft_repair_error:
  assumes key: "keyPresent settings"
    and first: "llm env (aiProvider settings) [] (OptimizeParagraphsPrompt original) = Inr reply"
    and bad: "mergeParagraphsJson (runtime env) (helpers env) (trim reply) original = Inl err"
    and second: "llm env (aiProvider settings) [OptimizeParagraphsPrompt original]
                   (JsonRepairPrompt (trim reply)) = Inl e"
  shows "firstDraft env settings (Some original) =
           (Inl (case e of Aborted \<Rightarrow> RequestAborted | Rejected m \<Rightarrow> RequestRejected m),
            [OptimizeParagraphsPrompt original, JsonRepairPrompt (trim reply)])"
  unfolding firstDraft_repair_unfold [OF key first bad] runOnce_error [OF key second]
  by simp

lemma generateText_draft_error:
  assumes "originalParagraphsOf env (p_resume props) = Inr paragraphs"
    and "firstDraft env (p_settings props) paragraphs = (Inl e, sent)"
  shows "generateText env props result = (Inl e, sent)"
  using assms by (simp add: generateText_def Let_def)

lemma generateText_sent:
  assumes orig: "originalParagraphsOf env (p_resume props) = Inr paragraphs"
  shows "\<exists>extra. snd (generateText env props result) =
                   snd (firstDraft env (p_settings props) paragraphs) @ extra \<and>
                 length extra \<le> 2 \<and> filter isJsonRepair extra = []"
proof -
  define email where "email = extractEmail (helpers env) (r_parsedText (p_resume props))"
  obtain r1 s1 where fd: "firstDraft env (p_settings props) paragraphs = (r1, s1)"
    by (cases "firstDraft env (p_settings props) paragraphs")
  show ?thesis
  proof (cases r1)
    case (Inl e)
    then have "generateText env props result = (Inl e, s1)"
      using generateText_draft_error [OF orig, of e s1 result] fd by simp
    then show ?thesis using fd by simp
  next
    case (Inr cleaned)
    show ?thesis
    proof (cases "cleaned = []")
      case True
      then have "generateText env props result = (Inl EmptyResumeText, s1)"
        using orig fd Inr by (simp add: generateText_def Let_def)
      then show ?thesis using fd by simp
    next
      case False
      obtain r2 s2 where pr:
        "placeholderRetry env (p_settings props) paragraphs email cleaned s1 = (r2, s2)"
        by (cases "placeholderRetry env (p_settings props) paragraphs email cleaned s1")
      have a2: "addsNoRepair s1 s2"
        using placeholderRetry_sent [of s1 env "p_settings props" paragraphs email cleaned] pr by simp
      show ?thesis
      proof (cases r2)
        case (Inl e)
        then have "generateText env props result = (Inl e, s2)"
          using orig fd Inr False pr by (simp add: generateText_def Let_def email_def)
        then show ?thesis using fd addsNoRepair_once [OF a2] by simp
      next
        case cl2: (Inr cleaned2)
        obtain r3 s3 where rf:
          "refine env (p_settings props) paragraphs (ar_missingKeywords result)
             (j_description (p_job props)) cleaned2 s2 = (r3, s3)"
          by (cases "refine env (p_settings props) paragraphs (ar_missingKeywords result)
             (j_description (p_job props)) cleaned2 s2")
        have a3: "addsNoRepair s2 s3"
          using refine_sent [of s2 env "p_settings props" paragraphs "ar_missingKeywords result"
              "j_description (p_job props)" cleaned2] rf by simp
        have "snd (generateText env props result) = s3"
          using orig fd Inr False pr cl2 rf
          by (simp add: generateText_def Let_def email_def split: sum.splits)
        then show ?thesis using fd addsNoRepair_twice [OF a2 a3] by simp
      qed
    qed
  qed
qed

lemma requests_generateText:
  "go_requests (generateOptimizedResume env props (Some result) st ui) =
     snd (generateText env props result)"
  by (cases "generateText env props result")
    (simp add: generateOptimizedResume_def Let_def split: sum.splits)

lemma generateOptimizedResume_error:
  assumes "generateText env props result = (Inl e, sent)"
  shows "go_requests (generateOptimizedResume env props (Some result) st ui) = sent \<and>
         go_error (generateOptimizedResume env props (Some result) st ui) = Some e \<and>
         rewriteStatus (go_view (generateOptimizedResume env props (Some result) st ui)) =
           (if e = RequestAborted then Cancelled else Failed) \<and>
         rewriteFullText (go_view (generateOptimizedResume env props (Some result) st ui)) = []"
  using assms by (simp add: generateOptimizedResume_def Let_def)

lemma repair_requests:
  assumes orig: "originalParagraphsOf env (p_resume props) = Inr (Some original)"
    and key: "keyPresent (p_settings props)"
    and first: "llm env (aiProvider (p_settings props)) [] (OptimizeParagraphsPrompt original) = Inr reply"
    and bad: "mergeParagraphsJson (runtime env) (helpers env) (trim reply) original = Inl err"
  shows "take 2 (go_requests (generateOptimizedResume env props (Some result) st ui)) =
           [OptimizeParagraphsPrompt original, JsonRepairPrompt (trim reply)]"
    and "filter isJsonRepair (go_requests (generateOptimizedResume env props (Some result) st ui)) =
           [JsonRepairPrompt (trim reply)]"
    and "length (go_requests (generateOptimizedResume env props (Some result) st ui)) \<le> 4"
proof -
  from generateText_sent [OF orig, of result] obtain extra where
    e: "snd (generateText env props result) =
          snd (firstDraft env (p_settings props) (Some original)) @ extra"
       "length extra \<le> 2" "filter isJsonRepair extra = []"
    by blast
  have r: "go_requests (generateOptimizedResume env props (Some result) st ui) =
             [OptimizeParagraphsPrompt original, JsonRepairPrompt (trim reply)] @ extra"
    unfolding requests_generateText e(1) firstDraft_repair_sent [OF key first bad] ..
  show "take 2 (go_requests (generateOptimizedResume env props (Some result) st ui)) =
           [OptimizeParagraphsPrompt original, JsonRepairPrompt (trim reply)]"
    unfolding r by simp
  show "filter isJsonRepair (go_requests (generateOptimizedResume env props (Some result) st ui)) =
           [JsonRepairPrompt (trim reply)]"
    unfolding r using e(3) by simp
  show "length (go_requests (generateOptimizedResume env props (Some result) st ui)) \<le> 4"
    unfolding r using e(2) by simp
qed

lemma repair_fails:
  assumes orig: "originalParagraphsOf env (p_resume props) = Inr (Some original)"
    and key: "keyPresent (p_settings props)"
    and first: "llm env (aiProvider (p_settings props)) [] (OptimizeParagraphsPrompt original) = Inr reply"
    and bad: "mergeParagraphsJson (runtime env) (helpers env) (trim reply) original = Inl err"
    and second: "llm env (aiProvider (p_settings props)) [OptimizeParagraphsPrompt original]
                   (JsonRepairPrompt (trim reply)) = Inr reply2"
    and bad2: "mergeParagraphsJson (runtime env) (helpers env) (trim reply2) original = Inl err2"
  shows "go_requests (generateOptimizedResume env props (Some result) st ui) =
           [OptimizeParagraphsPrompt original, JsonRepairPrompt (trim reply)] \<and>
         go_error (generateOptimizedResume env props (Some result) st ui) = Some (MergeFailed err2) \<and>
         rewriteStatus (go_view (generateOptimizedResume env props (Some result) st ui)) = Failed \<and>
         rewriteFullText (go_view (generateOptimizedResume env props (Some result) st ui)) = []"
  using generateOptimizedResume_error
    [OF generateText_draft_error [OF orig firstDraft_repair_fails [OF key first bad second bad2]],
      of result st ui]
  by simp

lemma repair_request_fails:
  assumes orig: "originalParagraphsOf env (p_resume props) = Inr (Some original)"
    and key: "keyPresent (p_settings props)"
    and first: "llm env (aiProvider (p_settings props)) [] (OptimizeParagraphsPrompt original) = Inr reply"
    and bad: "mergeParagraphsJson (runtime env) (helpers env) (trim reply) original = Inl err"
    and second: "llm env (aiProvider (p_settings props)) [OptimizeParagraphsPrompt original]
                   (JsonRepairPrompt (trim reply)) = Inl e"
  shows "go_requests (generateOptimizedResume env props (Some result) st ui) =
           [OptimizeParagraphsPrompt original, JsonRepairPrompt (trim reply)] \<and>
         go_error (generateOptimizedResume env props (Some result) st ui) \<noteq> None \<and>
         rewriteStatus (go_view (generateOptimizedResume env props (Some result) st ui)) =
           (if e = Aborted then Cancelled else Failed) \<and>
         rewriteFullText (go_view (generateOptimizedResume env props (Some result) st ui)) = []"
  using generateOptimizedResume_error
    [OF generateText_draft_error [OF orig firstDraft_repair_error [OF key first bad second]],
      of result st ui]
  by (cases e) simp_all

text \<open>
  Claim C2. Let the resume be a DOCX whose paragraphs are read, the key of the
  provider be set, and the answer to the first request not merge into the
  paragraphs (\<^verbatim>\<open>mergeParagraphsJson\<close> throws). Then \<^verbatim>\<open>generateOptimizedResume\<close> sends,
  right after the first request, one JSON repair request with the trimmed answer,
  and this is the only JSON repair request among the at most four requests of the
  run. If the answer to the repair request does not merge either, or if the repair
  request itself fails, these two requests are all that is sent, the run ends with
  the error and shows no text. The requests that may follow a repaired answer are
  the placeholder retry and the refinement pass, each sent at most once.
\<close>

theorem json_repair_requested_once:
  assumes "originalParagraphsOf env (p_resume props) = Inr (Some original)"
    and "keyPresent (p_settings props)"
    and "llm env (aiProvider (p_settings props)) [] (OptimizeParagraphsPrompt original) = Inr reply"
    and "mergeParagraphsJson (runtime env) (helpers env) (trim reply) original = Inl err"
  shows "take 2 (go_requests (generateOptimizedResume env props (Some result) st ui)) =
           [OptimizeParagraphsPrompt original, JsonRepairPrompt (trim reply)] \<and>
         filter isJsonRepair (go_requests (generateOptimizedResume env props (Some result) st ui)) =
           [JsonRepairPrompt (trim reply)] \<and>
         length (go_requests (generateOptimizedResume env props (Some result) st ui)) \<le> 4 \<and>
         (\<forall>reply2 err2.
            llm env (aiProvider (p_settings props)) [OptimizeParagraphsPrompt original]
              (JsonRepairPrompt (trim reply)) = Inr reply2 \<longrightarrow>
            mergeParagraphsJson (runtime env) (helpers env) (trim reply2) original = Inl err2 \<longrightarrow>
              go_requests (generateOptimizedResume env props (Some result) st ui) =
                [OptimizeParagraphsPrompt original, JsonRepairPrompt (trim reply)] \<and>
              go_error (generateOptimizedResume env props (Some result) st ui) =
                Some (MergeFailed err2) \<and>
              rewriteStatus (go_view (generateOptimizedResume env props (Some result) st ui)) = Failed \<and>
              rewriteFullText (go_view (generateOptimizedResume env props (Some result) st ui)) = []) \<and>
         (\<forall>e.
            llm env (aiProvider (p_settings props)) [OptimizeParagraphsPrompt original]
              (JsonRepairPrompt (trim reply)) = Inl e \<longrightarrow>
              go_requests (generateOptimizedResume env props (Some result) st ui) =
                [OptimizeParagraphsPrompt original, JsonRepairPrompt (trim reply)] \<and>
              go_error (generateOptimizedResume env props (Some result) st ui) \<noteq> None \<and>
              rewriteStatus (go_view (generateOptimizedResume env props (Some result) st ui)) =
                (if e = Aborted then Cancelled else Failed) \<and>
              rewriteFullText (go_view (generateOptimizedResume env props (Some result) st ui)) = [])"
proof (intro conjI allI impI)
  show "take 2 (go_requests (generateOptimizedResume env props (Some result) st ui)) =
           [OptimizeParagraphsPrompt original, JsonRepairPrompt (trim reply)]"
    by (rule repair_requests(1) [OF assms])
  show "filter isJsonRepair (go_requests (generateOptimizedResume env props (Some result) st ui)) =
           [JsonRepairPrompt (trim reply)]"
    by (rule repair_requests(2) [OF assms])
  show "length (go_requests (generateOptimizedResume env props (Some result) st ui)) \<le> 4"
    by (rule repair_requests(3) [OF assms])
next
  fix reply2 err2
  assume s: "llm env (aiProvider (p_settings props)) [OptimizeParagraphsPrompt original]
              (JsonRepairPrompt (trim reply)) = Inr reply2"
    and b: "mergeParagraphsJson (runtime env) (helpers env) (trim reply2) original = Inl err2"
  note f = repair_fails [OF assms s b, of result st ui]
  show "go_requests (generateOptimizedResume env props (Some result) st ui) =
                [OptimizeParagraphsPrompt original, JsonRepairPrompt (trim reply)]"
    using f by blast
  show "go_error (generateOptimizedResume env props (Some result) st ui) = Some (MergeFailed err2)"
    using f by blast
  show "rewriteStatus (go_view (generateOptimizedResume env props (Some result) st ui)) = Failed"
    using f by blast
  show "rewriteFullText (go_view (generateOptimizedResume env props (Some result) st ui)) = []"
    using f by blast
next
  fix e
  assume s: "llm env (aiProvider (p_settings props)) [OptimizeParagraphsPrompt original]
              (JsonRepairPrompt (trim reply)) = Inl e"
  note f = repair_request_fails [OF assms s, of result st ui]
  show "go_requests (generateOptimizedResume env props (Some result) st ui) =
                [OptimizeParagraphsPrompt original, JsonRepairPrompt (trim reply)]"
    using f by blast
  show "go_error (generateOptimizedResume env props (Some result) st ui) \<noteq> None"
    using f by blast
  show "rewriteStatus (go_view (generateOptimizedResume env props (Some result) st ui)) =
                (if e = Aborted then Cancelled else Failed)"
    using f by blast
  show "rewriteFullText (go_view (generateOptimizedResume env props (Some result) st ui)) = []"
    using f by blast
qed

theorem json_repair_requested_once_witness:
  "originalParagraphsOf apologizingEnv (p_resume exampleProps) =
     Inr (Some [''Jane Doe'', ''Engineer'']) \<and>
   keyPresent (p_settings exampleProps) \<and>
   mergeParagraphsJson (runtime apologizingEnv) (helpers apologizingEnv)
     (trim '' Sorry, I cannot do that. '') [''Jane Doe'', ''Engineer''] = Inl NotValidJson \<and>
   go_requests (generateOptimizedResume apologizingEnv exampleProps (Some exampleAnalysis)
      emptyStorage (exampleView [] RewriteResume)) =
     [OptimizeParagraphsPrompt [''Jane Doe'', ''Engineer''],
      JsonRepairPrompt (trim '' Sorry, I cannot do that. '')] \<and>
   go_error (generateOptimizedResume apologizingEnv exampleProps (Some exampleAnalysis)
      emptyStorage (exampleView [] RewriteResume)) = Some (MergeFailed NotValidJson) \<and>
   rewriteStatus (go_view (generateOptimizedResume apologizingEnv exampleProps (Some exampleAnalysis)
      emptyStorage (exampleView [] RewriteResume))) = Failed \<and>
   filter isJsonRepair (go_requests (generateOptimizedResume repairingEnv exampleProps
      (Some exampleAnalysis) emptyStorage (exampleView [] RewriteResume))) =
     [JsonRepairPrompt (trim '' Sorry, I cannot do that. '')] \<and>
   go_requests (generateOptimizedResume repairingEnv exampleProps (Some exampleAnalysis)
      emptyStorage (exampleView [] RewriteResume)) =
     [OptimizeParagraphsPrompt [''Jane Doe'', ''Engineer''],
      JsonRepairPrompt ''Sorry, I cannot do that.'',
      RefineParagraphsPrompt [] (joinLines [''Jane Doe'', ''Engineer''])] \<and>
   go_error (generateOptimizedResume repairingEnv exampleProps (Some exampleAnalysis)
      emptyStorage (exampleView [] RewriteResume)) = None"
proof -
  have h1: "originalParagraphsOf apologizingEnv (p_resume exampleProps) =
      Inr (Some [''Jane Doe'', ''Engineer''])"
    by code_simp
  have h2: "keyPresent (p_settings exampleProps)"
    by code_simp
  have h3: "llm apologizingEnv (aiProvider (p_settings exampleProps)) []
      (OptimizeParagraphsPrompt [''Jane Doe'', ''Engineer'']) = Inr '' Sorry, I cannot do that. ''"
    by (simp add: apologizingEnv_def)
  have h4: "mergeParagraphsJson (runtime apologizingEnv) (helpers apologizingEnv)
      (trim '' Sorry, I cannot do that. '') [''Jane Doe'', ''Engineer''] = Inl NotValidJson"
    by code_simp
  have h5: "llm apologizingEnv (aiProvider (p_settings exampleProps))
      [OptimizeParagraphsPrompt [''Jane Doe'', ''Engineer'']]
      (JsonRepairPrompt (trim '' Sorry, I cannot do that. '')) = Inr '' Sorry, I cannot do that. ''"
    by (simp add: apologizingEnv_def)
  have k1: "originalParagraphsOf repairingEnv (p_resume exampleProps) =
      Inr (Some [''Jane Doe'', ''Engineer''])"
    by code_simp
  have k3: "llm repairingEnv (aiProvider (p_settings exampleProps)) []
      (OptimizeParagraphsPrompt [''Jane Doe'', ''Engineer'']) = Inr '' Sorry, I cannot do that. ''"
    by (simp add: repairingEnv_def)
  have k4: "mergeParagraphsJson (runtime repairingEnv) (helpers repairingEnv)
      (trim '' Sorry, I cannot do that. '') [''Jane Doe'', ''Engineer''] = Inl NotValidJson"
    by code_simp
  have g2: "go_requests (generateOptimizedResume repairingEnv exampleProps (Some exampleAnalysis)
      emptyStorage (exampleView [] RewriteResume)) =
     [OptimizeParagraphsPrompt [''Jane Doe'', ''Engineer''],
      JsonRepairPrompt ''Sorry, I cannot do that.'',
      RefineParagraphsPrompt [] (joinLines [''Jane Doe'', ''Engineer''])]"
    by code_simp
  have g3: "go_error (generateOptimizedResume repairingEnv exampleProps (Some exampleAnalysis)
      emptyStorage (exampleView [] RewriteResume)) = None"
    by code_simp
  note a = json_repair_requested_once [OF h1 h2 h3 h4, of exampleAnalysis emptyStorage
      "exampleView [] RewriteResume"]
  note a4 = a [THEN conjunct2, THEN conjunct2, THEN conjunct2, THEN conjunct1, rule_format,
      OF h5 h4]
  note b = json_repair_requested_once [OF k1 h2 k3 k4, of exampleAnalysis emptyStorage
      "exampleView [] RewriteResume"]
  note b2 = b [THEN conjunct2, THEN conjunct1]
  from h1 h2 h4 a4 b2 g2 g3 show ?thesis
    by blast
qed


end
